theory Spec2Isabelle
  imports Main "HOL-Library.AList"
begin

section \<open>The Python runtime the logger module runs on\<close>

text \<open>
  The module \<^verbatim>\<open>src/logger.py\<close> is a thin layer over Python's \<^verbatim>\<open>logging\<close> package,
  the file system and the helper constructors of \<^verbatim>\<open>src/handler_helpers.py\<close>.
  Exceptions are values of the type \<open>error\<close>; a function that can raise returns
  \<open>error + 'a\<close> together with the state it leaves behind.
\<close>

datatype error =
  RuntimeError | KeyError | UnboundLocalError | AttributeError | OSError | ValueError

subsection \<open>Severity constants of \<^verbatim>\<open>logging\<close>\<close>

definition logging_NOTSET :: int where "logging_NOTSET = 0"
definition logging_DEBUG :: int where "logging_DEBUG = 10"
definition logging_INFO :: int where "logging_INFO = 20"
definition logging_WARNING :: int where "logging_WARNING = 30"
definition logging_ERROR :: int where "logging_ERROR = 40"
definition logging_CRITICAL :: int where "logging_CRITICAL = 50"

subsection \<open>Strings\<close>

text \<open>
  A Python \<^verbatim>\<open>str\<close> is a sequence of Unicode code points; it is modelled by its UTF-8
  encoding, a HOL \<open>string\<close> of bytes. A code point below 128 is one byte, every
  other code point is a sequence of two to four bytes from 128 on, and no encoding
  of a code point is a prefix of another.

  \<^verbatim>\<open>str.upper()\<close> replaces every code point by its full upper-case mapping. On the
  code points below 128 this moves \<open>a\<close> .. \<open>z\<close> (97 .. 122) down by 32 and keeps the
  rest.
\<close>

definition upper_ascii :: "char \<Rightarrow> char" where
  "upper_ascii c =
     (if 97 \<le> (of_char c :: nat) \<and> (of_char c :: nat) \<le> 122
      then char_of ((of_char c :: nat) - 32) else c)"

text \<open>
  Beyond ASCII the mapping is a table. The following lists hold, in the order of
  the code points, every code point from 128 on that \<^verbatim>\<open>str.upper()\<close> changes in
  CPython 3.11 (Unicode 14.0), except U+0131: the UTF-8 encoding of the code point
  and the UTF-8 encoding of what it becomes.
\<close>

definition upper_table_01 :: "(string \<times> string) list" where
  "upper_table_01 =
     [([CHR 0xC2, CHR 0xB5], [CHR 0xCE, CHR 0x9C]),
      ([CHR 0xC3, CHR 0x9F], [CHR 0x53, CHR 0x53]),
      ([CHR 0xC3, CHR 0xA0], [CHR 0xC3, CHR 0x80]),
      ([CHR 0xC3, CHR 0xA1], [CHR 0xC3, CHR 0x81]),
      ([CHR 0xC3, CHR 0xA2], [CHR 0xC3, CHR 0x82]),
      ([CHR 0xC3, CHR 0xA3], [CHR 0xC3, CHR 0x83]),
      ([CHR 0xC3, CHR 0xA4], [CHR 0xC3, CHR 0x84]),
      ([CHR 0xC3, CHR 0xA5], [CHR 0xC3, CHR 0x85]),
      ([CHR 0xC3, CHR 0xA6], [CHR 0xC3, CHR 0x86]),
      ([CHR 0xC3, CHR 0xA7], [CHR 0xC3, CHR 0x87]),
      ([CHR 0xC3, CHR 0xA8], [CHR 0xC3, CHR 0x88]),
      ([CHR 0xC3, CHR 0xA9], [CHR 0xC3, CHR 0x89]),
      ([CHR 0xC3, CHR 0xAA], [CHR 0xC3, CHR 0x8A]),
      ([CHR 0xC3, CHR 0xAB], [CHR 0xC3, CHR 0x8B]),
      ([CHR 0xC3, CHR 0xAC], [CHR 0xC3, CHR 0x8C]),
      ([CHR 0xC3, CHR 0xAD], [CHR 0xC3, CHR 0x8D]),
      ([CHR 0xC3, CHR 0xAE], [CHR 0xC3, CHR 0x8E]),
      ([CHR 0xC3, CHR 0xAF], [CHR 0xC3, CHR 0x8F]),
      ([CHR 0xC3, CHR 0xB0], [CHR 0xC3, CHR 0x90]),
      ([CHR 0xC3, CHR 0xB1], [CHR 0xC3, CHR 0x91]),
      ([CHR 0xC3, CHR 0xB2], [CHR 0xC3, CHR 0x92]),
      ([CHR 0xC3, CHR 0xB3], [CHR 0xC3, CHR 0x93]),
      ([CHR 0xC3, CHR 0xB4], [CHR 0xC3, CHR 0x94]),
      ([CHR 0xC3, CHR 0xB5], [CHR 0xC3, CHR 0x95]),
      ([CHR 0xC3, CHR 0xB6], [CHR 0xC3, CHR 0x96]),
      ([CHR 0xC3, CHR 0xB8], [CHR 0xC3, CHR 0x98]),
      ([CHR 0xC3, CHR 0xB9], [CHR 0xC3, CHR 0x99]),
      ([CHR 0xC3, CHR 0xBA], [CHR 0xC3, CHR 0x9A]),
      ([CHR 0xC3, CHR 0xBB], [CHR 0xC3, CHR 0x9B]),
      ([CHR 0xC3, CHR 0xBC], [CHR 0xC3, CHR 0x9C]),
      ([CHR 0xC3, CHR 0xBD], [CHR 0xC3, CHR 0x9D]),
      ([CHR 0xC3, CHR 0xBE], [CHR 0xC3, CHR 0x9E]),
      ([CHR 0xC3, CHR 0xBF], [CHR 0xC5, CHR 0xB8]),
      ([CHR 0xC4, CHR 0x81], [CHR 0xC4, CHR 0x80]),
      ([CHR 0xC4, CHR 0x83], [CHR 0xC4, CHR 0x82]),
      ([CHR 0xC4, CHR 0x85], [CHR 0xC4, CHR 0x84]),
      ([CHR 0xC4, CHR 0x87], [CHR 0xC4, CHR 0x86]),
      ([CHR 0xC4, CHR 0x89], [CHR 0xC4, CHR 0x88]),
      ([CHR 0xC4, CHR 0x8B], [CHR 0xC4, CHR 0x8A]),
      ([CHR 0xC4, CHR 0x8D], [CHR 0xC4, CHR 0x8C]),
      ([CHR 0xC4, CHR 0x8F], [CHR 0xC4, CHR 0x8E]),
      ([CHR 0xC4, CHR 0x91], [CHR 0xC4, CHR 0x90]),
      ([CHR 0xC4, CHR 0x93], [CHR 0xC4, CHR 0x92]),
      ([CHR 0xC4, CHR 0x95], [CHR 0xC4, CHR 0x94]),
      ([CHR 0xC4, CHR 0x97], [CHR 0xC4, CHR 0x96]),
      ([CHR 0xC4, CHR 0x99], [CHR 0xC4, CHR 0x98]),
      ([CHR 0xC4, CHR 0x9B], [CHR 0xC4, CHR 0x9A]),
      ([CHR 0xC4, CHR 0x9D], [CHR 0xC4, CHR 0x9C]),
      ([CHR 0xC4, CHR 0x9F], [CHR 0xC4, CHR 0x9E]),
      ([CHR 0xC4, CHR 0xA1], [CHR 0xC4, CHR 0xA0]),
      ([CHR 0xC4, CHR 0xA3], [CHR 0xC4, CHR 0xA2]),
      ([CHR 0xC4, CHR 0xA5], [CHR 0xC4, CHR 0xA4]),
      ([CHR 0xC4, CHR 0xA7], [CHR 0xC4, CHR 0xA6]),
      ([CHR 0xC4, CHR 0xA9], [CHR 0xC4, CHR 0xA8]),
      ([CHR 0xC4, CHR 0xAB], [CHR 0xC4, CHR 0xAA]),
      ([CHR 0xC4, CHR 0xAD], [CHR 0xC4, CHR 0xAC]),
      ([CHR 0xC4, CHR 0xAF], [CHR 0xC4, CHR 0xAE]),
      ([CHR 0xC4, CHR 0xB3], [CHR 0xC4, CHR 0xB2]),
      ([CHR 0xC4, CHR 0xB5], [CHR 0xC4, CHR 0xB4]),
      ([CHR 0xC4, CHR 0xB7], [CHR 0xC4, CHR 0xB6]),
      ([CHR 0xC4, CHR 0xBA], [CHR 0xC4, CHR 0xB9]),
      ([CHR 0xC4, CHR 0xBC], [CHR 0xC4, CHR 0xBB]),
      ([CHR 0xC4, CHR 0xBE], [CHR 0xC4, CHR 0xBD]),
      ([CHR 0xC5, CHR 0x80], [CHR 0xC4, CHR 0xBF]),
      ([CHR 0xC5, CHR 0x82], [CHR 0xC5, CHR 0x81]),
      ([CHR 0xC5, CHR 0x84], [CHR 0xC5, CHR 0x83]),
      ([CHR 0xC5, CHR 0x86], [CHR 0xC5, CHR 0x85]),
      ([CHR 0xC5, CHR 0x88], [CHR 0xC5, CHR 0x87]),
      ([CHR 0xC5, CHR 0x89], [CHR 0xCA, CHR 0xBC, CHR 0x4E]),
      ([CHR 0xC5, CHR 0x8B], [CHR 0xC5, CHR 0x8A]),
      ([CHR 0xC5, CHR 0x8D], [CHR 0xC5, CHR 0x8C]),
      ([CHR 0xC5, CHR 0x8F], [CHR 0xC5, CHR 0x8E]),
      ([CHR 0xC5, CHR 0x91], [CHR 0xC5, CHR 0x90]),
      ([CHR 0xC5, CHR 0x93], [CHR 0xC5, CHR 0x92]),
      ([CHR 0xC5, CHR 0x95], [CHR 0xC5, CHR 0x94]),
      ([CHR 0xC5, CHR 0x97], [CHR 0xC5, CHR 0x96]),
      ([CHR 0xC5, CHR 0x99], [CHR 0xC5, CHR 0x98]),
      ([CHR 0xC5, CHR 0x9B], [CHR 0xC5, CHR 0x9A]),
      ([CHR 0xC5, CHR 0x9D], [CHR 0xC5, CHR 0x9C]),
      ([CHR 0xC5, CHR 0x9F], [CHR 0xC5, CHR 0x9E]),
      ([CHR 0xC5, CHR 0xA1], [CHR 0xC5, CHR 0xA0]),
      ([CHR 0xC5, CHR 0xA3], [CHR 0xC5, CHR 0xA2]),
      ([CHR 0xC5, CHR 0xA5], [CHR 0xC5, CHR 0xA4]),
      ([CHR 0xC5, CHR 0xA7], [CHR 0xC5, CHR 0xA6]),
      ([CHR 0xC5, CHR 0xA9], [CHR 0xC5, CHR 0xA8]),
      ([CHR 0xC5, CHR 0xAB], [CHR 0xC5, CHR 0xAA]),
      ([CHR 0xC5, CHR 0xAD], [CHR 0xC5, CHR 0xAC]),
      ([CHR 0xC5, CHR 0xAF], [CHR 0xC5, CHR 0xAE]),
      ([CHR 0xC5, CHR 0xB1], [CHR 0xC5, CHR 0xB0]),
      ([CHR 0xC5, CHR 0xB3], [CHR 0xC5, CHR 0xB2]),
      ([CHR 0xC5, CHR 0xB5], [CHR 0xC5, CHR 0xB4]),
      ([CHR 0xC5, CHR 0xB7], [CHR 0xC5, CHR 0xB6]),
      ([CHR 0xC5, CHR 0xBA], [CHR 0xC5, CHR 0xB9]),
      ([CHR 0xC5, CHR 0xBC], [CHR 0xC5, CHR 0xBB]),
      ([CHR 0xC5, CHR 0xBE], [CHR 0xC5, CHR 0xBD]),
      ([CHR 0xC5, CHR 0xBF], [CHR 0x53]),
      ([CHR 0xC6, CHR 0x80], [CHR 0xC9, CHR 0x83]),
      ([CHR 0xC6, CHR 0x83], [CHR 0xC6, CHR 0x82]),
      ([CHR 0xC6, CHR 0x85], [CHR 0xC6, CHR 0x84]),
      ([CHR 0xC6, CHR 0x88], [CHR 0xC6, CHR 0x87])]"

definition upper_table_02 :: "(string \<times> string) list" where
  "upper_table_02 =
     [([CHR 0xC6, CHR 0x8C], [CHR 0xC6, CHR 0x8B]),
      ([CHR 0xC6, CHR 0x92], [CHR 0xC6, CHR 0x91]),
      ([CHR 0xC6, CHR 0x95], [CHR 0xC7, CHR 0xB6]),
      ([CHR 0xC6, CHR 0x99], [CHR 0xC6, CHR 0x98]),
      ([CHR 0xC6, CHR 0x9A], [CHR 0xC8, CHR 0xBD]),
      ([CHR 0xC6, CHR 0x9E], [CHR 0xC8, CHR 0xA0]),
      ([CHR 0xC6, CHR 0xA1], [CHR 0xC6, CHR 0xA0]),
      ([CHR 0xC6, CHR 0xA3], [CHR 0xC6, CHR 0xA2]),
      ([CHR 0xC6, CHR 0xA5], [CHR 0xC6, CHR 0xA4]),
      ([CHR 0xC6, CHR 0xA8], [CHR 0xC6, CHR 0xA7]),
      ([CHR 0xC6, CHR 0xAD], [CHR 0xC6, CHR 0xAC]),
      ([CHR 0xC6, CHR 0xB0], [CHR 0xC6, CHR 0xAF]),
      ([CHR 0xC6, CHR 0xB4], [CHR 0xC6, CHR 0xB3]),
      ([CHR 0xC6, CHR 0xB6], [CHR 0xC6, CHR 0xB5]),
      ([CHR 0xC6, CHR 0xB9], [CHR 0xC6, CHR 0xB8]),
      ([CHR 0xC6, CHR 0xBD], [CHR 0xC6, CHR 0xBC]),
      ([CHR 0xC6, CHR 0xBF], [CHR 0xC7, CHR 0xB7]),
      ([CHR 0xC7, CHR 0x85], [CHR 0xC7, CHR 0x84]),
      ([CHR 0xC7, CHR 0x86], [CHR 0xC7, CHR 0x84]),
      ([CHR 0xC7, CHR 0x88], [CHR 0xC7, CHR 0x87]),
      ([CHR 0xC7, CHR 0x89], [CHR 0xC7, CHR 0x87]),
      ([CHR 0xC7, CHR 0x8B], [CHR 0xC7, CHR 0x8A]),
      ([CHR 0xC7, CHR 0x8C], [CHR 0xC7, CHR 0x8A]),
      ([CHR 0xC7, CHR 0x8E], [CHR 0xC7, CHR 0x8D]),
      ([CHR 0xC7, CHR 0x90], [CHR 0xC7, CHR 0x8F]),
      ([CHR 0xC7, CHR 0x92], [CHR 0xC7, CHR 0x91]),
      ([CHR 0xC7, CHR 0x94], [CHR 0xC7, CHR 0x93]),
      ([CHR 0xC7, CHR 0x96], [CHR 0xC7, CHR 0x95]),
      ([CHR 0xC7, CHR 0x98], [CHR 0xC7, CHR 0x97]),
      ([CHR 0xC7, CHR 0x9A], [CHR 0xC7, CHR 0x99]),
      ([CHR 0xC7, CHR 0x9C], [CHR 0xC7, CHR 0x9B]),
      ([CHR 0xC7, CHR 0x9D], [CHR 0xC6, CHR 0x8E]),
      ([CHR 0xC7, CHR 0x9F], [CHR 0xC7, CHR 0x9E]),
      ([CHR 0xC7, CHR 0xA1], [CHR 0xC7, CHR 0xA0]),
      ([CHR 0xC7, CHR 0xA3], [CHR 0xC7, CHR 0xA2]),
      ([CHR 0xC7, CHR 0xA5], [CHR 0xC7, CHR 0xA4]),
      ([CHR 0xC7, CHR 0xA7], [CHR 0xC7, CHR 0xA6]),
      ([CHR 0xC7, CHR 0xA9], [CHR 0xC7, CHR 0xA8]),
      ([CHR 0xC7, CHR 0xAB], [CHR 0xC7, CHR 0xAA]),
      ([CHR 0xC7, CHR 0xAD], [CHR 0xC7, CHR 0xAC]),
      ([CHR 0xC7, CHR 0xAF], [CHR 0xC7, CHR 0xAE]),
      ([CHR 0xC7, CHR 0xB0], [CHR 0x4A, CHR 0xCC, CHR 0x8C]),
      ([CHR 0xC7, CHR 0xB2], [CHR 0xC7, CHR 0xB1]),
      ([CHR 0xC7, CHR 0xB3], [CHR 0xC7, CHR 0xB1]),
      ([CHR 0xC7, CHR 0xB5], [CHR 0xC7, CHR 0xB4]),
      ([CHR 0xC7, CHR 0xB9], [CHR 0xC7, CHR 0xB8]),
      ([CHR 0xC7, CHR 0xBB], [CHR 0xC7, CHR 0xBA]),
      ([CHR 0xC7, CHR 0xBD], [CHR 0xC7, CHR 0xBC]),
      ([CHR 0xC7, CHR 0xBF], [CHR 0xC7, CHR 0xBE]),
      ([CHR 0xC8, CHR 0x81], [CHR 0xC8, CHR 0x80]),
      ([CHR 0xC8, CHR 0x83], [CHR 0xC8, CHR 0x82]),
      ([CHR 0xC8, CHR 0x85], [CHR 0xC8, CHR 0x84]),
      ([CHR 0xC8, CHR 0x87], [CHR 0xC8, CHR 0x86]),
      ([CHR 0xC8, CHR 0x89], [CHR 0xC8, CHR 0x88]),
      ([CHR 0xC8, CHR 0x8B], [CHR 0xC8, CHR 0x8A]),
      ([CHR 0xC8, CHR 0x8D], [CHR 0xC8, CHR 0x8C]),
      ([CHR 0xC8, CHR 0x8F], [CHR 0xC8, CHR 0x8E]),
      ([CHR 0xC8, CHR 0x91], [CHR 0xC8, CHR 0x90]),
      ([CHR 0xC8, CHR 0x93], [CHR 0xC8, CHR 0x92]),
      ([CHR 0xC8, CHR 0x95], [CHR 0xC8, CHR 0x94]),
      ([CHR 0xC8, CHR 0x97], [CHR 0xC8, CHR 0x96]),
      ([CHR 0xC8, CHR 0x99], [CHR 0xC8, CHR 0x98]),
      ([CHR 0xC8, CHR 0x9B], [CHR 0xC8, CHR 0x9A]),
      ([CHR 0xC8, CHR 0x9D], [CHR 0xC8, CHR 0x9C]),
      ([CHR 0xC8, CHR 0x9F], [CHR 0xC8, CHR 0x9E]),
      ([CHR 0xC8, CHR 0xA3], [CHR 0xC8, CHR 0xA2]),
      ([CHR 0xC8, CHR 0xA5], [CHR 0xC8, CHR 0xA4]),
      ([CHR 0xC8, CHR 0xA7], [CHR 0xC8, CHR 0xA6]),
      ([CHR 0xC8, CHR 0xA9], [CHR 0xC8, CHR 0xA8]),
      ([CHR 0xC8, CHR 0xAB], [CHR 0xC8, CHR 0xAA]),
      ([CHR 0xC8, CHR 0xAD], [CHR 0xC8, CHR 0xAC]),
      ([CHR 0xC8, CHR 0xAF], [CHR 0xC8, CHR 0xAE]),
      ([CHR 0xC8, CHR 0xB1], [CHR 0xC8, CHR 0xB0]),
      ([CHR 0xC8, CHR 0xB3], [CHR 0xC8, CHR 0xB2]),
      ([CHR 0xC8, CHR 0xBC], [CHR 0xC8, CHR 0xBB]),
      ([CHR 0xC8, CHR 0xBF], [CHR 0xE2, CHR 0xB1, CHR 0xBE]),
      ([CHR 0xC9, CHR 0x80], [CHR 0xE2, CHR 0xB1, CHR 0xBF]),
      ([CHR 0xC9, CHR 0x82], [CHR 0xC9, CHR 0x81]),
      ([CHR 0xC9, CHR 0x87], [CHR 0xC9, CHR 0x86]),
      ([CHR 0xC9, CHR 0x89], [CHR 0xC9, CHR 0x88]),
      ([CHR 0xC9, CHR 0x8B], [CHR 0xC9, CHR 0x8A]),
      ([CHR 0xC9, CHR 0x8D], [CHR 0xC9, CHR 0x8C]),
      ([CHR 0xC9, CHR 0x8F], [CHR 0xC9, CHR 0x8E]),
      ([CHR 0xC9, CHR 0x90], [CHR 0xE2, CHR 0xB1, CHR 0xAF]),
      ([CHR 0xC9, CHR 0x91], [CHR 0xE2, CHR 0xB1, CHR 0xAD]),
      ([CHR 0xC9, CHR 0x92], [CHR 0xE2, CHR 0xB1, CHR 0xB0]),
      ([CHR 0xC9, CHR 0x93], [CHR 0xC6, CHR 0x81]),
      ([CHR 0xC9, CHR 0x94], [CHR 0xC6, CHR 0x86]),
      ([CHR 0xC9, CHR 0x96], [CHR 0xC6, CHR 0x89]),
      ([CHR 0xC9, CHR 0x97], [CHR 0xC6, CHR 0x8A]),
      ([CHR 0xC9, CHR 0x99], [CHR 0xC6, CHR 0x8F]),
      ([CHR 0xC9, CHR 0x9B], [CHR 0xC6, CHR 0x90]),
      ([CHR 0xC9, CHR 0x9C], [CHR 0xEA, CHR 0x9E, CHR 0xAB]),
      ([CHR 0xC9, CHR 0xA0], [CHR 0xC6, CHR 0x93]),
      ([CHR 0xC9, CHR 0xA1], [CHR 0xEA, CHR 0x9E, CHR 0xAC]),
      ([CHR 0xC9, CHR 0xA3], [CHR 0xC6, CHR 0x94]),
      ([CHR 0xC9, CHR 0xA5], [CHR 0xEA, CHR 0x9E, CHR 0x8D]),
      ([CHR 0xC9, CHR 0xA6], [CHR 0xEA, CHR 0x9E, CHR 0xAA]),
      ([CHR 0xC9, CHR 0xA8], [CHR 0xC6, CHR 0x97]),
      ([CHR 0xC9, CHR 0xA9], [CHR 0xC6, CHR 0x96])]"

definition upper_table_03 :: "(string \<times> string) list" where
  "upper_table_03 =
     [([CHR 0xC9, CHR 0xAA], [CHR 0xEA, CHR 0x9E, CHR 0xAE]),
      ([CHR 0xC9, CHR 0xAB], [CHR 0xE2, CHR 0xB1, CHR 0xA2]),
      ([CHR 0xC9, CHR 0xAC], [CHR 0xEA, CHR 0x9E, CHR 0xAD]),
      ([CHR 0xC9, CHR 0xAF], [CHR 0xC6, CHR 0x9C]),
      ([CHR 0xC9, CHR 0xB1], [CHR 0xE2, CHR 0xB1, CHR 0xAE]),
      ([CHR 0xC9, CHR 0xB2], [CHR 0xC6, CHR 0x9D]),
      ([CHR 0xC9, CHR 0xB5], [CHR 0xC6, CHR 0x9F]),
      ([CHR 0xC9, CHR 0xBD], [CHR 0xE2, CHR 0xB1, CHR 0xA4]),
      ([CHR 0xCA, CHR 0x80], [CHR 0xC6, CHR 0xA6]),
      ([CHR 0xCA, CHR 0x82], [CHR 0xEA, CHR 0x9F, CHR 0x85]),
      ([CHR 0xCA, CHR 0x83], [CHR 0xC6, CHR 0xA9]),
      ([CHR 0xCA, CHR 0x87], [CHR 0xEA, CHR 0x9E, CHR 0xB1]),
      ([CHR 0xCA, CHR 0x88], [CHR 0xC6, CHR 0xAE]),
      ([CHR 0xCA, CHR 0x89], [CHR 0xC9, CHR 0x84]),
      ([CHR 0xCA, CHR 0x8A], [CHR 0xC6, CHR 0xB1]),
      ([CHR 0xCA, CHR 0x8B], [CHR 0xC6, CHR 0xB2]),
      ([CHR 0xCA, CHR 0x8C], [CHR 0xC9, CHR 0x85]),
      ([CHR 0xCA, CHR 0x92], [CHR 0xC6, CHR 0xB7]),
      ([CHR 0xCA, CHR 0x9D], [CHR 0xEA, CHR 0x9E, CHR 0xB2]),
      ([CHR 0xCA, CHR 0x9E], [CHR 0xEA, CHR 0x9E, CHR 0xB0]),
      ([CHR 0xCD, CHR 0x85], [CHR 0xCE, CHR 0x99]),
      ([CHR 0xCD, CHR 0xB1], [CHR 0xCD, CHR 0xB0]),
      ([CHR 0xCD, CHR 0xB3], [CHR 0xCD, CHR 0xB2]),
      ([CHR 0xCD, CHR 0xB7], [CHR 0xCD, CHR 0xB6]),
      ([CHR 0xCD, CHR 0xBB], [CHR 0xCF, CHR 0xBD]),
      ([CHR 0xCD, CHR 0xBC], [CHR 0xCF, CHR 0xBE]),
      ([CHR 0xCD, CHR 0xBD], [CHR 0xCF, CHR 0xBF]),
      ([CHR 0xCE, CHR 0x90], [CHR 0xCE, CHR 0x99, CHR 0xCC, CHR 0x88, CHR 0xCC, CHR 0x81]),
      ([CHR 0xCE, CHR 0xAC], [CHR 0xCE, CHR 0x86]),
      ([CHR 0xCE, CHR 0xAD], [CHR 0xCE, CHR 0x88]),
      ([CHR 0xCE, CHR 0xAE], [CHR 0xCE, CHR 0x89]),
      ([CHR 0xCE, CHR 0xAF], [CHR 0xCE, CHR 0x8A]),
      ([CHR 0xCE, CHR 0xB0], [CHR 0xCE, CHR 0xA5, CHR 0xCC, CHR 0x88, CHR 0xCC, CHR 0x81]),
      ([CHR 0xCE, CHR 0xB1], [CHR 0xCE, CHR 0x91]),
      ([CHR 0xCE, CHR 0xB2], [CHR 0xCE, CHR 0x92]),
      ([CHR 0xCE, CHR 0xB3], [CHR 0xCE, CHR 0x93]),
      ([CHR 0xCE, CHR 0xB4], [CHR 0xCE, CHR 0x94]),
      ([CHR 0xCE, CHR 0xB5], [CHR 0xCE, CHR 0x95]),
      ([CHR 0xCE, CHR 0xB6], [CHR 0xCE, CHR 0x96]),
      ([CHR 0xCE, CHR 0xB7], [CHR 0xCE, CHR 0x97]),
      ([CHR 0xCE, CHR 0xB8], [CHR 0xCE, CHR 0x98]),
      ([CHR 0xCE, CHR 0xB9], [CHR 0xCE, CHR 0x99]),
      ([CHR 0xCE, CHR 0xBA], [CHR 0xCE, CHR 0x9A]),
      ([CHR 0xCE, CHR 0xBB], [CHR 0xCE, CHR 0x9B]),
      ([CHR 0xCE, CHR 0xBC], [CHR 0xCE, CHR 0x9C]),
      ([CHR 0xCE, CHR 0xBD], [CHR 0xCE, CHR 0x9D]),
      ([CHR 0xCE, CHR 0xBE], [CHR 0xCE, CHR 0x9E]),
      ([CHR 0xCE, CHR 0xBF], [CHR 0xCE, CHR 0x9F]),
      ([CHR 0xCF, CHR 0x80], [CHR 0xCE, CHR 0xA0]),
      ([CHR 0xCF, CHR 0x81], [CHR 0xCE, CHR 0xA1]),
      ([CHR 0xCF, CHR 0x82], [CHR 0xCE, CHR 0xA3]),
      ([CHR 0xCF, CHR 0x83], [CHR 0xCE, CHR 0xA3]),
      ([CHR 0xCF, CHR 0x84], [CHR 0xCE, CHR 0xA4]),
      ([CHR 0xCF, CHR 0x85], [CHR 0xCE, CHR 0xA5]),
      ([CHR 0xCF, CHR 0x86], [CHR 0xCE, CHR 0xA6]),
      ([CHR 0xCF, CHR 0x87], [CHR 0xCE, CHR 0xA7]),
      ([CHR 0xCF, CHR 0x88], [CHR 0xCE, CHR 0xA8]),
      ([CHR 0xCF, CHR 0x89], [CHR 0xCE, CHR 0xA9]),
      ([CHR 0xCF, CHR 0x8A], [CHR 0xCE, CHR 0xAA]),
      ([CHR 0xCF, CHR 0x8B], [CHR 0xCE, CHR 0xAB]),
      ([CHR 0xCF, CHR 0x8C], [CHR 0xCE, CHR 0x8C]),
      ([CHR 0xCF, CHR 0x8D], [CHR 0xCE, CHR 0x8E]),
      ([CHR 0xCF, CHR 0x8E], [CHR 0xCE, CHR 0x8F]),
      ([CHR 0xCF, CHR 0x90], [CHR 0xCE, CHR 0x92]),
      ([CHR 0xCF, CHR 0x91], [CHR 0xCE, CHR 0x98]),
      ([CHR 0xCF, CHR 0x95], [CHR 0xCE, CHR 0xA6]),
      ([CHR 0xCF, CHR 0x96], [CHR 0xCE, CHR 0xA0]),
      ([CHR 0xCF, CHR 0x97], [CHR 0xCF, CHR 0x8F]),
      ([CHR 0xCF, CHR 0x99], [CHR 0xCF, CHR 0x98]),
      ([CHR 0xCF, CHR 0x9B], [CHR 0xCF, CHR 0x9A]),
      ([CHR 0xCF, CHR 0x9D], [CHR 0xCF, CHR 0x9C]),
      ([CHR 0xCF, CHR 0x9F], [CHR 0xCF, CHR 0x9E]),
      ([CHR 0xCF, CHR 0xA1], [CHR 0xCF, CHR 0xA0]),
      ([CHR 0xCF, CHR 0xA3], [CHR 0xCF, CHR 0xA2]),
      ([CHR 0xCF, CHR 0xA5], [CHR 0xCF, CHR 0xA4]),
      ([CHR 0xCF, CHR 0xA7], [CHR 0xCF, CHR 0xA6]),
      ([CHR 0xCF, CHR 0xA9], [CHR 0xCF, CHR 0xA8]),
      ([CHR 0xCF, CHR 0xAB], [CHR 0xCF, CHR 0xAA]),
      ([CHR 0xCF, CHR 0xAD], [CHR 0xCF, CHR 0xAC]),
      ([CHR 0xCF, CHR 0xAF], [CHR 0xCF, CHR 0xAE]),
      ([CHR 0xCF, CHR 0xB0], [CHR 0xCE, CHR 0x9A]),
      ([CHR 0xCF, CHR 0xB1], [CHR 0xCE, CHR 0xA1]),
      ([CHR 0xCF, CHR 0xB2], [CHR 0xCF, CHR 0xB9]),
      ([CHR 0xCF, CHR 0xB3], [CHR 0xCD, CHR 0xBF]),
      ([CHR 0xCF, CHR 0xB5], [CHR 0xCE, CHR 0x95]),
      ([CHR 0xCF, CHR 0xB8], [CHR 0xCF, CHR 0xB7]),
      ([CHR 0xCF, CHR 0xBB], [CHR 0xCF, CHR 0xBA]),
      ([CHR 0xD0, CHR 0xB0], [CHR 0xD0, CHR 0x90]),
      ([CHR 0xD0, CHR 0xB1], [CHR 0xD0, CHR 0x91]),
      ([CHR 0xD0, CHR 0xB2], [CHR 0xD0, CHR 0x92]),
      ([CHR 0xD0, CHR 0xB3], [CHR 0xD0, CHR 0x93]),
      ([CHR 0xD0, CHR 0xB4], [CHR 0xD0, CHR 0x94]),
      ([CHR 0xD0, CHR 0xB5], [CHR 0xD0, CHR 0x95]),
      ([CHR 0xD0, CHR 0xB6], [CHR 0xD0, CHR 0x96]),
      ([CHR 0xD0, CHR 0xB7], [CHR 0xD0, CHR 0x97]),
      ([CHR 0xD0, CHR 0xB8], [CHR 0xD0, CHR 0x98]),
      ([CHR 0xD0, CHR 0xB9], [CHR 0xD0, CHR 0x99]),
      ([CHR 0xD0, CHR 0xBA], [CHR 0xD0, CHR 0x9A]),
      ([CHR 0xD0, CHR 0xBB], [CHR 0xD0, CHR 0x9B]),
      ([CHR 0xD0, CHR 0xBC], [CHR 0xD0, CHR 0x9C])]"

definition upper_table_04 :: "(string \<times> string) list" where
  "upper_table_04 =
     [([CHR 0xD0, CHR 0xBD], [CHR 0xD0, CHR 0x9D]),
      ([CHR 0xD0, CHR 0xBE], [CHR 0xD0, CHR 0x9E]),
      ([CHR 0xD0, CHR 0xBF], [CHR 0xD0, CHR 0x9F]),
      ([CHR 0xD1, CHR 0x80], [CHR 0xD0, CHR 0xA0]),
      ([CHR 0xD1, CHR 0x81], [CHR 0xD0, CHR 0xA1]),
      ([CHR 0xD1, CHR 0x82], [CHR 0xD0, CHR 0xA2]),
      ([CHR 0xD1, CHR 0x83], [CHR 0xD0, CHR 0xA3]),
      ([CHR 0xD1, CHR 0x84], [CHR 0xD0, CHR 0xA4]),
      ([CHR 0xD1, CHR 0x85], [CHR 0xD0, CHR 0xA5]),
      ([CHR 0xD1, CHR 0x86], [CHR 0xD0, CHR 0xA6]),
      ([CHR 0xD1, CHR 0x87], [CHR 0xD0, CHR 0xA7]),
      ([CHR 0xD1, CHR 0x88], [CHR 0xD0, CHR 0xA8]),
      ([CHR 0xD1, CHR 0x89], [CHR 0xD0, CHR 0xA9]),
      ([CHR 0xD1, CHR 0x8A], [CHR 0xD0, CHR 0xAA]),
      ([CHR 0xD1, CHR 0x8B], [CHR 0xD0, CHR 0xAB]),
      ([CHR 0xD1, CHR 0x8C], [CHR 0xD0, CHR 0xAC]),
      ([CHR 0xD1, CHR 0x8D], [CHR 0xD0, CHR 0xAD]),
      ([CHR 0xD1, CHR 0x8E], [CHR 0xD0, CHR 0xAE]),
      ([CHR 0xD1, CHR 0x8F], [CHR 0xD0, CHR 0xAF]),
      ([CHR 0xD1, CHR 0x90], [CHR 0xD0, CHR 0x80]),
      ([CHR 0xD1, CHR 0x91], [CHR 0xD0, CHR 0x81]),
      ([CHR 0xD1, CHR 0x92], [CHR 0xD0, CHR 0x82]),
      ([CHR 0xD1, CHR 0x93], [CHR 0xD0, CHR 0x83]),
      ([CHR 0xD1, CHR 0x94], [CHR 0xD0, CHR 0x84]),
      ([CHR 0xD1, CHR 0x95], [CHR 0xD0, CHR 0x85]),
      ([CHR 0xD1, CHR 0x96], [CHR 0xD0, CHR 0x86]),
      ([CHR 0xD1, CHR 0x97], [CHR 0xD0, CHR 0x87]),
      ([CHR 0xD1, CHR 0x98], [CHR 0xD0, CHR 0x88]),
      ([CHR 0xD1, CHR 0x99], [CHR 0xD0, CHR 0x89]),
      ([CHR 0xD1, CHR 0x9A], [CHR 0xD0, CHR 0x8A]),
      ([CHR 0xD1, CHR 0x9B], [CHR 0xD0, CHR 0x8B]),
      ([CHR 0xD1, CHR 0x9C], [CHR 0xD0, CHR 0x8C]),
      ([CHR 0xD1, CHR 0x9D], [CHR 0xD0, CHR 0x8D]),
      ([CHR 0xD1, CHR 0x9E], [CHR 0xD0, CHR 0x8E]),
      ([CHR 0xD1, CHR 0x9F], [CHR 0xD0, CHR 0x8F]),
      ([CHR 0xD1, CHR 0xA1], [CHR 0xD1, CHR 0xA0]),
      ([CHR 0xD1, CHR 0xA3], [CHR 0xD1, CHR 0xA2]),
      ([CHR 0xD1, CHR 0xA5], [CHR 0xD1, CHR 0xA4]),
      ([CHR 0xD1, CHR 0xA7], [CHR 0xD1, CHR 0xA6]),
      ([CHR 0xD1, CHR 0xA9], [CHR 0xD1, CHR 0xA8]),
      ([CHR 0xD1, CHR 0xAB], [CHR 0xD1, CHR 0xAA]),
      ([CHR 0xD1, CHR 0xAD], [CHR 0xD1, CHR 0xAC]),
      ([CHR 0xD1, CHR 0xAF], [CHR 0xD1, CHR 0xAE]),
      ([CHR 0xD1, CHR 0xB1], [CHR 0xD1, CHR 0xB0]),
      ([CHR 0xD1, CHR 0xB3], [CHR 0xD1, CHR 0xB2]),
      ([CHR 0xD1, CHR 0xB5], [CHR 0xD1, CHR 0xB4]),
      ([CHR 0xD1, CHR 0xB7], [CHR 0xD1, CHR 0xB6]),
      ([CHR 0xD1, CHR 0xB9], [CHR 0xD1, CHR 0xB8]),
      ([CHR 0xD1, CHR 0xBB], [CHR 0xD1, CHR 0xBA]),
      ([CHR 0xD1, CHR 0xBD], [CHR 0xD1, CHR 0xBC]),
      ([CHR 0xD1, CHR 0xBF], [CHR 0xD1, CHR 0xBE]),
      ([CHR 0xD2, CHR 0x81], [CHR 0xD2, CHR 0x80]),
      ([CHR 0xD2, CHR 0x8B], [CHR 0xD2, CHR 0x8A]),
      ([CHR 0xD2, CHR 0x8D], [CHR 0xD2, CHR 0x8C]),
      ([CHR 0xD2, CHR 0x8F], [CHR 0xD2, CHR 0x8E]),
      ([CHR 0xD2, CHR 0x91], [CHR 0xD2, CHR 0x90]),
      ([CHR 0xD2, CHR 0x93], [CHR 0xD2, CHR 0x92]),
      ([CHR 0xD2, CHR 0x95], [CHR 0xD2, CHR 0x94]),
      ([CHR 0xD2, CHR 0x97], [CHR 0xD2, CHR 0x96]),
      ([CHR 0xD2, CHR 0x99], [CHR 0xD2, CHR 0x98]),
      ([CHR 0xD2, CHR 0x9B], [CHR 0xD2, CHR 0x9A]),
      ([CHR 0xD2, CHR 0x9D], [CHR 0xD2, CHR 0x9C]),
      ([CHR 0xD2, CHR 0x9F], [CHR 0xD2, CHR 0x9E]),
      ([CHR 0xD2, CHR 0xA1], [CHR 0xD2, CHR 0xA0]),
      ([CHR 0xD2, CHR 0xA3], [CHR 0xD2, CHR 0xA2]),
      ([CHR 0xD2, CHR 0xA5], [CHR 0xD2, CHR 0xA4]),
      ([CHR 0xD2, CHR 0xA7], [CHR 0xD2, CHR 0xA6]),
      ([CHR 0xD2, CHR 0xA9], [CHR 0xD2, CHR 0xA8]),
      ([CHR 0xD2, CHR 0xAB], [CHR 0xD2, CHR 0xAA]),
      ([CHR 0xD2, CHR 0xAD], [CHR 0xD2, CHR 0xAC]),
      ([CHR 0xD2, CHR 0xAF], [CHR 0xD2, CHR 0xAE]),
      ([CHR 0xD2, CHR 0xB1], [CHR 0xD2, CHR 0xB0]),
      ([CHR 0xD2, CHR 0xB3], [CHR 0xD2, CHR 0xB2]),
      ([CHR 0xD2, CHR 0xB5], [CHR 0xD2, CHR 0xB4]),
      ([CHR 0xD2, CHR 0xB7], [CHR 0xD2, CHR 0xB6]),
      ([CHR 0xD2, CHR 0xB9], [CHR 0xD2, CHR 0xB8]),
      ([CHR 0xD2, CHR 0xBB], [CHR 0xD2, CHR 0xBA]),
      ([CHR 0xD2, CHR 0xBD], [CHR 0xD2, CHR 0xBC]),
      ([CHR 0xD2, CHR 0xBF], [CHR 0xD2, CHR 0xBE]),
      ([CHR 0xD3, CHR 0x82], [CHR 0xD3, CHR 0x81]),
      ([CHR 0xD3, CHR 0x84], [CHR 0xD3, CHR 0x83]),
      ([CHR 0xD3, CHR 0x86], [CHR 0xD3, CHR 0x85]),
      ([CHR 0xD3, CHR 0x88], [CHR 0xD3, CHR 0x87]),
      ([CHR 0xD3, CHR 0x8A], [CHR 0xD3, CHR 0x89]),
      ([CHR 0xD3, CHR 0x8C], [CHR 0xD3, CHR 0x8B]),
      ([CHR 0xD3, CHR 0x8E], [CHR 0xD3, CHR 0x8D]),
      ([CHR 0xD3, CHR 0x8F], [CHR 0xD3, CHR 0x80]),
      ([CHR 0xD3, CHR 0x91], [CHR 0xD3, CHR 0x90]),
      ([CHR 0xD3, CHR 0x93], [CHR 0xD3, CHR 0x92]),
      ([CHR 0xD3, CHR 0x95], [CHR 0xD3, CHR 0x94]),
      ([CHR 0xD3, CHR 0x97], [CHR 0xD3, CHR 0x96]),
      ([CHR 0xD3, CHR 0x99], [CHR 0xD3, CHR 0x98]),
      ([CHR 0xD3, CHR 0x9B], [CHR 0xD3, CHR 0x9A]),
      ([CHR 0xD3, CHR 0x9D], [CHR 0xD3, CHR 0x9C]),
      ([CHR 0xD3, CHR 0x9F], [CHR 0xD3, CHR 0x9E]),
      ([CHR 0xD3, CHR 0xA1], [CHR 0xD3, CHR 0xA0]),
      ([CHR 0xD3, CHR 0xA3], [CHR 0xD3, CHR 0xA2]),
      ([CHR 0xD3, CHR 0xA5], [CHR 0xD3, CHR 0xA4]),
      ([CHR 0xD3, CHR 0xA7], [CHR 0xD3, CHR 0xA6]),
      ([CHR 0xD3, CHR 0xA9], [CHR 0xD3, CHR 0xA8])]"

definition upper_table_05 :: "(string \<times> string) list" where
  "upper_table_05 =
     [([CHR 0xD3, CHR 0xAB], [CHR 0xD3, CHR 0xAA]),
      ([CHR 0xD3, CHR 0xAD], [CHR 0xD3, CHR 0xAC]),
      ([CHR 0xD3, CHR 0xAF], [CHR 0xD3, CHR 0xAE]),
      ([CHR 0xD3, CHR 0xB1], [CHR 0xD3, CHR 0xB0]),
      ([CHR 0xD3, CHR 0xB3], [CHR 0xD3, CHR 0xB2]),
      ([CHR 0xD3, CHR 0xB5], [CHR 0xD3, CHR 0xB4]),
      ([CHR 0xD3, CHR 0xB7], [CHR 0xD3, CHR 0xB6]),
      ([CHR 0xD3, CHR 0xB9], [CHR 0xD3, CHR 0xB8]),
      ([CHR 0xD3, CHR 0xBB], [CHR 0xD3, CHR 0xBA]),
      ([CHR 0xD3, CHR 0xBD], [CHR 0xD3, CHR 0xBC]),
      ([CHR 0xD3, CHR 0xBF], [CHR 0xD3, CHR 0xBE]),
      ([CHR 0xD4, CHR 0x81], [CHR 0xD4, CHR 0x80]),
      ([CHR 0xD4, CHR 0x83], [CHR 0xD4, CHR 0x82]),
      ([CHR 0xD4, CHR 0x85], [CHR 0xD4, CHR 0x84]),
      ([CHR 0xD4, CHR 0x87], [CHR 0xD4, CHR 0x86]),
      ([CHR 0xD4, CHR 0x89], [CHR 0xD4, CHR 0x88]),
      ([CHR 0xD4, CHR 0x8B], [CHR 0xD4, CHR 0x8A]),
      ([CHR 0xD4, CHR 0x8D], [CHR 0xD4, CHR 0x8C]),
      ([CHR 0xD4, CHR 0x8F], [CHR 0xD4, CHR 0x8E]),
      ([CHR 0xD4, CHR 0x91], [CHR 0xD4, CHR 0x90]),
      ([CHR 0xD4, CHR 0x93], [CHR 0xD4, CHR 0x92]),
      ([CHR 0xD4, CHR 0x95], [CHR 0xD4, CHR 0x94]),
      ([CHR 0xD4, CHR 0x97], [CHR 0xD4, CHR 0x96]),
      ([CHR 0xD4, CHR 0x99], [CHR 0xD4, CHR 0x98]),
      ([CHR 0xD4, CHR 0x9B], [CHR 0xD4, CHR 0x9A]),
      ([CHR 0xD4, CHR 0x9D], [CHR 0xD4, CHR 0x9C]),
      ([CHR 0xD4, CHR 0x9F], [CHR 0xD4, CHR 0x9E]),
      ([CHR 0xD4, CHR 0xA1], [CHR 0xD4, CHR 0xA0]),
      ([CHR 0xD4, CHR 0xA3], [CHR 0xD4, CHR 0xA2]),
      ([CHR 0xD4, CHR 0xA5], [CHR 0xD4, CHR 0xA4]),
      ([CHR 0xD4, CHR 0xA7], [CHR 0xD4, CHR 0xA6]),
      ([CHR 0xD4, CHR 0xA9], [CHR 0xD4, CHR 0xA8]),
      ([CHR 0xD4, CHR 0xAB], [CHR 0xD4, CHR 0xAA]),
      ([CHR 0xD4, CHR 0xAD], [CHR 0xD4, CHR 0xAC]),
      ([CHR 0xD4, CHR 0xAF], [CHR 0xD4, CHR 0xAE]),
      ([CHR 0xD5, CHR 0xA1], [CHR 0xD4, CHR 0xB1]),
      ([CHR 0xD5, CHR 0xA2], [CHR 0xD4, CHR 0xB2]),
      ([CHR 0xD5, CHR 0xA3], [CHR 0xD4, CHR 0xB3]),
      ([CHR 0xD5, CHR 0xA4], [CHR 0xD4, CHR 0xB4]),
      ([CHR 0xD5, CHR 0xA5], [CHR 0xD4, CHR 0xB5]),
      ([CHR 0xD5, CHR 0xA6], [CHR 0xD4, CHR 0xB6]),
      ([CHR 0xD5, CHR 0xA7], [CHR 0xD4, CHR 0xB7]),
      ([CHR 0xD5, CHR 0xA8], [CHR 0xD4, CHR 0xB8]),
      ([CHR 0xD5, CHR 0xA9], [CHR 0xD4, CHR 0xB9]),
      ([CHR 0xD5, CHR 0xAA], [CHR 0xD4, CHR 0xBA]),
      ([CHR 0xD5, CHR 0xAB], [CHR 0xD4, CHR 0xBB]),
      ([CHR 0xD5, CHR 0xAC], [CHR 0xD4, CHR 0xBC]),
      ([CHR 0xD5, CHR 0xAD], [CHR 0xD4, CHR 0xBD]),
      ([CHR 0xD5, CHR 0xAE], [CHR 0xD4, CHR 0xBE]),
      ([CHR 0xD5, CHR 0xAF], [CHR 0xD4, CHR 0xBF]),
      ([CHR 0xD5, CHR 0xB0], [CHR 0xD5, CHR 0x80]),
      ([CHR 0xD5, CHR 0xB1], [CHR 0xD5, CHR 0x81]),
      ([CHR 0xD5, CHR 0xB2], [CHR 0xD5, CHR 0x82]),
      ([CHR 0xD5, CHR 0xB3], [CHR 0xD5, CHR 0x83]),
      ([CHR 0xD5, CHR 0xB4], [CHR 0xD5, CHR 0x84]),
      ([CHR 0xD5, CHR 0xB5], [CHR 0xD5, CHR 0x85]),
      ([CHR 0xD5, CHR 0xB6], [CHR 0xD5, CHR 0x86]),
      ([CHR 0xD5, CHR 0xB7], [CHR 0xD5, CHR 0x87]),
      ([CHR 0xD5, CHR 0xB8], [CHR 0xD5, CHR 0x88]),
      ([CHR 0xD5, CHR 0xB9], [CHR 0xD5, CHR 0x89]),
      ([CHR 0xD5, CHR 0xBA], [CHR 0xD5, CHR 0x8A]),
      ([CHR 0xD5, CHR 0xBB], [CHR 0xD5, CHR 0x8B]),
      ([CHR 0xD5, CHR 0xBC], [CHR 0xD5, CHR 0x8C]),
      ([CHR 0xD5, CHR 0xBD], [CHR 0xD5, CHR 0x8D]),
      ([CHR 0xD5, CHR 0xBE], [CHR 0xD5, CHR 0x8E]),
      ([CHR 0xD5, CHR 0xBF], [CHR 0xD5, CHR 0x8F]),
      ([CHR 0xD6, CHR 0x80], [CHR 0xD5, CHR 0x90]),
      ([CHR 0xD6, CHR 0x81], [CHR 0xD5, CHR 0x91]),
      ([CHR 0xD6, CHR 0x82], [CHR 0xD5, CHR 0x92]),
      ([CHR 0xD6, CHR 0x83], [CHR 0xD5, CHR 0x93]),
      ([CHR 0xD6, CHR 0x84], [CHR 0xD5, CHR 0x94]),
      ([CHR 0xD6, CHR 0x85], [CHR 0xD5, CHR 0x95]),
      ([CHR 0xD6, CHR 0x86], [CHR 0xD5, CHR 0x96]),
      ([CHR 0xD6, CHR 0x87], [CHR 0xD4, CHR 0xB5, CHR 0xD5, CHR 0x92]),
      ([CHR 0xE1, CHR 0x83, CHR 0x90], [CHR 0xE1, CHR 0xB2, CHR 0x90]),
      ([CHR 0xE1, CHR 0x83, CHR 0x91], [CHR 0xE1, CHR 0xB2, CHR 0x91]),
      ([CHR 0xE1, CHR 0x83, CHR 0x92], [CHR 0xE1, CHR 0xB2, CHR 0x92]),
      ([CHR 0xE1, CHR 0x83, CHR 0x93], [CHR 0xE1, CHR 0xB2, CHR 0x93]),
      ([CHR 0xE1, CHR 0x83, CHR 0x94], [CHR 0xE1, CHR 0xB2, CHR 0x94]),
      ([CHR 0xE1, CHR 0x83, CHR 0x95], [CHR 0xE1, CHR 0xB2, CHR 0x95]),
      ([CHR 0xE1, CHR 0x83, CHR 0x96], [CHR 0xE1, CHR 0xB2, CHR 0x96]),
      ([CHR 0xE1, CHR 0x83, CHR 0x97], [CHR 0xE1, CHR 0xB2, CHR 0x97]),
      ([CHR 0xE1, CHR 0x83, CHR 0x98], [CHR 0xE1, CHR 0xB2, CHR 0x98]),
      ([CHR 0xE1, CHR 0x83, CHR 0x99], [CHR 0xE1, CHR 0xB2, CHR 0x99]),
      ([CHR 0xE1, CHR 0x83, CHR 0x9A], [CHR 0xE1, CHR 0xB2, CHR 0x9A]),
      ([CHR 0xE1, CHR 0x83, CHR 0x9B], [CHR 0xE1, CHR 0xB2, CHR 0x9B]),
      ([CHR 0xE1, CHR 0x83, CHR 0x9C], [CHR 0xE1, CHR 0xB2, CHR 0x9C]),
      ([CHR 0xE1, CHR 0x83, CHR 0x9D], [CHR 0xE1, CHR 0xB2, CHR 0x9D]),
      ([CHR 0xE1, CHR 0x83, CHR 0x9E], [CHR 0xE1, CHR 0xB2, CHR 0x9E]),
      ([CHR 0xE1, CHR 0x83, CHR 0x9F], [CHR 0xE1, CHR 0xB2, CHR 0x9F]),
      ([CHR 0xE1, CHR 0x83, CHR 0xA0], [CHR 0xE1, CHR 0xB2, CHR 0xA0]),
      ([CHR 0xE1, CHR 0x83, CHR 0xA1], [CHR 0xE1, CHR 0xB2, CHR 0xA1]),
      ([CHR 0xE1, CHR 0x83, CHR 0xA2], [CHR 0xE1, CHR 0xB2, CHR 0xA2]),
      ([CHR 0xE1, CHR 0x83, CHR 0xA3], [CHR 0xE1, CHR 0xB2, CHR 0xA3]),
      ([CHR 0xE1, CHR 0x83, CHR 0xA4], [CHR 0xE1, CHR 0xB2, CHR 0xA4]),
      ([CHR 0xE1, CHR 0x83, CHR 0xA5], [CHR 0xE1, CHR 0xB2, CHR 0xA5]),
      ([CHR 0xE1, CHR 0x83, CHR 0xA6], [CHR 0xE1, CHR 0xB2, CHR 0xA6]),
      ([CHR 0xE1, CHR 0x83, CHR 0xA7], [CHR 0xE1, CHR 0xB2, CHR 0xA7]),
      ([CHR 0xE1, CHR 0x83, CHR 0xA8], [CHR 0xE1, CHR 0xB2, CHR 0xA8]),
      ([CHR 0xE1, CHR 0x83, CHR 0xA9], [CHR 0xE1, CHR 0xB2, CHR 0xA9])]"

definition upper_table_06 :: "(string \<times> string) list" where
  "upper_table_06 =
     [([CHR 0xE1, CHR 0x83, CHR 0xAA], [CHR 0xE1, CHR 0xB2, CHR 0xAA]),
      ([CHR 0xE1, CHR 0x83, CHR 0xAB], [CHR 0xE1, CHR 0xB2, CHR 0xAB]),
      ([CHR 0xE1, CHR 0x83, CHR 0xAC], [CHR 0xE1, CHR 0xB2, CHR 0xAC]),
      ([CHR 0xE1, CHR 0x83, CHR 0xAD], [CHR 0xE1, CHR 0xB2, CHR 0xAD]),
      ([CHR 0xE1, CHR 0x83, CHR 0xAE], [CHR 0xE1, CHR 0xB2, CHR 0xAE]),
      ([CHR 0xE1, CHR 0x83, CHR 0xAF], [CHR 0xE1, CHR 0xB2, CHR 0xAF]),
      ([CHR 0xE1, CHR 0x83, CHR 0xB0], [CHR 0xE1, CHR 0xB2, CHR 0xB0]),
      ([CHR 0xE1, CHR 0x83, CHR 0xB1], [CHR 0xE1, CHR 0xB2, CHR 0xB1]),
      ([CHR 0xE1, CHR 0x83, CHR 0xB2], [CHR 0xE1, CHR 0xB2, CHR 0xB2]),
      ([CHR 0xE1, CHR 0x83, CHR 0xB3], [CHR 0xE1, CHR 0xB2, CHR 0xB3]),
      ([CHR 0xE1, CHR 0x83, CHR 0xB4], [CHR 0xE1, CHR 0xB2, CHR 0xB4]),
      ([CHR 0xE1, CHR 0x83, CHR 0xB5], [CHR 0xE1, CHR 0xB2, CHR 0xB5]),
      ([CHR 0xE1, CHR 0x83, CHR 0xB6], [CHR 0xE1, CHR 0xB2, CHR 0xB6]),
      ([CHR 0xE1, CHR 0x83, CHR 0xB7], [CHR 0xE1, CHR 0xB2, CHR 0xB7]),
      ([CHR 0xE1, CHR 0x83, CHR 0xB8], [CHR 0xE1, CHR 0xB2, CHR 0xB8]),
      ([CHR 0xE1, CHR 0x83, CHR 0xB9], [CHR 0xE1, CHR 0xB2, CHR 0xB9]),
      ([CHR 0xE1, CHR 0x83, CHR 0xBA], [CHR 0xE1, CHR 0xB2, CHR 0xBA]),
      ([CHR 0xE1, CHR 0x83, CHR 0xBD], [CHR 0xE1, CHR 0xB2, CHR 0xBD]),
      ([CHR 0xE1, CHR 0x83, CHR 0xBE], [CHR 0xE1, CHR 0xB2, CHR 0xBE]),
      ([CHR 0xE1, CHR 0x83, CHR 0xBF], [CHR 0xE1, CHR 0xB2, CHR 0xBF]),
      ([CHR 0xE1, CHR 0x8F, CHR 0xB8], [CHR 0xE1, CHR 0x8F, CHR 0xB0]),
      ([CHR 0xE1, CHR 0x8F, CHR 0xB9], [CHR 0xE1, CHR 0x8F, CHR 0xB1]),
      ([CHR 0xE1, CHR 0x8F, CHR 0xBA], [CHR 0xE1, CHR 0x8F, CHR 0xB2]),
      ([CHR 0xE1, CHR 0x8F, CHR 0xBB], [CHR 0xE1, CHR 0x8F, CHR 0xB3]),
      ([CHR 0xE1, CHR 0x8F, CHR 0xBC], [CHR 0xE1, CHR 0x8F, CHR 0xB4]),
      ([CHR 0xE1, CHR 0x8F, CHR 0xBD], [CHR 0xE1, CHR 0x8F, CHR 0xB5]),
      ([CHR 0xE1, CHR 0xB2, CHR 0x80], [CHR 0xD0, CHR 0x92]),
      ([CHR 0xE1, CHR 0xB2, CHR 0x81], [CHR 0xD0, CHR 0x94]),
      ([CHR 0xE1, CHR 0xB2, CHR 0x82], [CHR 0xD0, CHR 0x9E]),
      ([CHR 0xE1, CHR 0xB2, CHR 0x83], [CHR 0xD0, CHR 0xA1]),
      ([CHR 0xE1, CHR 0xB2, CHR 0x84], [CHR 0xD0, CHR 0xA2]),
      ([CHR 0xE1, CHR 0xB2, CHR 0x85], [CHR 0xD0, CHR 0xA2]),
      ([CHR 0xE1, CHR 0xB2, CHR 0x86], [CHR 0xD0, CHR 0xAA]),
      ([CHR 0xE1, CHR 0xB2, CHR 0x87], [CHR 0xD1, CHR 0xA2]),
      ([CHR 0xE1, CHR 0xB2, CHR 0x88], [CHR 0xEA, CHR 0x99, CHR 0x8A]),
      ([CHR 0xE1, CHR 0xB5, CHR 0xB9], [CHR 0xEA, CHR 0x9D, CHR 0xBD]),
      ([CHR 0xE1, CHR 0xB5, CHR 0xBD], [CHR 0xE2, CHR 0xB1, CHR 0xA3]),
      ([CHR 0xE1, CHR 0xB6, CHR 0x8E], [CHR 0xEA, CHR 0x9F, CHR 0x86]),
      ([CHR 0xE1, CHR 0xB8, CHR 0x81], [CHR 0xE1, CHR 0xB8, CHR 0x80]),
      ([CHR 0xE1, CHR 0xB8, CHR 0x83], [CHR 0xE1, CHR 0xB8, CHR 0x82]),
      ([CHR 0xE1, CHR 0xB8, CHR 0x85], [CHR 0xE1, CHR 0xB8, CHR 0x84]),
      ([CHR 0xE1, CHR 0xB8, CHR 0x87], [CHR 0xE1, CHR 0xB8, CHR 0x86]),
      ([CHR 0xE1, CHR 0xB8, CHR 0x89], [CHR 0xE1, CHR 0xB8, CHR 0x88]),
      ([CHR 0xE1, CHR 0xB8, CHR 0x8B], [CHR 0xE1, CHR 0xB8, CHR 0x8A]),
      ([CHR 0xE1, CHR 0xB8, CHR 0x8D], [CHR 0xE1, CHR 0xB8, CHR 0x8C]),
      ([CHR 0xE1, CHR 0xB8, CHR 0x8F], [CHR 0xE1, CHR 0xB8, CHR 0x8E]),
      ([CHR 0xE1, CHR 0xB8, CHR 0x91], [CHR 0xE1, CHR 0xB8, CHR 0x90]),
      ([CHR 0xE1, CHR 0xB8, CHR 0x93], [CHR 0xE1, CHR 0xB8, CHR 0x92]),
      ([CHR 0xE1, CHR 0xB8, CHR 0x95], [CHR 0xE1, CHR 0xB8, CHR 0x94]),
      ([CHR 0xE1, CHR 0xB8, CHR 0x97], [CHR 0xE1, CHR 0xB8, CHR 0x96]),
      ([CHR 0xE1, CHR 0xB8, CHR 0x99], [CHR 0xE1, CHR 0xB8, CHR 0x98]),
      ([CHR 0xE1, CHR 0xB8, CHR 0x9B], [CHR 0xE1, CHR 0xB8, CHR 0x9A]),
      ([CHR 0xE1, CHR 0xB8, CHR 0x9D], [CHR 0xE1, CHR 0xB8, CHR 0x9C]),
      ([CHR 0xE1, CHR 0xB8, CHR 0x9F], [CHR 0xE1, CHR 0xB8, CHR 0x9E]),
      ([CHR 0xE1, CHR 0xB8, CHR 0xA1], [CHR 0xE1, CHR 0xB8, CHR 0xA0]),
      ([CHR 0xE1, CHR 0xB8, CHR 0xA3], [CHR 0xE1, CHR 0xB8, CHR 0xA2]),
      ([CHR 0xE1, CHR 0xB8, CHR 0xA5], [CHR 0xE1, CHR 0xB8, CHR 0xA4]),
      ([CHR 0xE1, CHR 0xB8, CHR 0xA7], [CHR 0xE1, CHR 0xB8, CHR 0xA6]),
      ([CHR 0xE1, CHR 0xB8, CHR 0xA9], [CHR 0xE1, CHR 0xB8, CHR 0xA8]),
      ([CHR 0xE1, CHR 0xB8, CHR 0xAB], [CHR 0xE1, CHR 0xB8, CHR 0xAA]),
      ([CHR 0xE1, CHR 0xB8, CHR 0xAD], [CHR 0xE1, CHR 0xB8, CHR 0xAC]),
      ([CHR 0xE1, CHR 0xB8, CHR 0xAF], [CHR 0xE1, CHR 0xB8, CHR 0xAE]),
      ([CHR 0xE1, CHR 0xB8, CHR 0xB1], [CHR 0xE1, CHR 0xB8, CHR 0xB0]),
      ([CHR 0xE1, CHR 0xB8, CHR 0xB3], [CHR 0xE1, CHR 0xB8, CHR 0xB2]),
      ([CHR 0xE1, CHR 0xB8, CHR 0xB5], [CHR 0xE1, CHR 0xB8, CHR 0xB4]),
      ([CHR 0xE1, CHR 0xB8, CHR 0xB7], [CHR 0xE1, CHR 0xB8, CHR 0xB6]),
      ([CHR 0xE1, CHR 0xB8, CHR 0xB9], [CHR 0xE1, CHR 0xB8, CHR 0xB8]),
      ([CHR 0xE1, CHR 0xB8, CHR 0xBB], [CHR 0xE1, CHR 0xB8, CHR 0xBA]),
      ([CHR 0xE1, CHR 0xB8, CHR 0xBD], [CHR 0xE1, CHR 0xB8, CHR 0xBC]),
      ([CHR 0xE1, CHR 0xB8, CHR 0xBF], [CHR 0xE1, CHR 0xB8, CHR 0xBE]),
      ([CHR 0xE1, CHR 0xB9, CHR 0x81], [CHR 0xE1, CHR 0xB9, CHR 0x80]),
      ([CHR 0xE1, CHR 0xB9, CHR 0x83], [CHR 0xE1, CHR 0xB9, CHR 0x82]),
      ([CHR 0xE1, CHR 0xB9, CHR 0x85], [CHR 0xE1, CHR 0xB9, CHR 0x84]),
      ([CHR 0xE1, CHR 0xB9, CHR 0x87], [CHR 0xE1, CHR 0xB9, CHR 0x86]),
      ([CHR 0xE1, CHR 0xB9, CHR 0x89], [CHR 0xE1, CHR 0xB9, CHR 0x88]),
      ([CHR 0xE1, CHR 0xB9, CHR 0x8B], [CHR 0xE1, CHR 0xB9, CHR 0x8A]),
      ([CHR 0xE1, CHR 0xB9, CHR 0x8D], [CHR 0xE1, CHR 0xB9, CHR 0x8C]),
      ([CHR 0xE1, CHR 0xB9, CHR 0x8F], [CHR 0xE1, CHR 0xB9, CHR 0x8E]),
      ([CHR 0xE1, CHR 0xB9, CHR 0x91], [CHR 0xE1, CHR 0xB9, CHR 0x90]),
      ([CHR 0xE1, CHR 0xB9, CHR 0x93], [CHR 0xE1, CHR 0xB9, CHR 0x92]),
      ([CHR 0xE1, CHR 0xB9, CHR 0x95], [CHR 0xE1, CHR 0xB9, CHR 0x94]),
      ([CHR 0xE1, CHR 0xB9, CHR 0x97], [CHR 0xE1, CHR 0xB9, CHR 0x96]),
      ([CHR 0xE1, CHR 0xB9, CHR 0x99], [CHR 0xE1, CHR 0xB9, CHR 0x98]),
      ([CHR 0xE1, CHR 0xB9, CHR 0x9B], [CHR 0xE1, CHR 0xB9, CHR 0x9A]),
      ([CHR 0xE1, CHR 0xB9, CHR 0x9D], [CHR 0xE1, CHR 0xB9, CHR 0x9C]),
      ([CHR 0xE1, CHR 0xB9, CHR 0x9F], [CHR 0xE1, CHR 0xB9, CHR 0x9E]),
      ([CHR 0xE1, CHR 0xB9, CHR 0xA1], [CHR 0xE1, CHR 0xB9, CHR 0xA0]),
      ([CHR 0xE1, CHR 0xB9, CHR 0xA3], [CHR 0xE1, CHR 0xB9, CHR 0xA2]),
      ([CHR 0xE1, CHR 0xB9, CHR 0xA5], [CHR 0xE1, CHR 0xB9, CHR 0xA4]),
      ([CHR 0xE1, CHR 0xB9, CHR 0xA7], [CHR 0xE1, CHR 0xB9, CHR 0xA6]),
      ([CHR 0xE1, CHR 0xB9, CHR 0xA9], [CHR 0xE1, CHR 0xB9, CHR 0xA8]),
      ([CHR 0xE1, CHR 0xB9, CHR 0xAB], [CHR 0xE1, CHR 0xB9, CHR 0xAA]),
      ([CHR 0xE1, CHR 0xB9, CHR 0xAD], [CHR 0xE1, CHR 0xB9, CHR 0xAC]),
      ([CHR 0xE1, CHR 0xB9, CHR 0xAF], [CHR 0xE1, CHR 0xB9, CHR 0xAE]),
      ([CHR 0xE1, CHR 0xB9, CHR 0xB1], [CHR 0xE1, CHR 0xB9, CHR 0xB0]),
      ([CHR 0xE1, CHR 0xB9, CHR 0xB3], [CHR 0xE1, CHR 0xB9, CHR 0xB2]),
      ([CHR 0xE1, CHR 0xB9, CHR 0xB5], [CHR 0xE1, CHR 0xB9, CHR 0xB4]),
      ([CHR 0xE1, CHR 0xB9, CHR 0xB7], [CHR 0xE1, CHR 0xB9, CHR 0xB6]),
      ([CHR 0xE1, CHR 0xB9, CHR 0xB9], [CHR 0xE1, CHR 0xB9, CHR 0xB8]),
      ([CHR 0xE1, CHR 0xB9, CHR 0xBB], [CHR 0xE1, CHR 0xB9, CHR 0xBA])]"

definition upper_table_07 :: "(string \<times> string) list" where
  "upper_table_07 =
     [([CHR 0xE1, CHR 0xB9, CHR 0xBD], [CHR 0xE1, CHR 0xB9, CHR 0xBC]),
      ([CHR 0xE1, CHR 0xB9, CHR 0xBF], [CHR 0xE1, CHR 0xB9, CHR 0xBE]),
      ([CHR 0xE1, CHR 0xBA, CHR 0x81], [CHR 0xE1, CHR 0xBA, CHR 0x80]),
      ([CHR 0xE1, CHR 0xBA, CHR 0x83], [CHR 0xE1, CHR 0xBA, CHR 0x82]),
      ([CHR 0xE1, CHR 0xBA, CHR 0x85], [CHR 0xE1, CHR 0xBA, CHR 0x84]),
      ([CHR 0xE1, CHR 0xBA, CHR 0x87], [CHR 0xE1, CHR 0xBA, CHR 0x86]),
      ([CHR 0xE1, CHR 0xBA, CHR 0x89], [CHR 0xE1, CHR 0xBA, CHR 0x88]),
      ([CHR 0xE1, CHR 0xBA, CHR 0x8B], [CHR 0xE1, CHR 0xBA, CHR 0x8A]),
      ([CHR 0xE1, CHR 0xBA, CHR 0x8D], [CHR 0xE1, CHR 0xBA, CHR 0x8C]),
      ([CHR 0xE1, CHR 0xBA, CHR 0x8F], [CHR 0xE1, CHR 0xBA, CHR 0x8E]),
      ([CHR 0xE1, CHR 0xBA, CHR 0x91], [CHR 0xE1, CHR 0xBA, CHR 0x90]),
      ([CHR 0xE1, CHR 0xBA, CHR 0x93], [CHR 0xE1, CHR 0xBA, CHR 0x92]),
      ([CHR 0xE1, CHR 0xBA, CHR 0x95], [CHR 0xE1, CHR 0xBA, CHR 0x94]),
      ([CHR 0xE1, CHR 0xBA, CHR 0x96], [CHR 0x48, CHR 0xCC, CHR 0xB1]),
      ([CHR 0xE1, CHR 0xBA, CHR 0x97], [CHR 0x54, CHR 0xCC, CHR 0x88]),
      ([CHR 0xE1, CHR 0xBA, CHR 0x98], [CHR 0x57, CHR 0xCC, CHR 0x8A]),
      ([CHR 0xE1, CHR 0xBA, CHR 0x99], [CHR 0x59, CHR 0xCC, CHR 0x8A]),
      ([CHR 0xE1, CHR 0xBA, CHR 0x9A], [CHR 0x41, CHR 0xCA, CHR 0xBE]),
      ([CHR 0xE1, CHR 0xBA, CHR 0x9B], [CHR 0xE1, CHR 0xB9, CHR 0xA0]),
      ([CHR 0xE1, CHR 0xBA, CHR 0xA1], [CHR 0xE1, CHR 0xBA, CHR 0xA0]),
      ([CHR 0xE1, CHR 0xBA, CHR 0xA3], [CHR 0xE1, CHR 0xBA, CHR 0xA2]),
      ([CHR 0xE1, CHR 0xBA, CHR 0xA5], [CHR 0xE1, CHR 0xBA, CHR 0xA4]),
      ([CHR 0xE1, CHR 0xBA, CHR 0xA7], [CHR 0xE1, CHR 0xBA, CHR 0xA6]),
      ([CHR 0xE1, CHR 0xBA, CHR 0xA9], [CHR 0xE1, CHR 0xBA, CHR 0xA8]),
      ([CHR 0xE1, CHR 0xBA, CHR 0xAB], [CHR 0xE1, CHR 0xBA, CHR 0xAA]),
      ([CHR 0xE1, CHR 0xBA, CHR 0xAD], [CHR 0xE1, CHR 0xBA, CHR 0xAC]),
      ([CHR 0xE1, CHR 0xBA, CHR 0xAF], [CHR 0xE1, CHR 0xBA, CHR 0xAE]),
      ([CHR 0xE1, CHR 0xBA, CHR 0xB1], [CHR 0xE1, CHR 0xBA, CHR 0xB0]),
      ([CHR 0xE1, CHR 0xBA, CHR 0xB3], [CHR 0xE1, CHR 0xBA, CHR 0xB2]),
      ([CHR 0xE1, CHR 0xBA, CHR 0xB5], [CHR 0xE1, CHR 0xBA, CHR 0xB4]),
      ([CHR 0xE1, CHR 0xBA, CHR 0xB7], [CHR 0xE1, CHR 0xBA, CHR 0xB6]),
      ([CHR 0xE1, CHR 0xBA, CHR 0xB9], [CHR 0xE1, CHR 0xBA, CHR 0xB8]),
      ([CHR 0xE1, CHR 0xBA, CHR 0xBB], [CHR 0xE1, CHR 0xBA, CHR 0xBA]),
      ([CHR 0xE1, CHR 0xBA, CHR 0xBD], [CHR 0xE1, CHR 0xBA, CHR 0xBC]),
      ([CHR 0xE1, CHR 0xBA, CHR 0xBF], [CHR 0xE1, CHR 0xBA, CHR 0xBE]),
      ([CHR 0xE1, CHR 0xBB, CHR 0x81], [CHR 0xE1, CHR 0xBB, CHR 0x80]),
      ([CHR 0xE1, CHR 0xBB, CHR 0x83], [CHR 0xE1, CHR 0xBB, CHR 0x82]),
      ([CHR 0xE1, CHR 0xBB, CHR 0x85], [CHR 0xE1, CHR 0xBB, CHR 0x84]),
      ([CHR 0xE1, CHR 0xBB, CHR 0x87], [CHR 0xE1, CHR 0xBB, CHR 0x86]),
      ([CHR 0xE1, CHR 0xBB, CHR 0x89], [CHR 0xE1, CHR 0xBB, CHR 0x88]),
      ([CHR 0xE1, CHR 0xBB, CHR 0x8B], [CHR 0xE1, CHR 0xBB, CHR 0x8A]),
      ([CHR 0xE1, CHR 0xBB, CHR 0x8D], [CHR 0xE1, CHR 0xBB, CHR 0x8C]),
      ([CHR 0xE1, CHR 0xBB, CHR 0x8F], [CHR 0xE1, CHR 0xBB, CHR 0x8E]),
      ([CHR 0xE1, CHR 0xBB, CHR 0x91], [CHR 0xE1, CHR 0xBB, CHR 0x90]),
      ([CHR 0xE1, CHR 0xBB, CHR 0x93], [CHR 0xE1, CHR 0xBB, CHR 0x92]),
      ([CHR 0xE1, CHR 0xBB, CHR 0x95], [CHR 0xE1, CHR 0xBB, CHR 0x94]),
      ([CHR 0xE1, CHR 0xBB, CHR 0x97], [CHR 0xE1, CHR 0xBB, CHR 0x96]),
      ([CHR 0xE1, CHR 0xBB, CHR 0x99], [CHR 0xE1, CHR 0xBB, CHR 0x98]),
      ([CHR 0xE1, CHR 0xBB, CHR 0x9B], [CHR 0xE1, CHR 0xBB, CHR 0x9A]),
      ([CHR 0xE1, CHR 0xBB, CHR 0x9D], [CHR 0xE1, CHR 0xBB, CHR 0x9C]),
      ([CHR 0xE1, CHR 0xBB, CHR 0x9F], [CHR 0xE1, CHR 0xBB, CHR 0x9E]),
      ([CHR 0xE1, CHR 0xBB, CHR 0xA1], [CHR 0xE1, CHR 0xBB, CHR 0xA0]),
      ([CHR 0xE1, CHR 0xBB, CHR 0xA3], [CHR 0xE1, CHR 0xBB, CHR 0xA2]),
      ([CHR 0xE1, CHR 0xBB, CHR 0xA5], [CHR 0xE1, CHR 0xBB, CHR 0xA4]),
      ([CHR 0xE1, CHR 0xBB, CHR 0xA7], [CHR 0xE1, CHR 0xBB, CHR 0xA6]),
      ([CHR 0xE1, CHR 0xBB, CHR 0xA9], [CHR 0xE1, CHR 0xBB, CHR 0xA8]),
      ([CHR 0xE1, CHR 0xBB, CHR 0xAB], [CHR 0xE1, CHR 0xBB, CHR 0xAA]),
      ([CHR 0xE1, CHR 0xBB, CHR 0xAD], [CHR 0xE1, CHR 0xBB, CHR 0xAC]),
      ([CHR 0xE1, CHR 0xBB, CHR 0xAF], [CHR 0xE1, CHR 0xBB, CHR 0xAE]),
      ([CHR 0xE1, CHR 0xBB, CHR 0xB1], [CHR 0xE1, CHR 0xBB, CHR 0xB0]),
      ([CHR 0xE1, CHR 0xBB, CHR 0xB3], [CHR 0xE1, CHR 0xBB, CHR 0xB2]),
      ([CHR 0xE1, CHR 0xBB, CHR 0xB5], [CHR 0xE1, CHR 0xBB, CHR 0xB4]),
      ([CHR 0xE1, CHR 0xBB, CHR 0xB7], [CHR 0xE1, CHR 0xBB, CHR 0xB6]),
      ([CHR 0xE1, CHR 0xBB, CHR 0xB9], [CHR 0xE1, CHR 0xBB, CHR 0xB8]),
      ([CHR 0xE1, CHR 0xBB, CHR 0xBB], [CHR 0xE1, CHR 0xBB, CHR 0xBA]),
      ([CHR 0xE1, CHR 0xBB, CHR 0xBD], [CHR 0xE1, CHR 0xBB, CHR 0xBC]),
      ([CHR 0xE1, CHR 0xBB, CHR 0xBF], [CHR 0xE1, CHR 0xBB, CHR 0xBE]),
      ([CHR 0xE1, CHR 0xBC, CHR 0x80], [CHR 0xE1, CHR 0xBC, CHR 0x88]),
      ([CHR 0xE1, CHR 0xBC, CHR 0x81], [CHR 0xE1, CHR 0xBC, CHR 0x89]),
      ([CHR 0xE1, CHR 0xBC, CHR 0x82], [CHR 0xE1, CHR 0xBC, CHR 0x8A]),
      ([CHR 0xE1, CHR 0xBC, CHR 0x83], [CHR 0xE1, CHR 0xBC, CHR 0x8B]),
      ([CHR 0xE1, CHR 0xBC, CHR 0x84], [CHR 0xE1, CHR 0xBC, CHR 0x8C]),
      ([CHR 0xE1, CHR 0xBC, CHR 0x85], [CHR 0xE1, CHR 0xBC, CHR 0x8D]),
      ([CHR 0xE1, CHR 0xBC, CHR 0x86], [CHR 0xE1, CHR 0xBC, CHR 0x8E]),
      ([CHR 0xE1, CHR 0xBC, CHR 0x87], [CHR 0xE1, CHR 0xBC, CHR 0x8F]),
      ([CHR 0xE1, CHR 0xBC, CHR 0x90], [CHR 0xE1, CHR 0xBC, CHR 0x98]),
      ([CHR 0xE1, CHR 0xBC, CHR 0x91], [CHR 0xE1, CHR 0xBC, CHR 0x99]),
      ([CHR 0xE1, CHR 0xBC, CHR 0x92], [CHR 0xE1, CHR 0xBC, CHR 0x9A]),
      ([CHR 0xE1, CHR 0xBC, CHR 0x93], [CHR 0xE1, CHR 0xBC, CHR 0x9B]),
      ([CHR 0xE1, CHR 0xBC, CHR 0x94], [CHR 0xE1, CHR 0xBC, CHR 0x9C]),
      ([CHR 0xE1, CHR 0xBC, CHR 0x95], [CHR 0xE1, CHR 0xBC, CHR 0x9D]),
      ([CHR 0xE1, CHR 0xBC, CHR 0xA0], [CHR 0xE1, CHR 0xBC, CHR 0xA8]),
      ([CHR 0xE1, CHR 0xBC, CHR 0xA1], [CHR 0xE1, CHR 0xBC, CHR 0xA9]),
      ([CHR 0xE1, CHR 0xBC, CHR 0xA2], [CHR 0xE1, CHR 0xBC, CHR 0xAA]),
      ([CHR 0xE1, CHR 0xBC, CHR 0xA3], [CHR 0xE1, CHR 0xBC, CHR 0xAB]),
      ([CHR 0xE1, CHR 0xBC, CHR 0xA4], [CHR 0xE1, CHR 0xBC, CHR 0xAC]),
      ([CHR 0xE1, CHR 0xBC, CHR 0xA5], [CHR 0xE1, CHR 0xBC, CHR 0xAD]),
      ([CHR 0xE1, CHR 0xBC, CHR 0xA6], [CHR 0xE1, CHR 0xBC, CHR 0xAE]),
      ([CHR 0xE1, CHR 0xBC, CHR 0xA7], [CHR 0xE1, CHR 0xBC, CHR 0xAF]),
      ([CHR 0xE1, CHR 0xBC, CHR 0xB0], [CHR 0xE1, CHR 0xBC, CHR 0xB8]),
      ([CHR 0xE1, CHR 0xBC, CHR 0xB1], [CHR 0xE1, CHR 0xBC, CHR 0xB9]),
      ([CHR 0xE1, CHR 0xBC, CHR 0xB2], [CHR 0xE1, CHR 0xBC, CHR 0xBA]),
      ([CHR 0xE1, CHR 0xBC, CHR 0xB3], [CHR 0xE1, CHR 0xBC, CHR 0xBB]),
      ([CHR 0xE1, CHR 0xBC, CHR 0xB4], [CHR 0xE1, CHR 0xBC, CHR 0xBC]),
      ([CHR 0xE1, CHR 0xBC, CHR 0xB5], [CHR 0xE1, CHR 0xBC, CHR 0xBD]),
      ([CHR 0xE1, CHR 0xBC, CHR 0xB6], [CHR 0xE1, CHR 0xBC, CHR 0xBE]),
      ([CHR 0xE1, CHR 0xBC, CHR 0xB7], [CHR 0xE1, CHR 0xBC, CHR 0xBF]),
      ([CHR 0xE1, CHR 0xBD, CHR 0x80], [CHR 0xE1, CHR 0xBD, CHR 0x88]),
      ([CHR 0xE1, CHR 0xBD, CHR 0x81], [CHR 0xE1, CHR 0xBD, CHR 0x89]),
      ([CHR 0xE1, CHR 0xBD, CHR 0x82], [CHR 0xE1, CHR 0xBD, CHR 0x8A])]"

definition upper_table_08 :: "(string \<times> string) list" where
  "upper_table_08 =
     [([CHR 0xE1, CHR 0xBD, CHR 0x83], [CHR 0xE1, CHR 0xBD, CHR 0x8B]),
      ([CHR 0xE1, CHR 0xBD, CHR 0x84], [CHR 0xE1, CHR 0xBD, CHR 0x8C]),
      ([CHR 0xE1, CHR 0xBD, CHR 0x85], [CHR 0xE1, CHR 0xBD, CHR 0x8D]),
      ([CHR 0xE1, CHR 0xBD, CHR 0x90], [CHR 0xCE, CHR 0xA5, CHR 0xCC, CHR 0x93]),
      ([CHR 0xE1, CHR 0xBD, CHR 0x91], [CHR 0xE1, CHR 0xBD, CHR 0x99]),
      ([CHR 0xE1, CHR 0xBD, CHR 0x92], [CHR 0xCE, CHR 0xA5, CHR 0xCC, CHR 0x93, CHR 0xCC, CHR 0x80]),
      ([CHR 0xE1, CHR 0xBD, CHR 0x93], [CHR 0xE1, CHR 0xBD, CHR 0x9B]),
      ([CHR 0xE1, CHR 0xBD, CHR 0x94], [CHR 0xCE, CHR 0xA5, CHR 0xCC, CHR 0x93, CHR 0xCC, CHR 0x81]),
      ([CHR 0xE1, CHR 0xBD, CHR 0x95], [CHR 0xE1, CHR 0xBD, CHR 0x9D]),
      ([CHR 0xE1, CHR 0xBD, CHR 0x96], [CHR 0xCE, CHR 0xA5, CHR 0xCC, CHR 0x93, CHR 0xCD, CHR 0x82]),
      ([CHR 0xE1, CHR 0xBD, CHR 0x97], [CHR 0xE1, CHR 0xBD, CHR 0x9F]),
      ([CHR 0xE1, CHR 0xBD, CHR 0xA0], [CHR 0xE1, CHR 0xBD, CHR 0xA8]),
      ([CHR 0xE1, CHR 0xBD, CHR 0xA1], [CHR 0xE1, CHR 0xBD, CHR 0xA9]),
      ([CHR 0xE1, CHR 0xBD, CHR 0xA2], [CHR 0xE1, CHR 0xBD, CHR 0xAA]),
      ([CHR 0xE1, CHR 0xBD, CHR 0xA3], [CHR 0xE1, CHR 0xBD, CHR 0xAB]),
      ([CHR 0xE1, CHR 0xBD, CHR 0xA4], [CHR 0xE1, CHR 0xBD, CHR 0xAC]),
      ([CHR 0xE1, CHR 0xBD, CHR 0xA5], [CHR 0xE1, CHR 0xBD, CHR 0xAD]),
      ([CHR 0xE1, CHR 0xBD, CHR 0xA6], [CHR 0xE1, CHR 0xBD, CHR 0xAE]),
      ([CHR 0xE1, CHR 0xBD, CHR 0xA7], [CHR 0xE1, CHR 0xBD, CHR 0xAF]),
      ([CHR 0xE1, CHR 0xBD, CHR 0xB0], [CHR 0xE1, CHR 0xBE, CHR 0xBA]),
      ([CHR 0xE1, CHR 0xBD, CHR 0xB1], [CHR 0xE1, CHR 0xBE, CHR 0xBB]),
      ([CHR 0xE1, CHR 0xBD, CHR 0xB2], [CHR 0xE1, CHR 0xBF, CHR 0x88]),
      ([CHR 0xE1, CHR 0xBD, CHR 0xB3], [CHR 0xE1, CHR 0xBF, CHR 0x89]),
      ([CHR 0xE1, CHR 0xBD, CHR 0xB4], [CHR 0xE1, CHR 0xBF, CHR 0x8A]),
      ([CHR 0xE1, CHR 0xBD, CHR 0xB5], [CHR 0xE1, CHR 0xBF, CHR 0x8B]),
      ([CHR 0xE1, CHR 0xBD, CHR 0xB6], [CHR 0xE1, CHR 0xBF, CHR 0x9A]),
      ([CHR 0xE1, CHR 0xBD, CHR 0xB7], [CHR 0xE1, CHR 0xBF, CHR 0x9B]),
      ([CHR 0xE1, CHR 0xBD, CHR 0xB8], [CHR 0xE1, CHR 0xBF, CHR 0xB8]),
      ([CHR 0xE1, CHR 0xBD, CHR 0xB9], [CHR 0xE1, CHR 0xBF, CHR 0xB9]),
      ([CHR 0xE1, CHR 0xBD, CHR 0xBA], [CHR 0xE1, CHR 0xBF, CHR 0xAA]),
      ([CHR 0xE1, CHR 0xBD, CHR 0xBB], [CHR 0xE1, CHR 0xBF, CHR 0xAB]),
      ([CHR 0xE1, CHR 0xBD, CHR 0xBC], [CHR 0xE1, CHR 0xBF, CHR 0xBA]),
      ([CHR 0xE1, CHR 0xBD, CHR 0xBD], [CHR 0xE1, CHR 0xBF, CHR 0xBB]),
      ([CHR 0xE1, CHR 0xBE, CHR 0x80], [CHR 0xE1, CHR 0xBC, CHR 0x88, CHR 0xCE, CHR 0x99]),
      ([CHR 0xE1, CHR 0xBE, CHR 0x81], [CHR 0xE1, CHR 0xBC, CHR 0x89, CHR 0xCE, CHR 0x99]),
      ([CHR 0xE1, CHR 0xBE, CHR 0x82], [CHR 0xE1, CHR 0xBC, CHR 0x8A, CHR 0xCE, CHR 0x99]),
      ([CHR 0xE1, CHR 0xBE, CHR 0x83], [CHR 0xE1, CHR 0xBC, CHR 0x8B, CHR 0xCE, CHR 0x99]),
      ([CHR 0xE1, CHR 0xBE, CHR 0x84], [CHR 0xE1, CHR 0xBC, CHR 0x8C, CHR 0xCE, CHR 0x99]),
      ([CHR 0xE1, CHR 0xBE, CHR 0x85], [CHR 0xE1, CHR 0xBC, CHR 0x8D, CHR 0xCE, CHR 0x99]),
      ([CHR 0xE1, CHR 0xBE, CHR 0x86], [CHR 0xE1, CHR 0xBC, CHR 0x8E, CHR 0xCE, CHR 0x99]),
      ([CHR 0xE1, CHR 0xBE, CHR 0x87], [CHR 0xE1, CHR 0xBC, CHR 0x8F, CHR 0xCE, CHR 0x99]),
      ([CHR 0xE1, CHR 0xBE, CHR 0x88], [CHR 0xE1, CHR 0xBC, CHR 0x88, CHR 0xCE, CHR 0x99]),
      ([CHR 0xE1, CHR 0xBE, CHR 0x89], [CHR 0xE1, CHR 0xBC, CHR 0x89, CHR 0xCE, CHR 0x99]),
      ([CHR 0xE1, CHR 0xBE, CHR 0x8A], [CHR 0xE1, CHR 0xBC, CHR 0x8A, CHR 0xCE, CHR 0x99]),
      ([CHR 0xE1, CHR 0xBE, CHR 0x8B], [CHR 0xE1, CHR 0xBC, CHR 0x8B, CHR 0xCE, CHR 0x99]),
      ([CHR 0xE1, CHR 0xBE, CHR 0x8C], [CHR 0xE1, CHR 0xBC, CHR 0x8C, CHR 0xCE, CHR 0x99]),
      ([CHR 0xE1, CHR 0xBE, CHR 0x8D], [CHR 0xE1, CHR 0xBC, CHR 0x8D, CHR 0xCE, CHR 0x99]),
      ([CHR 0xE1, CHR 0xBE, CHR 0x8E], [CHR 0xE1, CHR 0xBC, CHR 0x8E, CHR 0xCE, CHR 0x99]),
      ([CHR 0xE1, CHR 0xBE, CHR 0x8F], [CHR 0xE1, CHR 0xBC, CHR 0x8F, CHR 0xCE, CHR 0x99]),
      ([CHR 0xE1, CHR 0xBE, CHR 0x90], [CHR 0xE1, CHR 0xBC, CHR 0xA8, CHR 0xCE, CHR 0x99]),
      ([CHR 0xE1, CHR 0xBE, CHR 0x91], [CHR 0xE1, CHR 0xBC, CHR 0xA9, CHR 0xCE, CHR 0x99]),
      ([CHR 0xE1, CHR 0xBE, CHR 0x92], [CHR 0xE1, CHR 0xBC, CHR 0xAA, CHR 0xCE, CHR 0x99]),
      ([CHR 0xE1, CHR 0xBE, CHR 0x93], [CHR 0xE1, CHR 0xBC, CHR 0xAB, CHR 0xCE, CHR 0x99]),
      ([CHR 0xE1, CHR 0xBE, CHR 0x94], [CHR 0xE1, CHR 0xBC, CHR 0xAC, CHR 0xCE, CHR 0x99]),
      ([CHR 0xE1, CHR 0xBE, CHR 0x95], [CHR 0xE1, CHR 0xBC, CHR 0xAD, CHR 0xCE, CHR 0x99]),
      ([CHR 0xE1, CHR 0xBE, CHR 0x96], [CHR 0xE1, CHR 0xBC, CHR 0xAE, CHR 0xCE, CHR 0x99]),
      ([CHR 0xE1, CHR 0xBE, CHR 0x97], [CHR 0xE1, CHR 0xBC, CHR 0xAF, CHR 0xCE, CHR 0x99]),
      ([CHR 0xE1, CHR 0xBE, CHR 0x98], [CHR 0xE1, CHR 0xBC, CHR 0xA8, CHR 0xCE, CHR 0x99]),
      ([CHR 0xE1, CHR 0xBE, CHR 0x99], [CHR 0xE1, CHR 0xBC, CHR 0xA9, CHR 0xCE, CHR 0x99]),
      ([CHR 0xE1, CHR 0xBE, CHR 0x9A], [CHR 0xE1, CHR 0xBC, CHR 0xAA, CHR 0xCE, CHR 0x99]),
      ([CHR 0xE1, CHR 0xBE, CHR 0x9B], [CHR 0xE1, CHR 0xBC, CHR 0xAB, CHR 0xCE, CHR 0x99]),
      ([CHR 0xE1, CHR 0xBE, CHR 0x9C], [CHR 0xE1, CHR 0xBC, CHR 0xAC, CHR 0xCE, CHR 0x99]),
      ([CHR 0xE1, CHR 0xBE, CHR 0x9D], [CHR 0xE1, CHR 0xBC, CHR 0xAD, CHR 0xCE, CHR 0x99]),
      ([CHR 0xE1, CHR 0xBE, CHR 0x9E], [CHR 0xE1, CHR 0xBC, CHR 0xAE, CHR 0xCE, CHR 0x99]),
      ([CHR 0xE1, CHR 0xBE, CHR 0x9F], [CHR 0xE1, CHR 0xBC, CHR 0xAF, CHR 0xCE, CHR 0x99]),
      ([CHR 0xE1, CHR 0xBE, CHR 0xA0], [CHR 0xE1, CHR 0xBD, CHR 0xA8, CHR 0xCE, CHR 0x99]),
      ([CHR 0xE1, CHR 0xBE, CHR 0xA1], [CHR 0xE1, CHR 0xBD, CHR 0xA9, CHR 0xCE, CHR 0x99]),
      ([CHR 0xE1, CHR 0xBE, CHR 0xA2], [CHR 0xE1, CHR 0xBD, CHR 0xAA, CHR 0xCE, CHR 0x99]),
      ([CHR 0xE1, CHR 0xBE, CHR 0xA3], [CHR 0xE1, CHR 0xBD, CHR 0xAB, CHR 0xCE, CHR 0x99]),
      ([CHR 0xE1, CHR 0xBE, CHR 0xA4], [CHR 0xE1, CHR 0xBD, CHR 0xAC, CHR 0xCE, CHR 0x99]),
      ([CHR 0xE1, CHR 0xBE, CHR 0xA5], [CHR 0xE1, CHR 0xBD, CHR 0xAD, CHR 0xCE, CHR 0x99]),
      ([CHR 0xE1, CHR 0xBE, CHR 0xA6], [CHR 0xE1, CHR 0xBD, CHR 0xAE, CHR 0xCE, CHR 0x99]),
      ([CHR 0xE1, CHR 0xBE, CHR 0xA7], [CHR 0xE1, CHR 0xBD, CHR 0xAF, CHR 0xCE, CHR 0x99]),
      ([CHR 0xE1, CHR 0xBE, CHR 0xA8], [CHR 0xE1, CHR 0xBD, CHR 0xA8, CHR 0xCE, CHR 0x99]),
      ([CHR 0xE1, CHR 0xBE, CHR 0xA9], [CHR 0xE1, CHR 0xBD, CHR 0xA9, CHR 0xCE, CHR 0x99]),
      ([CHR 0xE1, CHR 0xBE, CHR 0xAA], [CHR 0xE1, CHR 0xBD, CHR 0xAA, CHR 0xCE, CHR 0x99]),
      ([CHR 0xE1, CHR 0xBE, CHR 0xAB], [CHR 0xE1, CHR 0xBD, CHR 0xAB, CHR 0xCE, CHR 0x99]),
      ([CHR 0xE1, CHR 0xBE, CHR 0xAC], [CHR 0xE1, CHR 0xBD, CHR 0xAC, CHR 0xCE, CHR 0x99]),
      ([CHR 0xE1, CHR 0xBE, CHR 0xAD], [CHR 0xE1, CHR 0xBD, CHR 0xAD, CHR 0xCE, CHR 0x99]),
      ([CHR 0xE1, CHR 0xBE, CHR 0xAE], [CHR 0xE1, CHR 0xBD, CHR 0xAE, CHR 0xCE, CHR 0x99]),
      ([CHR 0xE1, CHR 0xBE, CHR 0xAF], [CHR 0xE1, CHR 0xBD, CHR 0xAF, CHR 0xCE, CHR 0x99]),
      ([CHR 0xE1, CHR 0xBE, CHR 0xB0], [CHR 0xE1, CHR 0xBE, CHR 0xB8]),
      ([CHR 0xE1, CHR 0xBE, CHR 0xB1], [CHR 0xE1, CHR 0xBE, CHR 0xB9]),
      ([CHR 0xE1, CHR 0xBE, CHR 0xB2], [CHR 0xE1, CHR 0xBE, CHR 0xBA, CHR 0xCE, CHR 0x99]),
      ([CHR 0xE1, CHR 0xBE, CHR 0xB3], [CHR 0xCE, CHR 0x91, CHR 0xCE, CHR 0x99]),
      ([CHR 0xE1, CHR 0xBE, CHR 0xB4], [CHR 0xCE, CHR 0x86, CHR 0xCE, CHR 0x99]),
      ([CHR 0xE1, CHR 0xBE, CHR 0xB6], [CHR 0xCE, CHR 0x91, CHR 0xCD, CHR 0x82]),
      ([CHR 0xE1, CHR 0xBE, CHR 0xB7], [CHR 0xCE, CHR 0x91, CHR 0xCD, CHR 0x82, CHR 0xCE, CHR 0x99]),
      ([CHR 0xE1, CHR 0xBE, CHR 0xBC], [CHR 0xCE, CHR 0x91, CHR 0xCE, CHR 0x99]),
      ([CHR 0xE1, CHR 0xBE, CHR 0xBE], [CHR 0xCE, CHR 0x99]),
      ([CHR 0xE1, CHR 0xBF, CHR 0x82], [CHR 0xE1, CHR 0xBF, CHR 0x8A, CHR 0xCE, CHR 0x99]),
      ([CHR 0xE1, CHR 0xBF, CHR 0x83], [CHR 0xCE, CHR 0x97, CHR 0xCE, CHR 0x99]),
      ([CHR 0xE1, CHR 0xBF, CHR 0x84], [CHR 0xCE, CHR 0x89, CHR 0xCE, CHR 0x99]),
      ([CHR 0xE1, CHR 0xBF, CHR 0x86], [CHR 0xCE, CHR 0x97, CHR 0xCD, CHR 0x82]),
      ([CHR 0xE1, CHR 0xBF, CHR 0x87], [CHR 0xCE, CHR 0x97, CHR 0xCD, CHR 0x82, CHR 0xCE, CHR 0x99]),
      ([CHR 0xE1, CHR 0xBF, CHR 0x8C], [CHR 0xCE, CHR 0x97, CHR 0xCE, CHR 0x99]),
      ([CHR 0xE1, CHR 0xBF, CHR 0x90], [CHR 0xE1, CHR 0xBF, CHR 0x98]),
      ([CHR 0xE1, CHR 0xBF, CHR 0x91], [CHR 0xE1, CHR 0xBF, CHR 0x99]),
      ([CHR 0xE1, CHR 0xBF, CHR 0x92], [CHR 0xCE, CHR 0x99, CHR 0xCC, CHR 0x88, CHR 0xCC, CHR 0x80]),
      ([CHR 0xE1, CHR 0xBF, CHR 0x93], [CHR 0xCE, CHR 0x99, CHR 0xCC, CHR 0x88, CHR 0xCC, CHR 0x81])]"

definition upper_table_09 :: "(string \<times> string) list" where
  "upper_table_09 =
     [([CHR 0xE1, CHR 0xBF, CHR 0x96], [CHR 0xCE, CHR 0x99, CHR 0xCD, CHR 0x82]),
      ([CHR 0xE1, CHR 0xBF, CHR 0x97], [CHR 0xCE, CHR 0x99, CHR 0xCC, CHR 0x88, CHR 0xCD, CHR 0x82]),
      ([CHR 0xE1, CHR 0xBF, CHR 0xA0], [CHR 0xE1, CHR 0xBF, CHR 0xA8]),
      ([CHR 0xE1, CHR 0xBF, CHR 0xA1], [CHR 0xE1, CHR 0xBF, CHR 0xA9]),
      ([CHR 0xE1, CHR 0xBF, CHR 0xA2], [CHR 0xCE, CHR 0xA5, CHR 0xCC, CHR 0x88, CHR 0xCC, CHR 0x80]),
      ([CHR 0xE1, CHR 0xBF, CHR 0xA3], [CHR 0xCE, CHR 0xA5, CHR 0xCC, CHR 0x88, CHR 0xCC, CHR 0x81]),
      ([CHR 0xE1, CHR 0xBF, CHR 0xA4], [CHR 0xCE, CHR 0xA1, CHR 0xCC, CHR 0x93]),
      ([CHR 0xE1, CHR 0xBF, CHR 0xA5], [CHR 0xE1, CHR 0xBF, CHR 0xAC]),
      ([CHR 0xE1, CHR 0xBF, CHR 0xA6], [CHR 0xCE, CHR 0xA5, CHR 0xCD, CHR 0x82]),
      ([CHR 0xE1, CHR 0xBF, CHR 0xA7], [CHR 0xCE, CHR 0xA5, CHR 0xCC, CHR 0x88, CHR 0xCD, CHR 0x82]),
      ([CHR 0xE1, CHR 0xBF, CHR 0xB2], [CHR 0xE1, CHR 0xBF, CHR 0xBA, CHR 0xCE, CHR 0x99]),
      ([CHR 0xE1, CHR 0xBF, CHR 0xB3], [CHR 0xCE, CHR 0xA9, CHR 0xCE, CHR 0x99]),
      ([CHR 0xE1, CHR 0xBF, CHR 0xB4], [CHR 0xCE, CHR 0x8F, CHR 0xCE, CHR 0x99]),
      ([CHR 0xE1, CHR 0xBF, CHR 0xB6], [CHR 0xCE, CHR 0xA9, CHR 0xCD, CHR 0x82]),
      ([CHR 0xE1, CHR 0xBF, CHR 0xB7], [CHR 0xCE, CHR 0xA9, CHR 0xCD, CHR 0x82, CHR 0xCE, CHR 0x99]),
      ([CHR 0xE1, CHR 0xBF, CHR 0xBC], [CHR 0xCE, CHR 0xA9, CHR 0xCE, CHR 0x99]),
      ([CHR 0xE2, CHR 0x85, CHR 0x8E], [CHR 0xE2, CHR 0x84, CHR 0xB2]),
      ([CHR 0xE2, CHR 0x85, CHR 0xB0], [CHR 0xE2, CHR 0x85, CHR 0xA0]),
      ([CHR 0xE2, CHR 0x85, CHR 0xB1], [CHR 0xE2, CHR 0x85, CHR 0xA1]),
      ([CHR 0xE2, CHR 0x85, CHR 0xB2], [CHR 0xE2, CHR 0x85, CHR 0xA2]),
      ([CHR 0xE2, CHR 0x85, CHR 0xB3], [CHR 0xE2, CHR 0x85, CHR 0xA3]),
      ([CHR 0xE2, CHR 0x85, CHR 0xB4], [CHR 0xE2, CHR 0x85, CHR 0xA4]),
      ([CHR 0xE2, CHR 0x85, CHR 0xB5], [CHR 0xE2, CHR 0x85, CHR 0xA5]),
      ([CHR 0xE2, CHR 0x85, CHR 0xB6], [CHR 0xE2, CHR 0x85, CHR 0xA6]),
      ([CHR 0xE2, CHR 0x85, CHR 0xB7], [CHR 0xE2, CHR 0x85, CHR 0xA7]),
      ([CHR 0xE2, CHR 0x85, CHR 0xB8], [CHR 0xE2, CHR 0x85, CHR 0xA8]),
      ([CHR 0xE2, CHR 0x85, CHR 0xB9], [CHR 0xE2, CHR 0x85, CHR 0xA9]),
      ([CHR 0xE2, CHR 0x85, CHR 0xBA], [CHR 0xE2, CHR 0x85, CHR 0xAA]),
      ([CHR 0xE2, CHR 0x85, CHR 0xBB], [CHR 0xE2, CHR 0x85, CHR 0xAB]),
      ([CHR 0xE2, CHR 0x85, CHR 0xBC], [CHR 0xE2, CHR 0x85, CHR 0xAC]),
      ([CHR 0xE2, CHR 0x85, CHR 0xBD], [CHR 0xE2, CHR 0x85, CHR 0xAD]),
      ([CHR 0xE2, CHR 0x85, CHR 0xBE], [CHR 0xE2, CHR 0x85, CHR 0xAE]),
      ([CHR 0xE2, CHR 0x85, CHR 0xBF], [CHR 0xE2, CHR 0x85, CHR 0xAF]),
      ([CHR 0xE2, CHR 0x86, CHR 0x84], [CHR 0xE2, CHR 0x86, CHR 0x83]),
      ([CHR 0xE2, CHR 0x93, CHR 0x90], [CHR 0xE2, CHR 0x92, CHR 0xB6]),
      ([CHR 0xE2, CHR 0x93, CHR 0x91], [CHR 0xE2, CHR 0x92, CHR 0xB7]),
      ([CHR 0xE2, CHR 0x93, CHR 0x92], [CHR 0xE2, CHR 0x92, CHR 0xB8]),
      ([CHR 0xE2, CHR 0x93, CHR 0x93], [CHR 0xE2, CHR 0x92, CHR 0xB9]),
      ([CHR 0xE2, CHR 0x93, CHR 0x94], [CHR 0xE2, CHR 0x92, CHR 0xBA]),
      ([CHR 0xE2, CHR 0x93, CHR 0x95], [CHR 0xE2, CHR 0x92, CHR 0xBB]),
      ([CHR 0xE2, CHR 0x93, CHR 0x96], [CHR 0xE2, CHR 0x92, CHR 0xBC]),
      ([CHR 0xE2, CHR 0x93, CHR 0x97], [CHR 0xE2, CHR 0x92, CHR 0xBD]),
      ([CHR 0xE2, CHR 0x93, CHR 0x98], [CHR 0xE2, CHR 0x92, CHR 0xBE]),
      ([CHR 0xE2, CHR 0x93, CHR 0x99], [CHR 0xE2, CHR 0x92, CHR 0xBF]),
      ([CHR 0xE2, CHR 0x93, CHR 0x9A], [CHR 0xE2, CHR 0x93, CHR 0x80]),
      ([CHR 0xE2, CHR 0x93, CHR 0x9B], [CHR 0xE2, CHR 0x93, CHR 0x81]),
      ([CHR 0xE2, CHR 0x93, CHR 0x9C], [CHR 0xE2, CHR 0x93, CHR 0x82]),
      ([CHR 0xE2, CHR 0x93, CHR 0x9D], [CHR 0xE2, CHR 0x93, CHR 0x83]),
      ([CHR 0xE2, CHR 0x93, CHR 0x9E], [CHR 0xE2, CHR 0x93, CHR 0x84]),
      ([CHR 0xE2, CHR 0x93, CHR 0x9F], [CHR 0xE2, CHR 0x93, CHR 0x85]),
      ([CHR 0xE2, CHR 0x93, CHR 0xA0], [CHR 0xE2, CHR 0x93, CHR 0x86]),
      ([CHR 0xE2, CHR 0x93, CHR 0xA1], [CHR 0xE2, CHR 0x93, CHR 0x87]),
      ([CHR 0xE2, CHR 0x93, CHR 0xA2], [CHR 0xE2, CHR 0x93, CHR 0x88]),
      ([CHR 0xE2, CHR 0x93, CHR 0xA3], [CHR 0xE2, CHR 0x93, CHR 0x89]),
      ([CHR 0xE2, CHR 0x93, CHR 0xA4], [CHR 0xE2, CHR 0x93, CHR 0x8A]),
      ([CHR 0xE2, CHR 0x93, CHR 0xA5], [CHR 0xE2, CHR 0x93, CHR 0x8B]),
      ([CHR 0xE2, CHR 0x93, CHR 0xA6], [CHR 0xE2, CHR 0x93, CHR 0x8C]),
      ([CHR 0xE2, CHR 0x93, CHR 0xA7], [CHR 0xE2, CHR 0x93, CHR 0x8D]),
      ([CHR 0xE2, CHR 0x93, CHR 0xA8], [CHR 0xE2, CHR 0x93, CHR 0x8E]),
      ([CHR 0xE2, CHR 0x93, CHR 0xA9], [CHR 0xE2, CHR 0x93, CHR 0x8F]),
      ([CHR 0xE2, CHR 0xB0, CHR 0xB0], [CHR 0xE2, CHR 0xB0, CHR 0x80]),
      ([CHR 0xE2, CHR 0xB0, CHR 0xB1], [CHR 0xE2, CHR 0xB0, CHR 0x81]),
      ([CHR 0xE2, CHR 0xB0, CHR 0xB2], [CHR 0xE2, CHR 0xB0, CHR 0x82]),
      ([CHR 0xE2, CHR 0xB0, CHR 0xB3], [CHR 0xE2, CHR 0xB0, CHR 0x83]),
      ([CHR 0xE2, CHR 0xB0, CHR 0xB4], [CHR 0xE2, CHR 0xB0, CHR 0x84]),
      ([CHR 0xE2, CHR 0xB0, CHR 0xB5], [CHR 0xE2, CHR 0xB0, CHR 0x85]),
      ([CHR 0xE2, CHR 0xB0, CHR 0xB6], [CHR 0xE2, CHR 0xB0, CHR 0x86]),
      ([CHR 0xE2, CHR 0xB0, CHR 0xB7], [CHR 0xE2, CHR 0xB0, CHR 0x87]),
      ([CHR 0xE2, CHR 0xB0, CHR 0xB8], [CHR 0xE2, CHR 0xB0, CHR 0x88]),
      ([CHR 0xE2, CHR 0xB0, CHR 0xB9], [CHR 0xE2, CHR 0xB0, CHR 0x89]),
      ([CHR 0xE2, CHR 0xB0, CHR 0xBA], [CHR 0xE2, CHR 0xB0, CHR 0x8A]),
      ([CHR 0xE2, CHR 0xB0, CHR 0xBB], [CHR 0xE2, CHR 0xB0, CHR 0x8B]),
      ([CHR 0xE2, CHR 0xB0, CHR 0xBC], [CHR 0xE2, CHR 0xB0, CHR 0x8C]),
      ([CHR 0xE2, CHR 0xB0, CHR 0xBD], [CHR 0xE2, CHR 0xB0, CHR 0x8D]),
      ([CHR 0xE2, CHR 0xB0, CHR 0xBE], [CHR 0xE2, CHR 0xB0, CHR 0x8E]),
      ([CHR 0xE2, CHR 0xB0, CHR 0xBF], [CHR 0xE2, CHR 0xB0, CHR 0x8F]),
      ([CHR 0xE2, CHR 0xB1, CHR 0x80], [CHR 0xE2, CHR 0xB0, CHR 0x90]),
      ([CHR 0xE2, CHR 0xB1, CHR 0x81], [CHR 0xE2, CHR 0xB0, CHR 0x91]),
      ([CHR 0xE2, CHR 0xB1, CHR 0x82], [CHR 0xE2, CHR 0xB0, CHR 0x92]),
      ([CHR 0xE2, CHR 0xB1, CHR 0x83], [CHR 0xE2, CHR 0xB0, CHR 0x93]),
      ([CHR 0xE2, CHR 0xB1, CHR 0x84], [CHR 0xE2, CHR 0xB0, CHR 0x94]),
      ([CHR 0xE2, CHR 0xB1, CHR 0x85], [CHR 0xE2, CHR 0xB0, CHR 0x95]),
      ([CHR 0xE2, CHR 0xB1, CHR 0x86], [CHR 0xE2, CHR 0xB0, CHR 0x96]),
      ([CHR 0xE2, CHR 0xB1, CHR 0x87], [CHR 0xE2, CHR 0xB0, CHR 0x97]),
      ([CHR 0xE2, CHR 0xB1, CHR 0x88], [CHR 0xE2, CHR 0xB0, CHR 0x98]),
      ([CHR 0xE2, CHR 0xB1, CHR 0x89], [CHR 0xE2, CHR 0xB0, CHR 0x99]),
      ([CHR 0xE2, CHR 0xB1, CHR 0x8A], [CHR 0xE2, CHR 0xB0, CHR 0x9A]),
      ([CHR 0xE2, CHR 0xB1, CHR 0x8B], [CHR 0xE2, CHR 0xB0, CHR 0x9B]),
      ([CHR 0xE2, CHR 0xB1, CHR 0x8C], [CHR 0xE2, CHR 0xB0, CHR 0x9C]),
      ([CHR 0xE2, CHR 0xB1, CHR 0x8D], [CHR 0xE2, CHR 0xB0, CHR 0x9D]),
      ([CHR 0xE2, CHR 0xB1, CHR 0x8E], [CHR 0xE2, CHR 0xB0, CHR 0x9E]),
      ([CHR 0xE2, CHR 0xB1, CHR 0x8F], [CHR 0xE2, CHR 0xB0, CHR 0x9F]),
      ([CHR 0xE2, CHR 0xB1, CHR 0x90], [CHR 0xE2, CHR 0xB0, CHR 0xA0]),
      ([CHR 0xE2, CHR 0xB1, CHR 0x91], [CHR 0xE2, CHR 0xB0, CHR 0xA1]),
      ([CHR 0xE2, CHR 0xB1, CHR 0x92], [CHR 0xE2, CHR 0xB0, CHR 0xA2]),
      ([CHR 0xE2, CHR 0xB1, CHR 0x93], [CHR 0xE2, CHR 0xB0, CHR 0xA3]),
      ([CHR 0xE2, CHR 0xB1, CHR 0x94], [CHR 0xE2, CHR 0xB0, CHR 0xA4]),
      ([CHR 0xE2, CHR 0xB1, CHR 0x95], [CHR 0xE2, CHR 0xB0, CHR 0xA5]),
      ([CHR 0xE2, CHR 0xB1, CHR 0x96], [CHR 0xE2, CHR 0xB0, CHR 0xA6]),
      ([CHR 0xE2, CHR 0xB1, CHR 0x97], [CHR 0xE2, CHR 0xB0, CHR 0xA7])]"

definition upper_table_10 :: "(string \<times> string) list" where
  "upper_table_10 =
     [([CHR 0xE2, CHR 0xB1, CHR 0x98], [CHR 0xE2, CHR 0xB0, CHR 0xA8]),
      ([CHR 0xE2, CHR 0xB1, CHR 0x99], [CHR 0xE2, CHR 0xB0, CHR 0xA9]),
      ([CHR 0xE2, CHR 0xB1, CHR 0x9A], [CHR 0xE2, CHR 0xB0, CHR 0xAA]),
      ([CHR 0xE2, CHR 0xB1, CHR 0x9B], [CHR 0xE2, CHR 0xB0, CHR 0xAB]),
      ([CHR 0xE2, CHR 0xB1, CHR 0x9C], [CHR 0xE2, CHR 0xB0, CHR 0xAC]),
      ([CHR 0xE2, CHR 0xB1, CHR 0x9D], [CHR 0xE2, CHR 0xB0, CHR 0xAD]),
      ([CHR 0xE2, CHR 0xB1, CHR 0x9E], [CHR 0xE2, CHR 0xB0, CHR 0xAE]),
      ([CHR 0xE2, CHR 0xB1, CHR 0x9F], [CHR 0xE2, CHR 0xB0, CHR 0xAF]),
      ([CHR 0xE2, CHR 0xB1, CHR 0xA1], [CHR 0xE2, CHR 0xB1, CHR 0xA0]),
      ([CHR 0xE2, CHR 0xB1, CHR 0xA5], [CHR 0xC8, CHR 0xBA]),
      ([CHR 0xE2, CHR 0xB1, CHR 0xA6], [CHR 0xC8, CHR 0xBE]),
      ([CHR 0xE2, CHR 0xB1, CHR 0xA8], [CHR 0xE2, CHR 0xB1, CHR 0xA7]),
      ([CHR 0xE2, CHR 0xB1, CHR 0xAA], [CHR 0xE2, CHR 0xB1, CHR 0xA9]),
      ([CHR 0xE2, CHR 0xB1, CHR 0xAC], [CHR 0xE2, CHR 0xB1, CHR 0xAB]),
      ([CHR 0xE2, CHR 0xB1, CHR 0xB3], [CHR 0xE2, CHR 0xB1, CHR 0xB2]),
      ([CHR 0xE2, CHR 0xB1, CHR 0xB6], [CHR 0xE2, CHR 0xB1, CHR 0xB5]),
      ([CHR 0xE2, CHR 0xB2, CHR 0x81], [CHR 0xE2, CHR 0xB2, CHR 0x80]),
      ([CHR 0xE2, CHR 0xB2, CHR 0x83], [CHR 0xE2, CHR 0xB2, CHR 0x82]),
      ([CHR 0xE2, CHR 0xB2, CHR 0x85], [CHR 0xE2, CHR 0xB2, CHR 0x84]),
      ([CHR 0xE2, CHR 0xB2, CHR 0x87], [CHR 0xE2, CHR 0xB2, CHR 0x86]),
      ([CHR 0xE2, CHR 0xB2, CHR 0x89], [CHR 0xE2, CHR 0xB2, CHR 0x88]),
      ([CHR 0xE2, CHR 0xB2, CHR 0x8B], [CHR 0xE2, CHR 0xB2, CHR 0x8A]),
      ([CHR 0xE2, CHR 0xB2, CHR 0x8D], [CHR 0xE2, CHR 0xB2, CHR 0x8C]),
      ([CHR 0xE2, CHR 0xB2, CHR 0x8F], [CHR 0xE2, CHR 0xB2, CHR 0x8E]),
      ([CHR 0xE2, CHR 0xB2, CHR 0x91], [CHR 0xE2, CHR 0xB2, CHR 0x90]),
      ([CHR 0xE2, CHR 0xB2, CHR 0x93], [CHR 0xE2, CHR 0xB2, CHR 0x92]),
      ([CHR 0xE2, CHR 0xB2, CHR 0x95], [CHR 0xE2, CHR 0xB2, CHR 0x94]),
      ([CHR 0xE2, CHR 0xB2, CHR 0x97], [CHR 0xE2, CHR 0xB2, CHR 0x96]),
      ([CHR 0xE2, CHR 0xB2, CHR 0x99], [CHR 0xE2, CHR 0xB2, CHR 0x98]),
      ([CHR 0xE2, CHR 0xB2, CHR 0x9B], [CHR 0xE2, CHR 0xB2, CHR 0x9A]),
      ([CHR 0xE2, CHR 0xB2, CHR 0x9D], [CHR 0xE2, CHR 0xB2, CHR 0x9C]),
      ([CHR 0xE2, CHR 0xB2, CHR 0x9F], [CHR 0xE2, CHR 0xB2, CHR 0x9E]),
      ([CHR 0xE2, CHR 0xB2, CHR 0xA1], [CHR 0xE2, CHR 0xB2, CHR 0xA0]),
      ([CHR 0xE2, CHR 0xB2, CHR 0xA3], [CHR 0xE2, CHR 0xB2, CHR 0xA2]),
      ([CHR 0xE2, CHR 0xB2, CHR 0xA5], [CHR 0xE2, CHR 0xB2, CHR 0xA4]),
      ([CHR 0xE2, CHR 0xB2, CHR 0xA7], [CHR 0xE2, CHR 0xB2, CHR 0xA6]),
      ([CHR 0xE2, CHR 0xB2, CHR 0xA9], [CHR 0xE2, CHR 0xB2, CHR 0xA8]),
      ([CHR 0xE2, CHR 0xB2, CHR 0xAB], [CHR 0xE2, CHR 0xB2, CHR 0xAA]),
      ([CHR 0xE2, CHR 0xB2, CHR 0xAD], [CHR 0xE2, CHR 0xB2, CHR 0xAC]),
      ([CHR 0xE2, CHR 0xB2, CHR 0xAF], [CHR 0xE2, CHR 0xB2, CHR 0xAE]),
      ([CHR 0xE2, CHR 0xB2, CHR 0xB1], [CHR 0xE2, CHR 0xB2, CHR 0xB0]),
      ([CHR 0xE2, CHR 0xB2, CHR 0xB3], [CHR 0xE2, CHR 0xB2, CHR 0xB2]),
      ([CHR 0xE2, CHR 0xB2, CHR 0xB5], [CHR 0xE2, CHR 0xB2, CHR 0xB4]),
      ([CHR 0xE2, CHR 0xB2, CHR 0xB7], [CHR 0xE2, CHR 0xB2, CHR 0xB6]),
      ([CHR 0xE2, CHR 0xB2, CHR 0xB9], [CHR 0xE2, CHR 0xB2, CHR 0xB8]),
      ([CHR 0xE2, CHR 0xB2, CHR 0xBB], [CHR 0xE2, CHR 0xB2, CHR 0xBA]),
      ([CHR 0xE2, CHR 0xB2, CHR 0xBD], [CHR 0xE2, CHR 0xB2, CHR 0xBC]),
      ([CHR 0xE2, CHR 0xB2, CHR 0xBF], [CHR 0xE2, CHR 0xB2, CHR 0xBE]),
      ([CHR 0xE2, CHR 0xB3, CHR 0x81], [CHR 0xE2, CHR 0xB3, CHR 0x80]),
      ([CHR 0xE2, CHR 0xB3, CHR 0x83], [CHR 0xE2, CHR 0xB3, CHR 0x82]),
      ([CHR 0xE2, CHR 0xB3, CHR 0x85], [CHR 0xE2, CHR 0xB3, CHR 0x84]),
      ([CHR 0xE2, CHR 0xB3, CHR 0x87], [CHR 0xE2, CHR 0xB3, CHR 0x86]),
      ([CHR 0xE2, CHR 0xB3, CHR 0x89], [CHR 0xE2, CHR 0xB3, CHR 0x88]),
      ([CHR 0xE2, CHR 0xB3, CHR 0x8B], [CHR 0xE2, CHR 0xB3, CHR 0x8A]),
      ([CHR 0xE2, CHR 0xB3, CHR 0x8D], [CHR 0xE2, CHR 0xB3, CHR 0x8C]),
      ([CHR 0xE2, CHR 0xB3, CHR 0x8F], [CHR 0xE2, CHR 0xB3, CHR 0x8E]),
      ([CHR 0xE2, CHR 0xB3, CHR 0x91], [CHR 0xE2, CHR 0xB3, CHR 0x90]),
      ([CHR 0xE2, CHR 0xB3, CHR 0x93], [CHR 0xE2, CHR 0xB3, CHR 0x92]),
      ([CHR 0xE2, CHR 0xB3, CHR 0x95], [CHR 0xE2, CHR 0xB3, CHR 0x94]),
      ([CHR 0xE2, CHR 0xB3, CHR 0x97], [CHR 0xE2, CHR 0xB3, CHR 0x96]),
      ([CHR 0xE2, CHR 0xB3, CHR 0x99], [CHR 0xE2, CHR 0xB3, CHR 0x98]),
      ([CHR 0xE2, CHR 0xB3, CHR 0x9B], [CHR 0xE2, CHR 0xB3, CHR 0x9A]),
      ([CHR 0xE2, CHR 0xB3, CHR 0x9D], [CHR 0xE2, CHR 0xB3, CHR 0x9C]),
      ([CHR 0xE2, CHR 0xB3, CHR 0x9F], [CHR 0xE2, CHR 0xB3, CHR 0x9E]),
      ([CHR 0xE2, CHR 0xB3, CHR 0xA1], [CHR 0xE2, CHR 0xB3, CHR 0xA0]),
      ([CHR 0xE2, CHR 0xB3, CHR 0xA3], [CHR 0xE2, CHR 0xB3, CHR 0xA2]),
      ([CHR 0xE2, CHR 0xB3, CHR 0xAC], [CHR 0xE2, CHR 0xB3, CHR 0xAB]),
      ([CHR 0xE2, CHR 0xB3, CHR 0xAE], [CHR 0xE2, CHR 0xB3, CHR 0xAD]),
      ([CHR 0xE2, CHR 0xB3, CHR 0xB3], [CHR 0xE2, CHR 0xB3, CHR 0xB2]),
      ([CHR 0xE2, CHR 0xB4, CHR 0x80], [CHR 0xE1, CHR 0x82, CHR 0xA0]),
      ([CHR 0xE2, CHR 0xB4, CHR 0x81], [CHR 0xE1, CHR 0x82, CHR 0xA1]),
      ([CHR 0xE2, CHR 0xB4, CHR 0x82], [CHR 0xE1, CHR 0x82, CHR 0xA2]),
      ([CHR 0xE2, CHR 0xB4, CHR 0x83], [CHR 0xE1, CHR 0x82, CHR 0xA3]),
      ([CHR 0xE2, CHR 0xB4, CHR 0x84], [CHR 0xE1, CHR 0x82, CHR 0xA4]),
      ([CHR 0xE2, CHR 0xB4, CHR 0x85], [CHR 0xE1, CHR 0x82, CHR 0xA5]),
      ([CHR 0xE2, CHR 0xB4, CHR 0x86], [CHR 0xE1, CHR 0x82, CHR 0xA6]),
      ([CHR 0xE2, CHR 0xB4, CHR 0x87], [CHR 0xE1, CHR 0x82, CHR 0xA7]),
      ([CHR 0xE2, CHR 0xB4, CHR 0x88], [CHR 0xE1, CHR 0x82, CHR 0xA8]),
      ([CHR 0xE2, CHR 0xB4, CHR 0x89], [CHR 0xE1, CHR 0x82, CHR 0xA9]),
      ([CHR 0xE2, CHR 0xB4, CHR 0x8A], [CHR 0xE1, CHR 0x82, CHR 0xAA]),
      ([CHR 0xE2, CHR 0xB4, CHR 0x8B], [CHR 0xE1, CHR 0x82, CHR 0xAB]),
      ([CHR 0xE2, CHR 0xB4, CHR 0x8C], [CHR 0xE1, CHR 0x82, CHR 0xAC]),
      ([CHR 0xE2, CHR 0xB4, CHR 0x8D], [CHR 0xE1, CHR 0x82, CHR 0xAD]),
      ([CHR 0xE2, CHR 0xB4, CHR 0x8E], [CHR 0xE1, CHR 0x82, CHR 0xAE]),
      ([CHR 0xE2, CHR 0xB4, CHR 0x8F], [CHR 0xE1, CHR 0x82, CHR 0xAF]),
      ([CHR 0xE2, CHR 0xB4, CHR 0x90], [CHR 0xE1, CHR 0x82, CHR 0xB0]),
      ([CHR 0xE2, CHR 0xB4, CHR 0x91], [CHR 0xE1, CHR 0x82, CHR 0xB1]),
      ([CHR 0xE2, CHR 0xB4, CHR 0x92], [CHR 0xE1, CHR 0x82, CHR 0xB2]),
      ([CHR 0xE2, CHR 0xB4, CHR 0x93], [CHR 0xE1, CHR 0x82, CHR 0xB3]),
      ([CHR 0xE2, CHR 0xB4, CHR 0x94], [CHR 0xE1, CHR 0x82, CHR 0xB4]),
      ([CHR 0xE2, CHR 0xB4, CHR 0x95], [CHR 0xE1, CHR 0x82, CHR 0xB5]),
      ([CHR 0xE2, CHR 0xB4, CHR 0x96], [CHR 0xE1, CHR 0x82, CHR 0xB6]),
      ([CHR 0xE2, CHR 0xB4, CHR 0x97], [CHR 0xE1, CHR 0x82, CHR 0xB7]),
      ([CHR 0xE2, CHR 0xB4, CHR 0x98], [CHR 0xE1, CHR 0x82, CHR 0xB8]),
      ([CHR 0xE2, CHR 0xB4, CHR 0x99], [CHR 0xE1, CHR 0x82, CHR 0xB9]),
      ([CHR 0xE2, CHR 0xB4, CHR 0x9A], [CHR 0xE1, CHR 0x82, CHR 0xBA]),
      ([CHR 0xE2, CHR 0xB4, CHR 0x9B], [CHR 0xE1, CHR 0x82, CHR 0xBB]),
      ([CHR 0xE2, CHR 0xB4, CHR 0x9C], [CHR 0xE1, CHR 0x82, CHR 0xBC]),
      ([CHR 0xE2, CHR 0xB4, CHR 0x9D], [CHR 0xE1, CHR 0x82, CHR 0xBD]),
      ([CHR 0xE2, CHR 0xB4, CHR 0x9E], [CHR 0xE1, CHR 0x82, CHR 0xBE])]"

definition upper_table_11 :: "(string \<times> string) list" where
  "upper_table_11 =
     [([CHR 0xE2, CHR 0xB4, CHR 0x9F], [CHR 0xE1, CHR 0x82, CHR 0xBF]),
      ([CHR 0xE2, CHR 0xB4, CHR 0xA0], [CHR 0xE1, CHR 0x83, CHR 0x80]),
      ([CHR 0xE2, CHR 0xB4, CHR 0xA1], [CHR 0xE1, CHR 0x83, CHR 0x81]),
      ([CHR 0xE2, CHR 0xB4, CHR 0xA2], [CHR 0xE1, CHR 0x83, CHR 0x82]),
      ([CHR 0xE2, CHR 0xB4, CHR 0xA3], [CHR 0xE1, CHR 0x83, CHR 0x83]),
      ([CHR 0xE2, CHR 0xB4, CHR 0xA4], [CHR 0xE1, CHR 0x83, CHR 0x84]),
      ([CHR 0xE2, CHR 0xB4, CHR 0xA5], [CHR 0xE1, CHR 0x83, CHR 0x85]),
      ([CHR 0xE2, CHR 0xB4, CHR 0xA7], [CHR 0xE1, CHR 0x83, CHR 0x87]),
      ([CHR 0xE2, CHR 0xB4, CHR 0xAD], [CHR 0xE1, CHR 0x83, CHR 0x8D]),
      ([CHR 0xEA, CHR 0x99, CHR 0x81], [CHR 0xEA, CHR 0x99, CHR 0x80]),
      ([CHR 0xEA, CHR 0x99, CHR 0x83], [CHR 0xEA, CHR 0x99, CHR 0x82]),
      ([CHR 0xEA, CHR 0x99, CHR 0x85], [CHR 0xEA, CHR 0x99, CHR 0x84]),
      ([CHR 0xEA, CHR 0x99, CHR 0x87], [CHR 0xEA, CHR 0x99, CHR 0x86]),
      ([CHR 0xEA, CHR 0x99, CHR 0x89], [CHR 0xEA, CHR 0x99, CHR 0x88]),
      ([CHR 0xEA, CHR 0x99, CHR 0x8B], [CHR 0xEA, CHR 0x99, CHR 0x8A]),
      ([CHR 0xEA, CHR 0x99, CHR 0x8D], [CHR 0xEA, CHR 0x99, CHR 0x8C]),
      ([CHR 0xEA, CHR 0x99, CHR 0x8F], [CHR 0xEA, CHR 0x99, CHR 0x8E]),
      ([CHR 0xEA, CHR 0x99, CHR 0x91], [CHR 0xEA, CHR 0x99, CHR 0x90]),
      ([CHR 0xEA, CHR 0x99, CHR 0x93], [CHR 0xEA, CHR 0x99, CHR 0x92]),
      ([CHR 0xEA, CHR 0x99, CHR 0x95], [CHR 0xEA, CHR 0x99, CHR 0x94]),
      ([CHR 0xEA, CHR 0x99, CHR 0x97], [CHR 0xEA, CHR 0x99, CHR 0x96]),
      ([CHR 0xEA, CHR 0x99, CHR 0x99], [CHR 0xEA, CHR 0x99, CHR 0x98]),
      ([CHR 0xEA, CHR 0x99, CHR 0x9B], [CHR 0xEA, CHR 0x99, CHR 0x9A]),
      ([CHR 0xEA, CHR 0x99, CHR 0x9D], [CHR 0xEA, CHR 0x99, CHR 0x9C]),
      ([CHR 0xEA, CHR 0x99, CHR 0x9F], [CHR 0xEA, CHR 0x99, CHR 0x9E]),
      ([CHR 0xEA, CHR 0x99, CHR 0xA1], [CHR 0xEA, CHR 0x99, CHR 0xA0]),
      ([CHR 0xEA, CHR 0x99, CHR 0xA3], [CHR 0xEA, CHR 0x99, CHR 0xA2]),
      ([CHR 0xEA, CHR 0x99, CHR 0xA5], [CHR 0xEA, CHR 0x99, CHR 0xA4]),
      ([CHR 0xEA, CHR 0x99, CHR 0xA7], [CHR 0xEA, CHR 0x99, CHR 0xA6]),
      ([CHR 0xEA, CHR 0x99, CHR 0xA9], [CHR 0xEA, CHR 0x99, CHR 0xA8]),
      ([CHR 0xEA, CHR 0x99, CHR 0xAB], [CHR 0xEA, CHR 0x99, CHR 0xAA]),
      ([CHR 0xEA, CHR 0x99, CHR 0xAD], [CHR 0xEA, CHR 0x99, CHR 0xAC]),
      ([CHR 0xEA, CHR 0x9A, CHR 0x81], [CHR 0xEA, CHR 0x9A, CHR 0x80]),
      ([CHR 0xEA, CHR 0x9A, CHR 0x83], [CHR 0xEA, CHR 0x9A, CHR 0x82]),
      ([CHR 0xEA, CHR 0x9A, CHR 0x85], [CHR 0xEA, CHR 0x9A, CHR 0x84]),
      ([CHR 0xEA, CHR 0x9A, CHR 0x87], [CHR 0xEA, CHR 0x9A, CHR 0x86]),
      ([CHR 0xEA, CHR 0x9A, CHR 0x89], [CHR 0xEA, CHR 0x9A, CHR 0x88]),
      ([CHR 0xEA, CHR 0x9A, CHR 0x8B], [CHR 0xEA, CHR 0x9A, CHR 0x8A]),
      ([CHR 0xEA, CHR 0x9A, CHR 0x8D], [CHR 0xEA, CHR 0x9A, CHR 0x8C]),
      ([CHR 0xEA, CHR 0x9A, CHR 0x8F], [CHR 0xEA, CHR 0x9A, CHR 0x8E]),
      ([CHR 0xEA, CHR 0x9A, CHR 0x91], [CHR 0xEA, CHR 0x9A, CHR 0x90]),
      ([CHR 0xEA, CHR 0x9A, CHR 0x93], [CHR 0xEA, CHR 0x9A, CHR 0x92]),
      ([CHR 0xEA, CHR 0x9A, CHR 0x95], [CHR 0xEA, CHR 0x9A, CHR 0x94]),
      ([CHR 0xEA, CHR 0x9A, CHR 0x97], [CHR 0xEA, CHR 0x9A, CHR 0x96]),
      ([CHR 0xEA, CHR 0x9A, CHR 0x99], [CHR 0xEA, CHR 0x9A, CHR 0x98]),
      ([CHR 0xEA, CHR 0x9A, CHR 0x9B], [CHR 0xEA, CHR 0x9A, CHR 0x9A]),
      ([CHR 0xEA, CHR 0x9C, CHR 0xA3], [CHR 0xEA, CHR 0x9C, CHR 0xA2]),
      ([CHR 0xEA, CHR 0x9C, CHR 0xA5], [CHR 0xEA, CHR 0x9C, CHR 0xA4]),
      ([CHR 0xEA, CHR 0x9C, CHR 0xA7], [CHR 0xEA, CHR 0x9C, CHR 0xA6]),
      ([CHR 0xEA, CHR 0x9C, CHR 0xA9], [CHR 0xEA, CHR 0x9C, CHR 0xA8]),
      ([CHR 0xEA, CHR 0x9C, CHR 0xAB], [CHR 0xEA, CHR 0x9C, CHR 0xAA]),
      ([CHR 0xEA, CHR 0x9C, CHR 0xAD], [CHR 0xEA, CHR 0x9C, CHR 0xAC]),
      ([CHR 0xEA, CHR 0x9C, CHR 0xAF], [CHR 0xEA, CHR 0x9C, CHR 0xAE]),
      ([CHR 0xEA, CHR 0x9C, CHR 0xB3], [CHR 0xEA, CHR 0x9C, CHR 0xB2]),
      ([CHR 0xEA, CHR 0x9C, CHR 0xB5], [CHR 0xEA, CHR 0x9C, CHR 0xB4]),
      ([CHR 0xEA, CHR 0x9C, CHR 0xB7], [CHR 0xEA, CHR 0x9C, CHR 0xB6]),
      ([CHR 0xEA, CHR 0x9C, CHR 0xB9], [CHR 0xEA, CHR 0x9C, CHR 0xB8]),
      ([CHR 0xEA, CHR 0x9C, CHR 0xBB], [CHR 0xEA, CHR 0x9C, CHR 0xBA]),
      ([CHR 0xEA, CHR 0x9C, CHR 0xBD], [CHR 0xEA, CHR 0x9C, CHR 0xBC]),
      ([CHR 0xEA, CHR 0x9C, CHR 0xBF], [CHR 0xEA, CHR 0x9C, CHR 0xBE]),
      ([CHR 0xEA, CHR 0x9D, CHR 0x81], [CHR 0xEA, CHR 0x9D, CHR 0x80]),
      ([CHR 0xEA, CHR 0x9D, CHR 0x83], [CHR 0xEA, CHR 0x9D, CHR 0x82]),
      ([CHR 0xEA, CHR 0x9D, CHR 0x85], [CHR 0xEA, CHR 0x9D, CHR 0x84]),
      ([CHR 0xEA, CHR 0x9D, CHR 0x87], [CHR 0xEA, CHR 0x9D, CHR 0x86]),
      ([CHR 0xEA, CHR 0x9D, CHR 0x89], [CHR 0xEA, CHR 0x9D, CHR 0x88]),
      ([CHR 0xEA, CHR 0x9D, CHR 0x8B], [CHR 0xEA, CHR 0x9D, CHR 0x8A]),
      ([CHR 0xEA, CHR 0x9D, CHR 0x8D], [CHR 0xEA, CHR 0x9D, CHR 0x8C]),
      ([CHR 0xEA, CHR 0x9D, CHR 0x8F], [CHR 0xEA, CHR 0x9D, CHR 0x8E]),
      ([CHR 0xEA, CHR 0x9D, CHR 0x91], [CHR 0xEA, CHR 0x9D, CHR 0x90]),
      ([CHR 0xEA, CHR 0x9D, CHR 0x93], [CHR 0xEA, CHR 0x9D, CHR 0x92]),
      ([CHR 0xEA, CHR 0x9D, CHR 0x95], [CHR 0xEA, CHR 0x9D, CHR 0x94]),
      ([CHR 0xEA, CHR 0x9D, CHR 0x97], [CHR 0xEA, CHR 0x9D, CHR 0x96]),
      ([CHR 0xEA, CHR 0x9D, CHR 0x99], [CHR 0xEA, CHR 0x9D, CHR 0x98]),
      ([CHR 0xEA, CHR 0x9D, CHR 0x9B], [CHR 0xEA, CHR 0x9D, CHR 0x9A]),
      ([CHR 0xEA, CHR 0x9D, CHR 0x9D], [CHR 0xEA, CHR 0x9D, CHR 0x9C]),
      ([CHR 0xEA, CHR 0x9D, CHR 0x9F], [CHR 0xEA, CHR 0x9D, CHR 0x9E]),
      ([CHR 0xEA, CHR 0x9D, CHR 0xA1], [CHR 0xEA, CHR 0x9D, CHR 0xA0]),
      ([CHR 0xEA, CHR 0x9D, CHR 0xA3], [CHR 0xEA, CHR 0x9D, CHR 0xA2]),
      ([CHR 0xEA, CHR 0x9D, CHR 0xA5], [CHR 0xEA, CHR 0x9D, CHR 0xA4]),
      ([CHR 0xEA, CHR 0x9D, CHR 0xA7], [CHR 0xEA, CHR 0x9D, CHR 0xA6]),
      ([CHR 0xEA, CHR 0x9D, CHR 0xA9], [CHR 0xEA, CHR 0x9D, CHR 0xA8]),
      ([CHR 0xEA, CHR 0x9D, CHR 0xAB], [CHR 0xEA, CHR 0x9D, CHR 0xAA]),
      ([CHR 0xEA, CHR 0x9D, CHR 0xAD], [CHR 0xEA, CHR 0x9D, CHR 0xAC]),
      ([CHR 0xEA, CHR 0x9D, CHR 0xAF], [CHR 0xEA, CHR 0x9D, CHR 0xAE]),
      ([CHR 0xEA, CHR 0x9D, CHR 0xBA], [CHR 0xEA, CHR 0x9D, CHR 0xB9]),
      ([CHR 0xEA, CHR 0x9D, CHR 0xBC], [CHR 0xEA, CHR 0x9D, CHR 0xBB]),
      ([CHR 0xEA, CHR 0x9D, CHR 0xBF], [CHR 0xEA, CHR 0x9D, CHR 0xBE]),
      ([CHR 0xEA, CHR 0x9E, CHR 0x81], [CHR 0xEA, CHR 0x9E, CHR 0x80]),
      ([CHR 0xEA, CHR 0x9E, CHR 0x83], [CHR 0xEA, CHR 0x9E, CHR 0x82]),
      ([CHR 0xEA, CHR 0x9E, CHR 0x85], [CHR 0xEA, CHR 0x9E, CHR 0x84]),
      ([CHR 0xEA, CHR 0x9E, CHR 0x87], [CHR 0xEA, CHR 0x9E, CHR 0x86]),
      ([CHR 0xEA, CHR 0x9E, CHR 0x8C], [CHR 0xEA, CHR 0x9E, CHR 0x8B]),
      ([CHR 0xEA, CHR 0x9E, CHR 0x91], [CHR 0xEA, CHR 0x9E, CHR 0x90]),
      ([CHR 0xEA, CHR 0x9E, CHR 0x93], [CHR 0xEA, CHR 0x9E, CHR 0x92]),
      ([CHR 0xEA, CHR 0x9E, CHR 0x94], [CHR 0xEA, CHR 0x9F, CHR 0x84]),
      ([CHR 0xEA, CHR 0x9E, CHR 0x97], [CHR 0xEA, CHR 0x9E, CHR 0x96]),
      ([CHR 0xEA, CHR 0x9E, CHR 0x99], [CHR 0xEA, CHR 0x9E, CHR 0x98]),
      ([CHR 0xEA, CHR 0x9E, CHR 0x9B], [CHR 0xEA, CHR 0x9E, CHR 0x9A]),
      ([CHR 0xEA, CHR 0x9E, CHR 0x9D], [CHR 0xEA, CHR 0x9E, CHR 0x9C]),
      ([CHR 0xEA, CHR 0x9E, CHR 0x9F], [CHR 0xEA, CHR 0x9E, CHR 0x9E])]"

definition upper_table_12 :: "(string \<times> string) list" where
  "upper_table_12 =
     [([CHR 0xEA, CHR 0x9E, CHR 0xA1], [CHR 0xEA, CHR 0x9E, CHR 0xA0]),
      ([CHR 0xEA, CHR 0x9E, CHR 0xA3], [CHR 0xEA, CHR 0x9E, CHR 0xA2]),
      ([CHR 0xEA, CHR 0x9E, CHR 0xA5], [CHR 0xEA, CHR 0x9E, CHR 0xA4]),
      ([CHR 0xEA, CHR 0x9E, CHR 0xA7], [CHR 0xEA, CHR 0x9E, CHR 0xA6]),
      ([CHR 0xEA, CHR 0x9E, CHR 0xA9], [CHR 0xEA, CHR 0x9E, CHR 0xA8]),
      ([CHR 0xEA, CHR 0x9E, CHR 0xB5], [CHR 0xEA, CHR 0x9E, CHR 0xB4]),
      ([CHR 0xEA, CHR 0x9E, CHR 0xB7], [CHR 0xEA, CHR 0x9E, CHR 0xB6]),
      ([CHR 0xEA, CHR 0x9E, CHR 0xB9], [CHR 0xEA, CHR 0x9E, CHR 0xB8]),
      ([CHR 0xEA, CHR 0x9E, CHR 0xBB], [CHR 0xEA, CHR 0x9E, CHR 0xBA]),
      ([CHR 0xEA, CHR 0x9E, CHR 0xBD], [CHR 0xEA, CHR 0x9E, CHR 0xBC]),
      ([CHR 0xEA, CHR 0x9E, CHR 0xBF], [CHR 0xEA, CHR 0x9E, CHR 0xBE]),
      ([CHR 0xEA, CHR 0x9F, CHR 0x81], [CHR 0xEA, CHR 0x9F, CHR 0x80]),
      ([CHR 0xEA, CHR 0x9F, CHR 0x83], [CHR 0xEA, CHR 0x9F, CHR 0x82]),
      ([CHR 0xEA, CHR 0x9F, CHR 0x88], [CHR 0xEA, CHR 0x9F, CHR 0x87]),
      ([CHR 0xEA, CHR 0x9F, CHR 0x8A], [CHR 0xEA, CHR 0x9F, CHR 0x89]),
      ([CHR 0xEA, CHR 0x9F, CHR 0x91], [CHR 0xEA, CHR 0x9F, CHR 0x90]),
      ([CHR 0xEA, CHR 0x9F, CHR 0x97], [CHR 0xEA, CHR 0x9F, CHR 0x96]),
      ([CHR 0xEA, CHR 0x9F, CHR 0x99], [CHR 0xEA, CHR 0x9F, CHR 0x98]),
      ([CHR 0xEA, CHR 0x9F, CHR 0xB6], [CHR 0xEA, CHR 0x9F, CHR 0xB5]),
      ([CHR 0xEA, CHR 0xAD, CHR 0x93], [CHR 0xEA, CHR 0x9E, CHR 0xB3]),
      ([CHR 0xEA, CHR 0xAD, CHR 0xB0], [CHR 0xE1, CHR 0x8E, CHR 0xA0]),
      ([CHR 0xEA, CHR 0xAD, CHR 0xB1], [CHR 0xE1, CHR 0x8E, CHR 0xA1]),
      ([CHR 0xEA, CHR 0xAD, CHR 0xB2], [CHR 0xE1, CHR 0x8E, CHR 0xA2]),
      ([CHR 0xEA, CHR 0xAD, CHR 0xB3], [CHR 0xE1, CHR 0x8E, CHR 0xA3]),
      ([CHR 0xEA, CHR 0xAD, CHR 0xB4], [CHR 0xE1, CHR 0x8E, CHR 0xA4]),
      ([CHR 0xEA, CHR 0xAD, CHR 0xB5], [CHR 0xE1, CHR 0x8E, CHR 0xA5]),
      ([CHR 0xEA, CHR 0xAD, CHR 0xB6], [CHR 0xE1, CHR 0x8E, CHR 0xA6]),
      ([CHR 0xEA, CHR 0xAD, CHR 0xB7], [CHR 0xE1, CHR 0x8E, CHR 0xA7]),
      ([CHR 0xEA, CHR 0xAD, CHR 0xB8], [CHR 0xE1, CHR 0x8E, CHR 0xA8]),
      ([CHR 0xEA, CHR 0xAD, CHR 0xB9], [CHR 0xE1, CHR 0x8E, CHR 0xA9]),
      ([CHR 0xEA, CHR 0xAD, CHR 0xBA], [CHR 0xE1, CHR 0x8E, CHR 0xAA]),
      ([CHR 0xEA, CHR 0xAD, CHR 0xBB], [CHR 0xE1, CHR 0x8E, CHR 0xAB]),
      ([CHR 0xEA, CHR 0xAD, CHR 0xBC], [CHR 0xE1, CHR 0x8E, CHR 0xAC]),
      ([CHR 0xEA, CHR 0xAD, CHR 0xBD], [CHR 0xE1, CHR 0x8E, CHR 0xAD]),
      ([CHR 0xEA, CHR 0xAD, CHR 0xBE], [CHR 0xE1, CHR 0x8E, CHR 0xAE]),
      ([CHR 0xEA, CHR 0xAD, CHR 0xBF], [CHR 0xE1, CHR 0x8E, CHR 0xAF]),
      ([CHR 0xEA, CHR 0xAE, CHR 0x80], [CHR 0xE1, CHR 0x8E, CHR 0xB0]),
      ([CHR 0xEA, CHR 0xAE, CHR 0x81], [CHR 0xE1, CHR 0x8E, CHR 0xB1]),
      ([CHR 0xEA, CHR 0xAE, CHR 0x82], [CHR 0xE1, CHR 0x8E, CHR 0xB2]),
      ([CHR 0xEA, CHR 0xAE, CHR 0x83], [CHR 0xE1, CHR 0x8E, CHR 0xB3]),
      ([CHR 0xEA, CHR 0xAE, CHR 0x84], [CHR 0xE1, CHR 0x8E, CHR 0xB4]),
      ([CHR 0xEA, CHR 0xAE, CHR 0x85], [CHR 0xE1, CHR 0x8E, CHR 0xB5]),
      ([CHR 0xEA, CHR 0xAE, CHR 0x86], [CHR 0xE1, CHR 0x8E, CHR 0xB6]),
      ([CHR 0xEA, CHR 0xAE, CHR 0x87], [CHR 0xE1, CHR 0x8E, CHR 0xB7]),
      ([CHR 0xEA, CHR 0xAE, CHR 0x88], [CHR 0xE1, CHR 0x8E, CHR 0xB8]),
      ([CHR 0xEA, CHR 0xAE, CHR 0x89], [CHR 0xE1, CHR 0x8E, CHR 0xB9]),
      ([CHR 0xEA, CHR 0xAE, CHR 0x8A], [CHR 0xE1, CHR 0x8E, CHR 0xBA]),
      ([CHR 0xEA, CHR 0xAE, CHR 0x8B], [CHR 0xE1, CHR 0x8E, CHR 0xBB]),
      ([CHR 0xEA, CHR 0xAE, CHR 0x8C], [CHR 0xE1, CHR 0x8E, CHR 0xBC]),
      ([CHR 0xEA, CHR 0xAE, CHR 0x8D], [CHR 0xE1, CHR 0x8E, CHR 0xBD]),
      ([CHR 0xEA, CHR 0xAE, CHR 0x8E], [CHR 0xE1, CHR 0x8E, CHR 0xBE]),
      ([CHR 0xEA, CHR 0xAE, CHR 0x8F], [CHR 0xE1, CHR 0x8E, CHR 0xBF]),
      ([CHR 0xEA, CHR 0xAE, CHR 0x90], [CHR 0xE1, CHR 0x8F, CHR 0x80]),
      ([CHR 0xEA, CHR 0xAE, CHR 0x91], [CHR 0xE1, CHR 0x8F, CHR 0x81]),
      ([CHR 0xEA, CHR 0xAE, CHR 0x92], [CHR 0xE1, CHR 0x8F, CHR 0x82]),
      ([CHR 0xEA, CHR 0xAE, CHR 0x93], [CHR 0xE1, CHR 0x8F, CHR 0x83]),
      ([CHR 0xEA, CHR 0xAE, CHR 0x94], [CHR 0xE1, CHR 0x8F, CHR 0x84]),
      ([CHR 0xEA, CHR 0xAE, CHR 0x95], [CHR 0xE1, CHR 0x8F, CHR 0x85]),
      ([CHR 0xEA, CHR 0xAE, CHR 0x96], [CHR 0xE1, CHR 0x8F, CHR 0x86]),
      ([CHR 0xEA, CHR 0xAE, CHR 0x97], [CHR 0xE1, CHR 0x8F, CHR 0x87]),
      ([CHR 0xEA, CHR 0xAE, CHR 0x98], [CHR 0xE1, CHR 0x8F, CHR 0x88]),
      ([CHR 0xEA, CHR 0xAE, CHR 0x99], [CHR 0xE1, CHR 0x8F, CHR 0x89]),
      ([CHR 0xEA, CHR 0xAE, CHR 0x9A], [CHR 0xE1, CHR 0x8F, CHR 0x8A]),
      ([CHR 0xEA, CHR 0xAE, CHR 0x9B], [CHR 0xE1, CHR 0x8F, CHR 0x8B]),
      ([CHR 0xEA, CHR 0xAE, CHR 0x9C], [CHR 0xE1, CHR 0x8F, CHR 0x8C]),
      ([CHR 0xEA, CHR 0xAE, CHR 0x9D], [CHR 0xE1, CHR 0x8F, CHR 0x8D]),
      ([CHR 0xEA, CHR 0xAE, CHR 0x9E], [CHR 0xE1, CHR 0x8F, CHR 0x8E]),
      ([CHR 0xEA, CHR 0xAE, CHR 0x9F], [CHR 0xE1, CHR 0x8F, CHR 0x8F]),
      ([CHR 0xEA, CHR 0xAE, CHR 0xA0], [CHR 0xE1, CHR 0x8F, CHR 0x90]),
      ([CHR 0xEA, CHR 0xAE, CHR 0xA1], [CHR 0xE1, CHR 0x8F, CHR 0x91]),
      ([CHR 0xEA, CHR 0xAE, CHR 0xA2], [CHR 0xE1, CHR 0x8F, CHR 0x92]),
      ([CHR 0xEA, CHR 0xAE, CHR 0xA3], [CHR 0xE1, CHR 0x8F, CHR 0x93]),
      ([CHR 0xEA, CHR 0xAE, CHR 0xA4], [CHR 0xE1, CHR 0x8F, CHR 0x94]),
      ([CHR 0xEA, CHR 0xAE, CHR 0xA5], [CHR 0xE1, CHR 0x8F, CHR 0x95]),
      ([CHR 0xEA, CHR 0xAE, CHR 0xA6], [CHR 0xE1, CHR 0x8F, CHR 0x96]),
      ([CHR 0xEA, CHR 0xAE, CHR 0xA7], [CHR 0xE1, CHR 0x8F, CHR 0x97]),
      ([CHR 0xEA, CHR 0xAE, CHR 0xA8], [CHR 0xE1, CHR 0x8F, CHR 0x98]),
      ([CHR 0xEA, CHR 0xAE, CHR 0xA9], [CHR 0xE1, CHR 0x8F, CHR 0x99]),
      ([CHR 0xEA, CHR 0xAE, CHR 0xAA], [CHR 0xE1, CHR 0x8F, CHR 0x9A]),
      ([CHR 0xEA, CHR 0xAE, CHR 0xAB], [CHR 0xE1, CHR 0x8F, CHR 0x9B]),
      ([CHR 0xEA, CHR 0xAE, CHR 0xAC], [CHR 0xE1, CHR 0x8F, CHR 0x9C]),
      ([CHR 0xEA, CHR 0xAE, CHR 0xAD], [CHR 0xE1, CHR 0x8F, CHR 0x9D]),
      ([CHR 0xEA, CHR 0xAE, CHR 0xAE], [CHR 0xE1, CHR 0x8F, CHR 0x9E]),
      ([CHR 0xEA, CHR 0xAE, CHR 0xAF], [CHR 0xE1, CHR 0x8F, CHR 0x9F]),
      ([CHR 0xEA, CHR 0xAE, CHR 0xB0], [CHR 0xE1, CHR 0x8F, CHR 0xA0]),
      ([CHR 0xEA, CHR 0xAE, CHR 0xB1], [CHR 0xE1, CHR 0x8F, CHR 0xA1]),
      ([CHR 0xEA, CHR 0xAE, CHR 0xB2], [CHR 0xE1, CHR 0x8F, CHR 0xA2]),
      ([CHR 0xEA, CHR 0xAE, CHR 0xB3], [CHR 0xE1, CHR 0x8F, CHR 0xA3]),
      ([CHR 0xEA, CHR 0xAE, CHR 0xB4], [CHR 0xE1, CHR 0x8F, CHR 0xA4]),
      ([CHR 0xEA, CHR 0xAE, CHR 0xB5], [CHR 0xE1, CHR 0x8F, CHR 0xA5]),
      ([CHR 0xEA, CHR 0xAE, CHR 0xB6], [CHR 0xE1, CHR 0x8F, CHR 0xA6]),
      ([CHR 0xEA, CHR 0xAE, CHR 0xB7], [CHR 0xE1, CHR 0x8F, CHR 0xA7]),
      ([CHR 0xEA, CHR 0xAE, CHR 0xB8], [CHR 0xE1, CHR 0x8F, CHR 0xA8]),
      ([CHR 0xEA, CHR 0xAE, CHR 0xB9], [CHR 0xE1, CHR 0x8F, CHR 0xA9]),
      ([CHR 0xEA, CHR 0xAE, CHR 0xBA], [CHR 0xE1, CHR 0x8F, CHR 0xAA]),
      ([CHR 0xEA, CHR 0xAE, CHR 0xBB], [CHR 0xE1, CHR 0x8F, CHR 0xAB]),
      ([CHR 0xEA, CHR 0xAE, CHR 0xBC], [CHR 0xE1, CHR 0x8F, CHR 0xAC]),
      ([CHR 0xEA, CHR 0xAE, CHR 0xBD], [CHR 0xE1, CHR 0x8F, CHR 0xAD]),
      ([CHR 0xEA, CHR 0xAE, CHR 0xBE], [CHR 0xE1, CHR 0x8F, CHR 0xAE]),
      ([CHR 0xEA, CHR 0xAE, CHR 0xBF], [CHR 0xE1, CHR 0x8F, CHR 0xAF])]"

definition upper_table_13 :: "(string \<times> string) list" where
  "upper_table_13 =
     [([CHR 0xEF, CHR 0xAC, CHR 0x80], [CHR 0x46, CHR 0x46]),
      ([CHR 0xEF, CHR 0xAC, CHR 0x81], [CHR 0x46, CHR 0x49]),
      ([CHR 0xEF, CHR 0xAC, CHR 0x82], [CHR 0x46, CHR 0x4C]),
      ([CHR 0xEF, CHR 0xAC, CHR 0x83], [CHR 0x46, CHR 0x46, CHR 0x49]),
      ([CHR 0xEF, CHR 0xAC, CHR 0x84], [CHR 0x46, CHR 0x46, CHR 0x4C]),
      ([CHR 0xEF, CHR 0xAC, CHR 0x85], [CHR 0x53, CHR 0x54]),
      ([CHR 0xEF, CHR 0xAC, CHR 0x86], [CHR 0x53, CHR 0x54]),
      ([CHR 0xEF, CHR 0xAC, CHR 0x93], [CHR 0xD5, CHR 0x84, CHR 0xD5, CHR 0x86]),
      ([CHR 0xEF, CHR 0xAC, CHR 0x94], [CHR 0xD5, CHR 0x84, CHR 0xD4, CHR 0xB5]),
      ([CHR 0xEF, CHR 0xAC, CHR 0x95], [CHR 0xD5, CHR 0x84, CHR 0xD4, CHR 0xBB]),
      ([CHR 0xEF, CHR 0xAC, CHR 0x96], [CHR 0xD5, CHR 0x8E, CHR 0xD5, CHR 0x86]),
      ([CHR 0xEF, CHR 0xAC, CHR 0x97], [CHR 0xD5, CHR 0x84, CHR 0xD4, CHR 0xBD]),
      ([CHR 0xEF, CHR 0xBD, CHR 0x81], [CHR 0xEF, CHR 0xBC, CHR 0xA1]),
      ([CHR 0xEF, CHR 0xBD, CHR 0x82], [CHR 0xEF, CHR 0xBC, CHR 0xA2]),
      ([CHR 0xEF, CHR 0xBD, CHR 0x83], [CHR 0xEF, CHR 0xBC, CHR 0xA3]),
      ([CHR 0xEF, CHR 0xBD, CHR 0x84], [CHR 0xEF, CHR 0xBC, CHR 0xA4]),
      ([CHR 0xEF, CHR 0xBD, CHR 0x85], [CHR 0xEF, CHR 0xBC, CHR 0xA5]),
      ([CHR 0xEF, CHR 0xBD, CHR 0x86], [CHR 0xEF, CHR 0xBC, CHR 0xA6]),
      ([CHR 0xEF, CHR 0xBD, CHR 0x87], [CHR 0xEF, CHR 0xBC, CHR 0xA7]),
      ([CHR 0xEF, CHR 0xBD, CHR 0x88], [CHR 0xEF, CHR 0xBC, CHR 0xA8]),
      ([CHR 0xEF, CHR 0xBD, CHR 0x89], [CHR 0xEF, CHR 0xBC, CHR 0xA9]),
      ([CHR 0xEF, CHR 0xBD, CHR 0x8A], [CHR 0xEF, CHR 0xBC, CHR 0xAA]),
      ([CHR 0xEF, CHR 0xBD, CHR 0x8B], [CHR 0xEF, CHR 0xBC, CHR 0xAB]),
      ([CHR 0xEF, CHR 0xBD, CHR 0x8C], [CHR 0xEF, CHR 0xBC, CHR 0xAC]),
      ([CHR 0xEF, CHR 0xBD, CHR 0x8D], [CHR 0xEF, CHR 0xBC, CHR 0xAD]),
      ([CHR 0xEF, CHR 0xBD, CHR 0x8E], [CHR 0xEF, CHR 0xBC, CHR 0xAE]),
      ([CHR 0xEF, CHR 0xBD, CHR 0x8F], [CHR 0xEF, CHR 0xBC, CHR 0xAF]),
      ([CHR 0xEF, CHR 0xBD, CHR 0x90], [CHR 0xEF, CHR 0xBC, CHR 0xB0]),
      ([CHR 0xEF, CHR 0xBD, CHR 0x91], [CHR 0xEF, CHR 0xBC, CHR 0xB1]),
      ([CHR 0xEF, CHR 0xBD, CHR 0x92], [CHR 0xEF, CHR 0xBC, CHR 0xB2]),
      ([CHR 0xEF, CHR 0xBD, CHR 0x93], [CHR 0xEF, CHR 0xBC, CHR 0xB3]),
      ([CHR 0xEF, CHR 0xBD, CHR 0x94], [CHR 0xEF, CHR 0xBC, CHR 0xB4]),
      ([CHR 0xEF, CHR 0xBD, CHR 0x95], [CHR 0xEF, CHR 0xBC, CHR 0xB5]),
      ([CHR 0xEF, CHR 0xBD, CHR 0x96], [CHR 0xEF, CHR 0xBC, CHR 0xB6]),
      ([CHR 0xEF, CHR 0xBD, CHR 0x97], [CHR 0xEF, CHR 0xBC, CHR 0xB7]),
      ([CHR 0xEF, CHR 0xBD, CHR 0x98], [CHR 0xEF, CHR 0xBC, CHR 0xB8]),
      ([CHR 0xEF, CHR 0xBD, CHR 0x99], [CHR 0xEF, CHR 0xBC, CHR 0xB9]),
      ([CHR 0xEF, CHR 0xBD, CHR 0x9A], [CHR 0xEF, CHR 0xBC, CHR 0xBA]),
      ([CHR 0xF0, CHR 0x90, CHR 0x90, CHR 0xA8], [CHR 0xF0, CHR 0x90, CHR 0x90, CHR 0x80]),
      ([CHR 0xF0, CHR 0x90, CHR 0x90, CHR 0xA9], [CHR 0xF0, CHR 0x90, CHR 0x90, CHR 0x81]),
      ([CHR 0xF0, CHR 0x90, CHR 0x90, CHR 0xAA], [CHR 0xF0, CHR 0x90, CHR 0x90, CHR 0x82]),
      ([CHR 0xF0, CHR 0x90, CHR 0x90, CHR 0xAB], [CHR 0xF0, CHR 0x90, CHR 0x90, CHR 0x83]),
      ([CHR 0xF0, CHR 0x90, CHR 0x90, CHR 0xAC], [CHR 0xF0, CHR 0x90, CHR 0x90, CHR 0x84]),
      ([CHR 0xF0, CHR 0x90, CHR 0x90, CHR 0xAD], [CHR 0xF0, CHR 0x90, CHR 0x90, CHR 0x85]),
      ([CHR 0xF0, CHR 0x90, CHR 0x90, CHR 0xAE], [CHR 0xF0, CHR 0x90, CHR 0x90, CHR 0x86]),
      ([CHR 0xF0, CHR 0x90, CHR 0x90, CHR 0xAF], [CHR 0xF0, CHR 0x90, CHR 0x90, CHR 0x87]),
      ([CHR 0xF0, CHR 0x90, CHR 0x90, CHR 0xB0], [CHR 0xF0, CHR 0x90, CHR 0x90, CHR 0x88]),
      ([CHR 0xF0, CHR 0x90, CHR 0x90, CHR 0xB1], [CHR 0xF0, CHR 0x90, CHR 0x90, CHR 0x89]),
      ([CHR 0xF0, CHR 0x90, CHR 0x90, CHR 0xB2], [CHR 0xF0, CHR 0x90, CHR 0x90, CHR 0x8A]),
      ([CHR 0xF0, CHR 0x90, CHR 0x90, CHR 0xB3], [CHR 0xF0, CHR 0x90, CHR 0x90, CHR 0x8B]),
      ([CHR 0xF0, CHR 0x90, CHR 0x90, CHR 0xB4], [CHR 0xF0, CHR 0x90, CHR 0x90, CHR 0x8C]),
      ([CHR 0xF0, CHR 0x90, CHR 0x90, CHR 0xB5], [CHR 0xF0, CHR 0x90, CHR 0x90, CHR 0x8D]),
      ([CHR 0xF0, CHR 0x90, CHR 0x90, CHR 0xB6], [CHR 0xF0, CHR 0x90, CHR 0x90, CHR 0x8E]),
      ([CHR 0xF0, CHR 0x90, CHR 0x90, CHR 0xB7], [CHR 0xF0, CHR 0x90, CHR 0x90, CHR 0x8F]),
      ([CHR 0xF0, CHR 0x90, CHR 0x90, CHR 0xB8], [CHR 0xF0, CHR 0x90, CHR 0x90, CHR 0x90]),
      ([CHR 0xF0, CHR 0x90, CHR 0x90, CHR 0xB9], [CHR 0xF0, CHR 0x90, CHR 0x90, CHR 0x91]),
      ([CHR 0xF0, CHR 0x90, CHR 0x90, CHR 0xBA], [CHR 0xF0, CHR 0x90, CHR 0x90, CHR 0x92]),
      ([CHR 0xF0, CHR 0x90, CHR 0x90, CHR 0xBB], [CHR 0xF0, CHR 0x90, CHR 0x90, CHR 0x93]),
      ([CHR 0xF0, CHR 0x90, CHR 0x90, CHR 0xBC], [CHR 0xF0, CHR 0x90, CHR 0x90, CHR 0x94]),
      ([CHR 0xF0, CHR 0x90, CHR 0x90, CHR 0xBD], [CHR 0xF0, CHR 0x90, CHR 0x90, CHR 0x95]),
      ([CHR 0xF0, CHR 0x90, CHR 0x90, CHR 0xBE], [CHR 0xF0, CHR 0x90, CHR 0x90, CHR 0x96]),
      ([CHR 0xF0, CHR 0x90, CHR 0x90, CHR 0xBF], [CHR 0xF0, CHR 0x90, CHR 0x90, CHR 0x97]),
      ([CHR 0xF0, CHR 0x90, CHR 0x91, CHR 0x80], [CHR 0xF0, CHR 0x90, CHR 0x90, CHR 0x98]),
      ([CHR 0xF0, CHR 0x90, CHR 0x91, CHR 0x81], [CHR 0xF0, CHR 0x90, CHR 0x90, CHR 0x99]),
      ([CHR 0xF0, CHR 0x90, CHR 0x91, CHR 0x82], [CHR 0xF0, CHR 0x90, CHR 0x90, CHR 0x9A]),
      ([CHR 0xF0, CHR 0x90, CHR 0x91, CHR 0x83], [CHR 0xF0, CHR 0x90, CHR 0x90, CHR 0x9B]),
      ([CHR 0xF0, CHR 0x90, CHR 0x91, CHR 0x84], [CHR 0xF0, CHR 0x90, CHR 0x90, CHR 0x9C]),
      ([CHR 0xF0, CHR 0x90, CHR 0x91, CHR 0x85], [CHR 0xF0, CHR 0x90, CHR 0x90, CHR 0x9D]),
      ([CHR 0xF0, CHR 0x90, CHR 0x91, CHR 0x86], [CHR 0xF0, CHR 0x90, CHR 0x90, CHR 0x9E]),
      ([CHR 0xF0, CHR 0x90, CHR 0x91, CHR 0x87], [CHR 0xF0, CHR 0x90, CHR 0x90, CHR 0x9F]),
      ([CHR 0xF0, CHR 0x90, CHR 0x91, CHR 0x88], [CHR 0xF0, CHR 0x90, CHR 0x90, CHR 0xA0]),
      ([CHR 0xF0, CHR 0x90, CHR 0x91, CHR 0x89], [CHR 0xF0, CHR 0x90, CHR 0x90, CHR 0xA1]),
      ([CHR 0xF0, CHR 0x90, CHR 0x91, CHR 0x8A], [CHR 0xF0, CHR 0x90, CHR 0x90, CHR 0xA2]),
      ([CHR 0xF0, CHR 0x90, CHR 0x91, CHR 0x8B], [CHR 0xF0, CHR 0x90, CHR 0x90, CHR 0xA3]),
      ([CHR 0xF0, CHR 0x90, CHR 0x91, CHR 0x8C], [CHR 0xF0, CHR 0x90, CHR 0x90, CHR 0xA4]),
      ([CHR 0xF0, CHR 0x90, CHR 0x91, CHR 0x8D], [CHR 0xF0, CHR 0x90, CHR 0x90, CHR 0xA5]),
      ([CHR 0xF0, CHR 0x90, CHR 0x91, CHR 0x8E], [CHR 0xF0, CHR 0x90, CHR 0x90, CHR 0xA6]),
      ([CHR 0xF0, CHR 0x90, CHR 0x91, CHR 0x8F], [CHR 0xF0, CHR 0x90, CHR 0x90, CHR 0xA7]),
      ([CHR 0xF0, CHR 0x90, CHR 0x93, CHR 0x98], [CHR 0xF0, CHR 0x90, CHR 0x92, CHR 0xB0]),
      ([CHR 0xF0, CHR 0x90, CHR 0x93, CHR 0x99], [CHR 0xF0, CHR 0x90, CHR 0x92, CHR 0xB1]),
      ([CHR 0xF0, CHR 0x90, CHR 0x93, CHR 0x9A], [CHR 0xF0, CHR 0x90, CHR 0x92, CHR 0xB2]),
      ([CHR 0xF0, CHR 0x90, CHR 0x93, CHR 0x9B], [CHR 0xF0, CHR 0x90, CHR 0x92, CHR 0xB3]),
      ([CHR 0xF0, CHR 0x90, CHR 0x93, CHR 0x9C], [CHR 0xF0, CHR 0x90, CHR 0x92, CHR 0xB4]),
      ([CHR 0xF0, CHR 0x90, CHR 0x93, CHR 0x9D], [CHR 0xF0, CHR 0x90, CHR 0x92, CHR 0xB5]),
      ([CHR 0xF0, CHR 0x90, CHR 0x93, CHR 0x9E], [CHR 0xF0, CHR 0x90, CHR 0x92, CHR 0xB6]),
      ([CHR 0xF0, CHR 0x90, CHR 0x93, CHR 0x9F], [CHR 0xF0, CHR 0x90, CHR 0x92, CHR 0xB7]),
      ([CHR 0xF0, CHR 0x90, CHR 0x93, CHR 0xA0], [CHR 0xF0, CHR 0x90, CHR 0x92, CHR 0xB8]),
      ([CHR 0xF0, CHR 0x90, CHR 0x93, CHR 0xA1], [CHR 0xF0, CHR 0x90, CHR 0x92, CHR 0xB9]),
      ([CHR 0xF0, CHR 0x90, CHR 0x93, CHR 0xA2], [CHR 0xF0, CHR 0x90, CHR 0x92, CHR 0xBA]),
      ([CHR 0xF0, CHR 0x90, CHR 0x93, CHR 0xA3], [CHR 0xF0, CHR 0x90, CHR 0x92, CHR 0xBB]),
      ([CHR 0xF0, CHR 0x90, CHR 0x93, CHR 0xA4], [CHR 0xF0, CHR 0x90, CHR 0x92, CHR 0xBC]),
      ([CHR 0xF0, CHR 0x90, CHR 0x93, CHR 0xA5], [CHR 0xF0, CHR 0x90, CHR 0x92, CHR 0xBD]),
      ([CHR 0xF0, CHR 0x90, CHR 0x93, CHR 0xA6], [CHR 0xF0, CHR 0x90, CHR 0x92, CHR 0xBE]),
      ([CHR 0xF0, CHR 0x90, CHR 0x93, CHR 0xA7], [CHR 0xF0, CHR 0x90, CHR 0x92, CHR 0xBF]),
      ([CHR 0xF0, CHR 0x90, CHR 0x93, CHR 0xA8], [CHR 0xF0, CHR 0x90, CHR 0x93, CHR 0x80]),
      ([CHR 0xF0, CHR 0x90, CHR 0x93, CHR 0xA9], [CHR 0xF0, CHR 0x90, CHR 0x93, CHR 0x81]),
      ([CHR 0xF0, CHR 0x90, CHR 0x93, CHR 0xAA], [CHR 0xF0, CHR 0x90, CHR 0x93, CHR 0x82]),
      ([CHR 0xF0, CHR 0x90, CHR 0x93, CHR 0xAB], [CHR 0xF0, CHR 0x90, CHR 0x93, CHR 0x83]),
      ([CHR 0xF0, CHR 0x90, CHR 0x93, CHR 0xAC], [CHR 0xF0, CHR 0x90, CHR 0x93, CHR 0x84]),
      ([CHR 0xF0, CHR 0x90, CHR 0x93, CHR 0xAD], [CHR 0xF0, CHR 0x90, CHR 0x93, CHR 0x85])]"

definition upper_table_14 :: "(string \<times> string) list" where
  "upper_table_14 =
     [([CHR 0xF0, CHR 0x90, CHR 0x93, CHR 0xAE], [CHR 0xF0, CHR 0x90, CHR 0x93, CHR 0x86]),
      ([CHR 0xF0, CHR 0x90, CHR 0x93, CHR 0xAF], [CHR 0xF0, CHR 0x90, CHR 0x93, CHR 0x87]),
      ([CHR 0xF0, CHR 0x90, CHR 0x93, CHR 0xB0], [CHR 0xF0, CHR 0x90, CHR 0x93, CHR 0x88]),
      ([CHR 0xF0, CHR 0x90, CHR 0x93, CHR 0xB1], [CHR 0xF0, CHR 0x90, CHR 0x93, CHR 0x89]),
      ([CHR 0xF0, CHR 0x90, CHR 0x93, CHR 0xB2], [CHR 0xF0, CHR 0x90, CHR 0x93, CHR 0x8A]),
      ([CHR 0xF0, CHR 0x90, CHR 0x93, CHR 0xB3], [CHR 0xF0, CHR 0x90, CHR 0x93, CHR 0x8B]),
      ([CHR 0xF0, CHR 0x90, CHR 0x93, CHR 0xB4], [CHR 0xF0, CHR 0x90, CHR 0x93, CHR 0x8C]),
      ([CHR 0xF0, CHR 0x90, CHR 0x93, CHR 0xB5], [CHR 0xF0, CHR 0x90, CHR 0x93, CHR 0x8D]),
      ([CHR 0xF0, CHR 0x90, CHR 0x93, CHR 0xB6], [CHR 0xF0, CHR 0x90, CHR 0x93, CHR 0x8E]),
      ([CHR 0xF0, CHR 0x90, CHR 0x93, CHR 0xB7], [CHR 0xF0, CHR 0x90, CHR 0x93, CHR 0x8F]),
      ([CHR 0xF0, CHR 0x90, CHR 0x93, CHR 0xB8], [CHR 0xF0, CHR 0x90, CHR 0x93, CHR 0x90]),
      ([CHR 0xF0, CHR 0x90, CHR 0x93, CHR 0xB9], [CHR 0xF0, CHR 0x90, CHR 0x93, CHR 0x91]),
      ([CHR 0xF0, CHR 0x90, CHR 0x93, CHR 0xBA], [CHR 0xF0, CHR 0x90, CHR 0x93, CHR 0x92]),
      ([CHR 0xF0, CHR 0x90, CHR 0x93, CHR 0xBB], [CHR 0xF0, CHR 0x90, CHR 0x93, CHR 0x93]),
      ([CHR 0xF0, CHR 0x90, CHR 0x96, CHR 0x97], [CHR 0xF0, CHR 0x90, CHR 0x95, CHR 0xB0]),
      ([CHR 0xF0, CHR 0x90, CHR 0x96, CHR 0x98], [CHR 0xF0, CHR 0x90, CHR 0x95, CHR 0xB1]),
      ([CHR 0xF0, CHR 0x90, CHR 0x96, CHR 0x99], [CHR 0xF0, CHR 0x90, CHR 0x95, CHR 0xB2]),
      ([CHR 0xF0, CHR 0x90, CHR 0x96, CHR 0x9A], [CHR 0xF0, CHR 0x90, CHR 0x95, CHR 0xB3]),
      ([CHR 0xF0, CHR 0x90, CHR 0x96, CHR 0x9B], [CHR 0xF0, CHR 0x90, CHR 0x95, CHR 0xB4]),
      ([CHR 0xF0, CHR 0x90, CHR 0x96, CHR 0x9C], [CHR 0xF0, CHR 0x90, CHR 0x95, CHR 0xB5]),
      ([CHR 0xF0, CHR 0x90, CHR 0x96, CHR 0x9D], [CHR 0xF0, CHR 0x90, CHR 0x95, CHR 0xB6]),
      ([CHR 0xF0, CHR 0x90, CHR 0x96, CHR 0x9E], [CHR 0xF0, CHR 0x90, CHR 0x95, CHR 0xB7]),
      ([CHR 0xF0, CHR 0x90, CHR 0x96, CHR 0x9F], [CHR 0xF0, CHR 0x90, CHR 0x95, CHR 0xB8]),
      ([CHR 0xF0, CHR 0x90, CHR 0x96, CHR 0xA0], [CHR 0xF0, CHR 0x90, CHR 0x95, CHR 0xB9]),
      ([CHR 0xF0, CHR 0x90, CHR 0x96, CHR 0xA1], [CHR 0xF0, CHR 0x90, CHR 0x95, CHR 0xBA]),
      ([CHR 0xF0, CHR 0x90, CHR 0x96, CHR 0xA3], [CHR 0xF0, CHR 0x90, CHR 0x95, CHR 0xBC]),
      ([CHR 0xF0, CHR 0x90, CHR 0x96, CHR 0xA4], [CHR 0xF0, CHR 0x90, CHR 0x95, CHR 0xBD]),
      ([CHR 0xF0, CHR 0x90, CHR 0x96, CHR 0xA5], [CHR 0xF0, CHR 0x90, CHR 0x95, CHR 0xBE]),
      ([CHR 0xF0, CHR 0x90, CHR 0x96, CHR 0xA6], [CHR 0xF0, CHR 0x90, CHR 0x95, CHR 0xBF]),
      ([CHR 0xF0, CHR 0x90, CHR 0x96, CHR 0xA7], [CHR 0xF0, CHR 0x90, CHR 0x96, CHR 0x80]),
      ([CHR 0xF0, CHR 0x90, CHR 0x96, CHR 0xA8], [CHR 0xF0, CHR 0x90, CHR 0x96, CHR 0x81]),
      ([CHR 0xF0, CHR 0x90, CHR 0x96, CHR 0xA9], [CHR 0xF0, CHR 0x90, CHR 0x96, CHR 0x82]),
      ([CHR 0xF0, CHR 0x90, CHR 0x96, CHR 0xAA], [CHR 0xF0, CHR 0x90, CHR 0x96, CHR 0x83]),
      ([CHR 0xF0, CHR 0x90, CHR 0x96, CHR 0xAB], [CHR 0xF0, CHR 0x90, CHR 0x96, CHR 0x84]),
      ([CHR 0xF0, CHR 0x90, CHR 0x96, CHR 0xAC], [CHR 0xF0, CHR 0x90, CHR 0x96, CHR 0x85]),
      ([CHR 0xF0, CHR 0x90, CHR 0x96, CHR 0xAD], [CHR 0xF0, CHR 0x90, CHR 0x96, CHR 0x86]),
      ([CHR 0xF0, CHR 0x90, CHR 0x96, CHR 0xAE], [CHR 0xF0, CHR 0x90, CHR 0x96, CHR 0x87]),
      ([CHR 0xF0, CHR 0x90, CHR 0x96, CHR 0xAF], [CHR 0xF0, CHR 0x90, CHR 0x96, CHR 0x88]),
      ([CHR 0xF0, CHR 0x90, CHR 0x96, CHR 0xB0], [CHR 0xF0, CHR 0x90, CHR 0x96, CHR 0x89]),
      ([CHR 0xF0, CHR 0x90, CHR 0x96, CHR 0xB1], [CHR 0xF0, CHR 0x90, CHR 0x96, CHR 0x8A]),
      ([CHR 0xF0, CHR 0x90, CHR 0x96, CHR 0xB3], [CHR 0xF0, CHR 0x90, CHR 0x96, CHR 0x8C]),
      ([CHR 0xF0, CHR 0x90, CHR 0x96, CHR 0xB4], [CHR 0xF0, CHR 0x90, CHR 0x96, CHR 0x8D]),
      ([CHR 0xF0, CHR 0x90, CHR 0x96, CHR 0xB5], [CHR 0xF0, CHR 0x90, CHR 0x96, CHR 0x8E]),
      ([CHR 0xF0, CHR 0x90, CHR 0x96, CHR 0xB6], [CHR 0xF0, CHR 0x90, CHR 0x96, CHR 0x8F]),
      ([CHR 0xF0, CHR 0x90, CHR 0x96, CHR 0xB7], [CHR 0xF0, CHR 0x90, CHR 0x96, CHR 0x90]),
      ([CHR 0xF0, CHR 0x90, CHR 0x96, CHR 0xB8], [CHR 0xF0, CHR 0x90, CHR 0x96, CHR 0x91]),
      ([CHR 0xF0, CHR 0x90, CHR 0x96, CHR 0xB9], [CHR 0xF0, CHR 0x90, CHR 0x96, CHR 0x92]),
      ([CHR 0xF0, CHR 0x90, CHR 0x96, CHR 0xBB], [CHR 0xF0, CHR 0x90, CHR 0x96, CHR 0x94]),
      ([CHR 0xF0, CHR 0x90, CHR 0x96, CHR 0xBC], [CHR 0xF0, CHR 0x90, CHR 0x96, CHR 0x95]),
      ([CHR 0xF0, CHR 0x90, CHR 0xB3, CHR 0x80], [CHR 0xF0, CHR 0x90, CHR 0xB2, CHR 0x80]),
      ([CHR 0xF0, CHR 0x90, CHR 0xB3, CHR 0x81], [CHR 0xF0, CHR 0x90, CHR 0xB2, CHR 0x81]),
      ([CHR 0xF0, CHR 0x90, CHR 0xB3, CHR 0x82], [CHR 0xF0, CHR 0x90, CHR 0xB2, CHR 0x82]),
      ([CHR 0xF0, CHR 0x90, CHR 0xB3, CHR 0x83], [CHR 0xF0, CHR 0x90, CHR 0xB2, CHR 0x83]),
      ([CHR 0xF0, CHR 0x90, CHR 0xB3, CHR 0x84], [CHR 0xF0, CHR 0x90, CHR 0xB2, CHR 0x84]),
      ([CHR 0xF0, CHR 0x90, CHR 0xB3, CHR 0x85], [CHR 0xF0, CHR 0x90, CHR 0xB2, CHR 0x85]),
      ([CHR 0xF0, CHR 0x90, CHR 0xB3, CHR 0x86], [CHR 0xF0, CHR 0x90, CHR 0xB2, CHR 0x86]),
      ([CHR 0xF0, CHR 0x90, CHR 0xB3, CHR 0x87], [CHR 0xF0, CHR 0x90, CHR 0xB2, CHR 0x87]),
      ([CHR 0xF0, CHR 0x90, CHR 0xB3, CHR 0x88], [CHR 0xF0, CHR 0x90, CHR 0xB2, CHR 0x88]),
      ([CHR 0xF0, CHR 0x90, CHR 0xB3, CHR 0x89], [CHR 0xF0, CHR 0x90, CHR 0xB2, CHR 0x89]),
      ([CHR 0xF0, CHR 0x90, CHR 0xB3, CHR 0x8A], [CHR 0xF0, CHR 0x90, CHR 0xB2, CHR 0x8A]),
      ([CHR 0xF0, CHR 0x90, CHR 0xB3, CHR 0x8B], [CHR 0xF0, CHR 0x90, CHR 0xB2, CHR 0x8B]),
      ([CHR 0xF0, CHR 0x90, CHR 0xB3, CHR 0x8C], [CHR 0xF0, CHR 0x90, CHR 0xB2, CHR 0x8C]),
      ([CHR 0xF0, CHR 0x90, CHR 0xB3, CHR 0x8D], [CHR 0xF0, CHR 0x90, CHR 0xB2, CHR 0x8D]),
      ([CHR 0xF0, CHR 0x90, CHR 0xB3, CHR 0x8E], [CHR 0xF0, CHR 0x90, CHR 0xB2, CHR 0x8E]),
      ([CHR 0xF0, CHR 0x90, CHR 0xB3, CHR 0x8F], [CHR 0xF0, CHR 0x90, CHR 0xB2, CHR 0x8F]),
      ([CHR 0xF0, CHR 0x90, CHR 0xB3, CHR 0x90], [CHR 0xF0, CHR 0x90, CHR 0xB2, CHR 0x90]),
      ([CHR 0xF0, CHR 0x90, CHR 0xB3, CHR 0x91], [CHR 0xF0, CHR 0x90, CHR 0xB2, CHR 0x91]),
      ([CHR 0xF0, CHR 0x90, CHR 0xB3, CHR 0x92], [CHR 0xF0, CHR 0x90, CHR 0xB2, CHR 0x92]),
      ([CHR 0xF0, CHR 0x90, CHR 0xB3, CHR 0x93], [CHR 0xF0, CHR 0x90, CHR 0xB2, CHR 0x93]),
      ([CHR 0xF0, CHR 0x90, CHR 0xB3, CHR 0x94], [CHR 0xF0, CHR 0x90, CHR 0xB2, CHR 0x94]),
      ([CHR 0xF0, CHR 0x90, CHR 0xB3, CHR 0x95], [CHR 0xF0, CHR 0x90, CHR 0xB2, CHR 0x95]),
      ([CHR 0xF0, CHR 0x90, CHR 0xB3, CHR 0x96], [CHR 0xF0, CHR 0x90, CHR 0xB2, CHR 0x96]),
      ([CHR 0xF0, CHR 0x90, CHR 0xB3, CHR 0x97], [CHR 0xF0, CHR 0x90, CHR 0xB2, CHR 0x97]),
      ([CHR 0xF0, CHR 0x90, CHR 0xB3, CHR 0x98], [CHR 0xF0, CHR 0x90, CHR 0xB2, CHR 0x98]),
      ([CHR 0xF0, CHR 0x90, CHR 0xB3, CHR 0x99], [CHR 0xF0, CHR 0x90, CHR 0xB2, CHR 0x99]),
      ([CHR 0xF0, CHR 0x90, CHR 0xB3, CHR 0x9A], [CHR 0xF0, CHR 0x90, CHR 0xB2, CHR 0x9A]),
      ([CHR 0xF0, CHR 0x90, CHR 0xB3, CHR 0x9B], [CHR 0xF0, CHR 0x90, CHR 0xB2, CHR 0x9B]),
      ([CHR 0xF0, CHR 0x90, CHR 0xB3, CHR 0x9C], [CHR 0xF0, CHR 0x90, CHR 0xB2, CHR 0x9C]),
      ([CHR 0xF0, CHR 0x90, CHR 0xB3, CHR 0x9D], [CHR 0xF0, CHR 0x90, CHR 0xB2, CHR 0x9D]),
      ([CHR 0xF0, CHR 0x90, CHR 0xB3, CHR 0x9E], [CHR 0xF0, CHR 0x90, CHR 0xB2, CHR 0x9E]),
      ([CHR 0xF0, CHR 0x90, CHR 0xB3, CHR 0x9F], [CHR 0xF0, CHR 0x90, CHR 0xB2, CHR 0x9F]),
      ([CHR 0xF0, CHR 0x90, CHR 0xB3, CHR 0xA0], [CHR 0xF0, CHR 0x90, CHR 0xB2, CHR 0xA0]),
      ([CHR 0xF0, CHR 0x90, CHR 0xB3, CHR 0xA1], [CHR 0xF0, CHR 0x90, CHR 0xB2, CHR 0xA1]),
      ([CHR 0xF0, CHR 0x90, CHR 0xB3, CHR 0xA2], [CHR 0xF0, CHR 0x90, CHR 0xB2, CHR 0xA2]),
      ([CHR 0xF0, CHR 0x90, CHR 0xB3, CHR 0xA3], [CHR 0xF0, CHR 0x90, CHR 0xB2, CHR 0xA3]),
      ([CHR 0xF0, CHR 0x90, CHR 0xB3, CHR 0xA4], [CHR 0xF0, CHR 0x90, CHR 0xB2, CHR 0xA4]),
      ([CHR 0xF0, CHR 0x90, CHR 0xB3, CHR 0xA5], [CHR 0xF0, CHR 0x90, CHR 0xB2, CHR 0xA5]),
      ([CHR 0xF0, CHR 0x90, CHR 0xB3, CHR 0xA6], [CHR 0xF0, CHR 0x90, CHR 0xB2, CHR 0xA6]),
      ([CHR 0xF0, CHR 0x90, CHR 0xB3, CHR 0xA7], [CHR 0xF0, CHR 0x90, CHR 0xB2, CHR 0xA7]),
      ([CHR 0xF0, CHR 0x90, CHR 0xB3, CHR 0xA8], [CHR 0xF0, CHR 0x90, CHR 0xB2, CHR 0xA8]),
      ([CHR 0xF0, CHR 0x90, CHR 0xB3, CHR 0xA9], [CHR 0xF0, CHR 0x90, CHR 0xB2, CHR 0xA9]),
      ([CHR 0xF0, CHR 0x90, CHR 0xB3, CHR 0xAA], [CHR 0xF0, CHR 0x90, CHR 0xB2, CHR 0xAA]),
      ([CHR 0xF0, CHR 0x90, CHR 0xB3, CHR 0xAB], [CHR 0xF0, CHR 0x90, CHR 0xB2, CHR 0xAB]),
      ([CHR 0xF0, CHR 0x90, CHR 0xB3, CHR 0xAC], [CHR 0xF0, CHR 0x90, CHR 0xB2, CHR 0xAC]),
      ([CHR 0xF0, CHR 0x90, CHR 0xB3, CHR 0xAD], [CHR 0xF0, CHR 0x90, CHR 0xB2, CHR 0xAD]),
      ([CHR 0xF0, CHR 0x90, CHR 0xB3, CHR 0xAE], [CHR 0xF0, CHR 0x90, CHR 0xB2, CHR 0xAE]),
      ([CHR 0xF0, CHR 0x90, CHR 0xB3, CHR 0xAF], [CHR 0xF0, CHR 0x90, CHR 0xB2, CHR 0xAF]),
      ([CHR 0xF0, CHR 0x90, CHR 0xB3, CHR 0xB0], [CHR 0xF0, CHR 0x90, CHR 0xB2, CHR 0xB0]),
      ([CHR 0xF0, CHR 0x90, CHR 0xB3, CHR 0xB1], [CHR 0xF0, CHR 0x90, CHR 0xB2, CHR 0xB1]),
      ([CHR 0xF0, CHR 0x90, CHR 0xB3, CHR 0xB2], [CHR 0xF0, CHR 0x90, CHR 0xB2, CHR 0xB2])]"

definition upper_table_15 :: "(string \<times> string) list" where
  "upper_table_15 =
     [([CHR 0xF0, CHR 0x91, CHR 0xA3, CHR 0x80], [CHR 0xF0, CHR 0x91, CHR 0xA2, CHR 0xA0]),
      ([CHR 0xF0, CHR 0x91, CHR 0xA3, CHR 0x81], [CHR 0xF0, CHR 0x91, CHR 0xA2, CHR 0xA1]),
      ([CHR 0xF0, CHR 0x91, CHR 0xA3, CHR 0x82], [CHR 0xF0, CHR 0x91, CHR 0xA2, CHR 0xA2]),
      ([CHR 0xF0, CHR 0x91, CHR 0xA3, CHR 0x83], [CHR 0xF0, CHR 0x91, CHR 0xA2, CHR 0xA3]),
      ([CHR 0xF0, CHR 0x91, CHR 0xA3, CHR 0x84], [CHR 0xF0, CHR 0x91, CHR 0xA2, CHR 0xA4]),
      ([CHR 0xF0, CHR 0x91, CHR 0xA3, CHR 0x85], [CHR 0xF0, CHR 0x91, CHR 0xA2, CHR 0xA5]),
      ([CHR 0xF0, CHR 0x91, CHR 0xA3, CHR 0x86], [CHR 0xF0, CHR 0x91, CHR 0xA2, CHR 0xA6]),
      ([CHR 0xF0, CHR 0x91, CHR 0xA3, CHR 0x87], [CHR 0xF0, CHR 0x91, CHR 0xA2, CHR 0xA7]),
      ([CHR 0xF0, CHR 0x91, CHR 0xA3, CHR 0x88], [CHR 0xF0, CHR 0x91, CHR 0xA2, CHR 0xA8]),
      ([CHR 0xF0, CHR 0x91, CHR 0xA3, CHR 0x89], [CHR 0xF0, CHR 0x91, CHR 0xA2, CHR 0xA9]),
      ([CHR 0xF0, CHR 0x91, CHR 0xA3, CHR 0x8A], [CHR 0xF0, CHR 0x91, CHR 0xA2, CHR 0xAA]),
      ([CHR 0xF0, CHR 0x91, CHR 0xA3, CHR 0x8B], [CHR 0xF0, CHR 0x91, CHR 0xA2, CHR 0xAB]),
      ([CHR 0xF0, CHR 0x91, CHR 0xA3, CHR 0x8C], [CHR 0xF0, CHR 0x91, CHR 0xA2, CHR 0xAC]),
      ([CHR 0xF0, CHR 0x91, CHR 0xA3, CHR 0x8D], [CHR 0xF0, CHR 0x91, CHR 0xA2, CHR 0xAD]),
      ([CHR 0xF0, CHR 0x91, CHR 0xA3, CHR 0x8E], [CHR 0xF0, CHR 0x91, CHR 0xA2, CHR 0xAE]),
      ([CHR 0xF0, CHR 0x91, CHR 0xA3, CHR 0x8F], [CHR 0xF0, CHR 0x91, CHR 0xA2, CHR 0xAF]),
      ([CHR 0xF0, CHR 0x91, CHR 0xA3, CHR 0x90], [CHR 0xF0, CHR 0x91, CHR 0xA2, CHR 0xB0]),
      ([CHR 0xF0, CHR 0x91, CHR 0xA3, CHR 0x91], [CHR 0xF0, CHR 0x91, CHR 0xA2, CHR 0xB1]),
      ([CHR 0xF0, CHR 0x91, CHR 0xA3, CHR 0x92], [CHR 0xF0, CHR 0x91, CHR 0xA2, CHR 0xB2]),
      ([CHR 0xF0, CHR 0x91, CHR 0xA3, CHR 0x93], [CHR 0xF0, CHR 0x91, CHR 0xA2, CHR 0xB3]),
      ([CHR 0xF0, CHR 0x91, CHR 0xA3, CHR 0x94], [CHR 0xF0, CHR 0x91, CHR 0xA2, CHR 0xB4]),
      ([CHR 0xF0, CHR 0x91, CHR 0xA3, CHR 0x95], [CHR 0xF0, CHR 0x91, CHR 0xA2, CHR 0xB5]),
      ([CHR 0xF0, CHR 0x91, CHR 0xA3, CHR 0x96], [CHR 0xF0, CHR 0x91, CHR 0xA2, CHR 0xB6]),
      ([CHR 0xF0, CHR 0x91, CHR 0xA3, CHR 0x97], [CHR 0xF0, CHR 0x91, CHR 0xA2, CHR 0xB7]),
      ([CHR 0xF0, CHR 0x91, CHR 0xA3, CHR 0x98], [CHR 0xF0, CHR 0x91, CHR 0xA2, CHR 0xB8]),
      ([CHR 0xF0, CHR 0x91, CHR 0xA3, CHR 0x99], [CHR 0xF0, CHR 0x91, CHR 0xA2, CHR 0xB9]),
      ([CHR 0xF0, CHR 0x91, CHR 0xA3, CHR 0x9A], [CHR 0xF0, CHR 0x91, CHR 0xA2, CHR 0xBA]),
      ([CHR 0xF0, CHR 0x91, CHR 0xA3, CHR 0x9B], [CHR 0xF0, CHR 0x91, CHR 0xA2, CHR 0xBB]),
      ([CHR 0xF0, CHR 0x91, CHR 0xA3, CHR 0x9C], [CHR 0xF0, CHR 0x91, CHR 0xA2, CHR 0xBC]),
      ([CHR 0xF0, CHR 0x91, CHR 0xA3, CHR 0x9D], [CHR 0xF0, CHR 0x91, CHR 0xA2, CHR 0xBD]),
      ([CHR 0xF0, CHR 0x91, CHR 0xA3, CHR 0x9E], [CHR 0xF0, CHR 0x91, CHR 0xA2, CHR 0xBE]),
      ([CHR 0xF0, CHR 0x91, CHR 0xA3, CHR 0x9F], [CHR 0xF0, CHR 0x91, CHR 0xA2, CHR 0xBF]),
      ([CHR 0xF0, CHR 0x96, CHR 0xB9, CHR 0xA0], [CHR 0xF0, CHR 0x96, CHR 0xB9, CHR 0x80]),
      ([CHR 0xF0, CHR 0x96, CHR 0xB9, CHR 0xA1], [CHR 0xF0, CHR 0x96, CHR 0xB9, CHR 0x81]),
      ([CHR 0xF0, CHR 0x96, CHR 0xB9, CHR 0xA2], [CHR 0xF0, CHR 0x96, CHR 0xB9, CHR 0x82]),
      ([CHR 0xF0, CHR 0x96, CHR 0xB9, CHR 0xA3], [CHR 0xF0, CHR 0x96, CHR 0xB9, CHR 0x83]),
      ([CHR 0xF0, CHR 0x96, CHR 0xB9, CHR 0xA4], [CHR 0xF0, CHR 0x96, CHR 0xB9, CHR 0x84]),
      ([CHR 0xF0, CHR 0x96, CHR 0xB9, CHR 0xA5], [CHR 0xF0, CHR 0x96, CHR 0xB9, CHR 0x85]),
      ([CHR 0xF0, CHR 0x96, CHR 0xB9, CHR 0xA6], [CHR 0xF0, CHR 0x96, CHR 0xB9, CHR 0x86]),
      ([CHR 0xF0, CHR 0x96, CHR 0xB9, CHR 0xA7], [CHR 0xF0, CHR 0x96, CHR 0xB9, CHR 0x87]),
      ([CHR 0xF0, CHR 0x96, CHR 0xB9, CHR 0xA8], [CHR 0xF0, CHR 0x96, CHR 0xB9, CHR 0x88]),
      ([CHR 0xF0, CHR 0x96, CHR 0xB9, CHR 0xA9], [CHR 0xF0, CHR 0x96, CHR 0xB9, CHR 0x89]),
      ([CHR 0xF0, CHR 0x96, CHR 0xB9, CHR 0xAA], [CHR 0xF0, CHR 0x96, CHR 0xB9, CHR 0x8A]),
      ([CHR 0xF0, CHR 0x96, CHR 0xB9, CHR 0xAB], [CHR 0xF0, CHR 0x96, CHR 0xB9, CHR 0x8B]),
      ([CHR 0xF0, CHR 0x96, CHR 0xB9, CHR 0xAC], [CHR 0xF0, CHR 0x96, CHR 0xB9, CHR 0x8C]),
      ([CHR 0xF0, CHR 0x96, CHR 0xB9, CHR 0xAD], [CHR 0xF0, CHR 0x96, CHR 0xB9, CHR 0x8D]),
      ([CHR 0xF0, CHR 0x96, CHR 0xB9, CHR 0xAE], [CHR 0xF0, CHR 0x96, CHR 0xB9, CHR 0x8E]),
      ([CHR 0xF0, CHR 0x96, CHR 0xB9, CHR 0xAF], [CHR 0xF0, CHR 0x96, CHR 0xB9, CHR 0x8F]),
      ([CHR 0xF0, CHR 0x96, CHR 0xB9, CHR 0xB0], [CHR 0xF0, CHR 0x96, CHR 0xB9, CHR 0x90]),
      ([CHR 0xF0, CHR 0x96, CHR 0xB9, CHR 0xB1], [CHR 0xF0, CHR 0x96, CHR 0xB9, CHR 0x91]),
      ([CHR 0xF0, CHR 0x96, CHR 0xB9, CHR 0xB2], [CHR 0xF0, CHR 0x96, CHR 0xB9, CHR 0x92]),
      ([CHR 0xF0, CHR 0x96, CHR 0xB9, CHR 0xB3], [CHR 0xF0, CHR 0x96, CHR 0xB9, CHR 0x93]),
      ([CHR 0xF0, CHR 0x96, CHR 0xB9, CHR 0xB4], [CHR 0xF0, CHR 0x96, CHR 0xB9, CHR 0x94]),
      ([CHR 0xF0, CHR 0x96, CHR 0xB9, CHR 0xB5], [CHR 0xF0, CHR 0x96, CHR 0xB9, CHR 0x95]),
      ([CHR 0xF0, CHR 0x96, CHR 0xB9, CHR 0xB6], [CHR 0xF0, CHR 0x96, CHR 0xB9, CHR 0x96]),
      ([CHR 0xF0, CHR 0x96, CHR 0xB9, CHR 0xB7], [CHR 0xF0, CHR 0x96, CHR 0xB9, CHR 0x97]),
      ([CHR 0xF0, CHR 0x96, CHR 0xB9, CHR 0xB8], [CHR 0xF0, CHR 0x96, CHR 0xB9, CHR 0x98]),
      ([CHR 0xF0, CHR 0x96, CHR 0xB9, CHR 0xB9], [CHR 0xF0, CHR 0x96, CHR 0xB9, CHR 0x99]),
      ([CHR 0xF0, CHR 0x96, CHR 0xB9, CHR 0xBA], [CHR 0xF0, CHR 0x96, CHR 0xB9, CHR 0x9A]),
      ([CHR 0xF0, CHR 0x96, CHR 0xB9, CHR 0xBB], [CHR 0xF0, CHR 0x96, CHR 0xB9, CHR 0x9B]),
      ([CHR 0xF0, CHR 0x96, CHR 0xB9, CHR 0xBC], [CHR 0xF0, CHR 0x96, CHR 0xB9, CHR 0x9C]),
      ([CHR 0xF0, CHR 0x96, CHR 0xB9, CHR 0xBD], [CHR 0xF0, CHR 0x96, CHR 0xB9, CHR 0x9D]),
      ([CHR 0xF0, CHR 0x96, CHR 0xB9, CHR 0xBE], [CHR 0xF0, CHR 0x96, CHR 0xB9, CHR 0x9E]),
      ([CHR 0xF0, CHR 0x96, CHR 0xB9, CHR 0xBF], [CHR 0xF0, CHR 0x96, CHR 0xB9, CHR 0x9F]),
      ([CHR 0xF0, CHR 0x9E, CHR 0xA4, CHR 0xA2], [CHR 0xF0, CHR 0x9E, CHR 0xA4, CHR 0x80]),
      ([CHR 0xF0, CHR 0x9E, CHR 0xA4, CHR 0xA3], [CHR 0xF0, CHR 0x9E, CHR 0xA4, CHR 0x81]),
      ([CHR 0xF0, CHR 0x9E, CHR 0xA4, CHR 0xA4], [CHR 0xF0, CHR 0x9E, CHR 0xA4, CHR 0x82]),
      ([CHR 0xF0, CHR 0x9E, CHR 0xA4, CHR 0xA5], [CHR 0xF0, CHR 0x9E, CHR 0xA4, CHR 0x83]),
      ([CHR 0xF0, CHR 0x9E, CHR 0xA4, CHR 0xA6], [CHR 0xF0, CHR 0x9E, CHR 0xA4, CHR 0x84]),
      ([CHR 0xF0, CHR 0x9E, CHR 0xA4, CHR 0xA7], [CHR 0xF0, CHR 0x9E, CHR 0xA4, CHR 0x85]),
      ([CHR 0xF0, CHR 0x9E, CHR 0xA4, CHR 0xA8], [CHR 0xF0, CHR 0x9E, CHR 0xA4, CHR 0x86]),
      ([CHR 0xF0, CHR 0x9E, CHR 0xA4, CHR 0xA9], [CHR 0xF0, CHR 0x9E, CHR 0xA4, CHR 0x87]),
      ([CHR 0xF0, CHR 0x9E, CHR 0xA4, CHR 0xAA], [CHR 0xF0, CHR 0x9E, CHR 0xA4, CHR 0x88]),
      ([CHR 0xF0, CHR 0x9E, CHR 0xA4, CHR 0xAB], [CHR 0xF0, CHR 0x9E, CHR 0xA4, CHR 0x89]),
      ([CHR 0xF0, CHR 0x9E, CHR 0xA4, CHR 0xAC], [CHR 0xF0, CHR 0x9E, CHR 0xA4, CHR 0x8A]),
      ([CHR 0xF0, CHR 0x9E, CHR 0xA4, CHR 0xAD], [CHR 0xF0, CHR 0x9E, CHR 0xA4, CHR 0x8B]),
      ([CHR 0xF0, CHR 0x9E, CHR 0xA4, CHR 0xAE], [CHR 0xF0, CHR 0x9E, CHR 0xA4, CHR 0x8C]),
      ([CHR 0xF0, CHR 0x9E, CHR 0xA4, CHR 0xAF], [CHR 0xF0, CHR 0x9E, CHR 0xA4, CHR 0x8D]),
      ([CHR 0xF0, CHR 0x9E, CHR 0xA4, CHR 0xB0], [CHR 0xF0, CHR 0x9E, CHR 0xA4, CHR 0x8E]),
      ([CHR 0xF0, CHR 0x9E, CHR 0xA4, CHR 0xB1], [CHR 0xF0, CHR 0x9E, CHR 0xA4, CHR 0x8F]),
      ([CHR 0xF0, CHR 0x9E, CHR 0xA4, CHR 0xB2], [CHR 0xF0, CHR 0x9E, CHR 0xA4, CHR 0x90]),
      ([CHR 0xF0, CHR 0x9E, CHR 0xA4, CHR 0xB3], [CHR 0xF0, CHR 0x9E, CHR 0xA4, CHR 0x91]),
      ([CHR 0xF0, CHR 0x9E, CHR 0xA4, CHR 0xB4], [CHR 0xF0, CHR 0x9E, CHR 0xA4, CHR 0x92]),
      ([CHR 0xF0, CHR 0x9E, CHR 0xA4, CHR 0xB5], [CHR 0xF0, CHR 0x9E, CHR 0xA4, CHR 0x93]),
      ([CHR 0xF0, CHR 0x9E, CHR 0xA4, CHR 0xB6], [CHR 0xF0, CHR 0x9E, CHR 0xA4, CHR 0x94]),
      ([CHR 0xF0, CHR 0x9E, CHR 0xA4, CHR 0xB7], [CHR 0xF0, CHR 0x9E, CHR 0xA4, CHR 0x95]),
      ([CHR 0xF0, CHR 0x9E, CHR 0xA4, CHR 0xB8], [CHR 0xF0, CHR 0x9E, CHR 0xA4, CHR 0x96]),
      ([CHR 0xF0, CHR 0x9E, CHR 0xA4, CHR 0xB9], [CHR 0xF0, CHR 0x9E, CHR 0xA4, CHR 0x97]),
      ([CHR 0xF0, CHR 0x9E, CHR 0xA4, CHR 0xBA], [CHR 0xF0, CHR 0x9E, CHR 0xA4, CHR 0x98]),
      ([CHR 0xF0, CHR 0x9E, CHR 0xA4, CHR 0xBB], [CHR 0xF0, CHR 0x9E, CHR 0xA4, CHR 0x99]),
      ([CHR 0xF0, CHR 0x9E, CHR 0xA4, CHR 0xBC], [CHR 0xF0, CHR 0x9E, CHR 0xA4, CHR 0x9A]),
      ([CHR 0xF0, CHR 0x9E, CHR 0xA4, CHR 0xBD], [CHR 0xF0, CHR 0x9E, CHR 0xA4, CHR 0x9B]),
      ([CHR 0xF0, CHR 0x9E, CHR 0xA4, CHR 0xBE], [CHR 0xF0, CHR 0x9E, CHR 0xA4, CHR 0x9C]),
      ([CHR 0xF0, CHR 0x9E, CHR 0xA4, CHR 0xBF], [CHR 0xF0, CHR 0x9E, CHR 0xA4, CHR 0x9D]),
      ([CHR 0xF0, CHR 0x9E, CHR 0xA5, CHR 0x80], [CHR 0xF0, CHR 0x9E, CHR 0xA4, CHR 0x9E]),
      ([CHR 0xF0, CHR 0x9E, CHR 0xA5, CHR 0x81], [CHR 0xF0, CHR 0x9E, CHR 0xA4, CHR 0x9F]),
      ([CHR 0xF0, CHR 0x9E, CHR 0xA5, CHR 0x82], [CHR 0xF0, CHR 0x9E, CHR 0xA4, CHR 0xA0]),
      ([CHR 0xF0, CHR 0x9E, CHR 0xA5, CHR 0x83], [CHR 0xF0, CHR 0x9E, CHR 0xA4, CHR 0xA1])]"

definition upper_table_rest :: "(string \<times> string) list" where
  "upper_table_rest =
     upper_table_01 @ upper_table_02 @ upper_table_03 @ upper_table_04 @ upper_table_05 @
     upper_table_06 @ upper_table_07 @ upper_table_08 @ upper_table_09 @ upper_table_10 @
     upper_table_11 @ upper_table_12 @ upper_table_13 @ upper_table_14 @ upper_table_15"

text \<open>
  The whole table. Its first entry is U+0131, the dotless small i, whose upper
  case is the ASCII letter \<open>I\<close>.
\<close>

definition upper_table :: "(string \<times> string) list" where
  "upper_table = ([CHR 0xC4, CHR 0xB1], [CHR 0x49]) # upper_table_rest"

text \<open>
  The first entry of a table whose source is a prefix of the string: what it
  becomes, and the number of bytes it takes.
\<close>

fun upper_multi :: "(string \<times> string) list \<Rightarrow> string \<Rightarrow> (string \<times> nat) option" where
  "upper_multi [] s = None"
| "upper_multi ((src, tgt) # t) s =
     (if take (length src) s = src then Some (tgt, length src) else upper_multi t s)"

text \<open>
  \<^verbatim>\<open>str.upper()\<close> on the encoding. A byte below 128 is a code point of its own. At
  any other byte the code point that starts there is replaced when the table has
  it; a byte that starts no entry of the table is part of a code point that
  \<^verbatim>\<open>str.upper()\<close> keeps, and is copied.
\<close>

fun upper :: "string \<Rightarrow> string" where
  "upper [] = []"
| "upper (c # cs) =
     (if (of_char c :: nat) < 128 then upper_ascii c # upper cs
      else (case upper_multi upper_table (c # cs) of
              None \<Rightarrow> c # upper cs
            | Some (tgt, n) \<Rightarrow> tgt @ upper (drop (n - 1) cs)))"

declare upper.simps [simp del]

text \<open>\<^verbatim>\<open>str(x)\<close> for \<^verbatim>\<open>x: str | None\<close>.\<close>

definition py_str :: "string option \<Rightarrow> string" where
  "py_str x = (case x of None \<Rightarrow> ''None'' | Some s \<Rightarrow> s)"

text \<open>\<^verbatim>\<open>a or b\<close> for \<^verbatim>\<open>a: str | None\<close>: \<^verbatim>\<open>None\<close> and the empty string are falsy.\<close>

definition str_or :: "string option \<Rightarrow> string \<Rightarrow> string" where
  "str_or a b = (case a of None \<Rightarrow> b | Some s \<Rightarrow> (if s = [] then b else s))"

section \<open>The level mapper\<close>

text \<open>
  \<^verbatim>\<open>_std_log_level\<close>: \<^verbatim>\<open>None\<close> is replaced by \<^verbatim>\<open>"DEBUG"\<close>, the string is upper-cased,
  and the \<^verbatim>\<open>match\<close> statement compares it with the five names in order; the
  wildcard case returns \<^verbatim>\<open>logging.INFO\<close>.
\<close>

definition std_log_level :: "string option \<Rightarrow> int" where
  "std_log_level log_level_str =
     (let s = upper (case log_level_str of None \<Rightarrow> ''DEBUG'' | Some t \<Rightarrow> t) in
      if s = ''DEBUG'' then logging_DEBUG
      else if s = ''INFO'' then logging_INFO
      else if s = ''WARNING'' then logging_WARNING
      else if s = ''ERROR'' then logging_ERROR
      else if s = ''CRITICAL'' then logging_CRITICAL
      else logging_INFO)"

text \<open>
  The specification's notion of a case-insensitive match, stated independently of
  the code: two strings match when they agree after every ASCII capital has been
  replaced by its small letter.
\<close>

definition lower_char :: "char \<Rightarrow> char" where
  "lower_char c =
     (if 65 \<le> (of_char c :: nat) \<and> (of_char c :: nat) \<le> 90
      then char_of ((of_char c :: nat) + 32) else c)"

definition ci_equal :: "string \<Rightarrow> string \<Rightarrow> bool" where
  "ci_equal s t = (map lower_char s = map lower_char t)"


section \<open>Handlers, loggers and the file system\<close>

text \<open>
  A handler is a mutable Python object; \<^verbatim>\<open>Logger.addHandler\<close> and
  \<^verbatim>\<open>Logger.removeHandler\<close> compare handlers by identity. The model therefore keeps
  every handler in a heap (a list, the index being the object's identity); the
  destination registry and the loggers hold indices into it.
\<close>

datatype stream = Stdout | Stderr

datatype formatter = Formatter string string

datatype handler_kind =
    StreamHandler stream
  | RichHandler bool bool
  | FileHandler string string "string option" bool "string option"

record handler_obj =
  h_kind :: handler_kind
  h_level :: int
  h_formatter :: "formatter option"

text \<open>
  A \<^verbatim>\<open>logging.Logger\<close>: its level, its list of attached handlers and its
  \<^verbatim>\<open>propagate\<close> flag.
\<close>

record pylogger =
  lg_level :: int
  lg_handlers :: "nat list"
  lg_propagate :: bool

text \<open>
  The process state the module touches. \<open>loggers\<close> is the name-keyed table of
  \<^verbatim>\<open>logging\<close>'s manager: \<^verbatim>\<open>getLogger\<close> creates a logger on first use with level
  \<^verbatim>\<open>NOTSET\<close>, no handler and \<^verbatim>\<open>propagate = True\<close>, so a name never asked for is
  represented by that default. \<open>paths\<close> are the paths \<^verbatim>\<open>os.path.exists\<close> answers
  true for; \<open>mkdir_denied\<close> and \<open>open_denied\<close> are the paths on which
  \<^verbatim>\<open>os.makedirs\<close> and \<^verbatim>\<open>open\<close> raise.
\<close>

record world =
  cwd :: string
  paths :: "string set"
  mkdir_denied :: "string set"
  open_denied :: "string set"
  heap :: "handler_obj list"
  loggers :: "string \<Rightarrow> pylogger"

definition fresh_logger :: pylogger where
  "fresh_logger = \<lparr>lg_level = logging_NOTSET, lg_handlers = [], lg_propagate = True\<rparr>"

definition root_logger :: pylogger where
  "root_logger = \<lparr>lg_level = logging_WARNING, lg_handlers = [], lg_propagate = True\<rparr>"

text \<open>The state of a process that has only imported \<^verbatim>\<open>logging\<close>, running in \<^verbatim>\<open>/app\<close>.\<close>

definition world0 :: world where
  "world0 = \<lparr>cwd = ''/app'', paths = {''/app''}, mkdir_denied = {}, open_denied = {},
     heap = [], loggers = (\<lambda>n. if n = ''root'' then root_logger else fresh_logger)\<rparr>"

subsection \<open>\<^verbatim>\<open>logging\<close>\<close>

text \<open>
  \<^verbatim>\<open>logging.getLogger(name)\<close> returns the one logger of that name; the empty name
  and \<^verbatim>\<open>"root"\<close> both give the root logger. The result is the logger's key in
  \<open>loggers\<close>.
\<close>

definition getLogger :: "string \<Rightarrow> string" where
  "getLogger name = (if name = [] \<or> name = ''root'' then ''root'' else name)"

definition upd_logger :: "string \<Rightarrow> (pylogger \<Rightarrow> pylogger) \<Rightarrow> world \<Rightarrow> world" where
  "upd_logger n f w = w\<lparr>loggers := (loggers w)(n := f (loggers w n))\<rparr>"

text \<open>\<^verbatim>\<open>if not (hdlr in self.handlers): self.handlers.append(hdlr)\<close>\<close>

definition addHandler :: "nat \<Rightarrow> pylogger \<Rightarrow> pylogger" where
  "addHandler hdlr l =
     (if hdlr \<in> set (lg_handlers l) then l else l\<lparr>lg_handlers := lg_handlers l @ [hdlr]\<rparr>)"

text \<open>\<^verbatim>\<open>if hdlr in self.handlers: self.handlers.remove(hdlr)\<close>\<close>

definition removeHandler :: "nat \<Rightarrow> pylogger \<Rightarrow> pylogger" where
  "removeHandler hdlr l =
     (if hdlr \<in> set (lg_handlers l) then l\<lparr>lg_handlers := remove1 hdlr (lg_handlers l)\<rparr> else l)"

text \<open>
  \<^verbatim>\<open>Logger.setLevel\<close> takes an integer or a level name and passes it through
  \<^verbatim>\<open>_checkLevel\<close>, which raises \<^verbatim>\<open>ValueError\<close> on an unknown name.
\<close>

datatype level_arg = LevelInt int | LevelStr string

definition nameToLevel :: "(string \<times> int) list" where
  "nameToLevel =
     [(''CRITICAL'', logging_CRITICAL), (''FATAL'', logging_CRITICAL), (''ERROR'', logging_ERROR),
      (''WARN'', logging_WARNING), (''WARNING'', logging_WARNING), (''INFO'', logging_INFO),
      (''DEBUG'', logging_DEBUG), (''NOTSET'', logging_NOTSET)]"

definition checkLevel :: "level_arg \<Rightarrow> error + int" where
  "checkLevel level =
     (case level of
        LevelInt n \<Rightarrow> Inr n
      | LevelStr s \<Rightarrow> (case map_of nameToLevel s of None \<Rightarrow> Inl ValueError | Some n \<Rightarrow> Inr n))"

text \<open>\<^verbatim>\<open>a or b\<close> for an integer \<^verbatim>\<open>a\<close> and a string \<^verbatim>\<open>b\<close>: zero is falsy.\<close>

definition level_or :: "int \<Rightarrow> string \<Rightarrow> level_arg" where
  "level_or a b = (if a \<noteq> 0 then LevelInt a else LevelStr b)"

subsection \<open>The handler constructors of \<^verbatim>\<open>handler_helpers.py\<close>\<close>

definition alloc :: "handler_obj \<Rightarrow> world \<Rightarrow> nat \<times> world" where
  "alloc h w = (length (heap w), w\<lparr>heap := heap w @ [h]\<rparr>)"

definition setFormatter :: "nat \<Rightarrow> formatter \<Rightarrow> world \<Rightarrow> world" where
  "setFormatter i fmt w = w\<lparr>heap := (heap w)[i := (heap w ! i)\<lparr>h_formatter := Some fmt\<rparr>]\<rparr>"

definition setLevel_handler :: "nat \<Rightarrow> int \<Rightarrow> world \<Rightarrow> world" where
  "setLevel_handler i lvl w = w\<lparr>heap := (heap w)[i := (heap w ! i)\<lparr>h_level := lvl\<rparr>]\<rparr>"

text \<open>\<^verbatim>\<open>create_console_handler\<close> with its default stream \<^verbatim>\<open>sys.stdout\<close>.\<close>

definition create_console_handler :: "int \<Rightarrow> formatter \<Rightarrow> world \<Rightarrow> nat \<times> world" where
  "create_console_handler log_level_int fmt w =
     (let (console_h, w1) =
            alloc \<lparr>h_kind = StreamHandler Stdout, h_level = logging_NOTSET, h_formatter = None\<rparr> w;
          w2 = setFormatter console_h fmt w1;
          w3 = setLevel_handler console_h log_level_int w2
      in (console_h, w3))"

text \<open>\<^verbatim>\<open>create_rich_console_handler\<close> with its defaults \<^verbatim>\<open>markup=True, rich_tracebacks=True\<close>.\<close>

definition create_rich_console_handler :: "int \<Rightarrow> formatter \<Rightarrow> world \<Rightarrow> nat \<times> world" where
  "create_rich_console_handler log_level_int fmt w =
     (let (rich_console_h, w1) =
            alloc \<lparr>h_kind = RichHandler True True, h_level = log_level_int, h_formatter = None\<rparr> w;
          w2 = setFormatter rich_console_h fmt w1;
          w3 = setLevel_handler rich_console_h log_level_int w2
      in (rich_console_h, w3))"

text \<open>
  \<^verbatim>\<open>create_file_handler\<close> with its defaults \<^verbatim>\<open>mode="a", encoding=None, delay=False,
  errors=None\<close>. With \<^verbatim>\<open>delay=False\<close> the constructor opens the file: that raises on
  a path that cannot be opened, and creates the file otherwise.
\<close>

definition create_file_handler ::
    "int \<Rightarrow> formatter \<Rightarrow> string \<Rightarrow> world \<Rightarrow> (error + nat) \<times> world" where
  "create_file_handler log_level_int fmt lpath w =
     (if lpath \<in> open_denied w then (Inl OSError, w)
      else
        (let (file_h, w1) =
               alloc \<lparr>h_kind = FileHandler lpath ''a'' None False None,
                      h_level = logging_NOTSET, h_formatter = None\<rparr>
                 (w\<lparr>paths := insert lpath (paths w)\<rparr>);
             w2 = setFormatter file_h fmt w1;
             w3 = setLevel_handler file_h log_level_int w2
         in (Inr file_h, w3)))"

section \<open>The module \<^verbatim>\<open>logger.py\<close>\<close>

subsection \<open>Path helpers\<close>

definition check_path :: "string \<Rightarrow> world \<Rightarrow> bool" where
  "check_path user_path w = (if \<not> (user_path \<in> paths w) then False else True)"

text \<open>
  The body of the first branch of \<^verbatim>\<open>_derive_log_path\<close>: the directory \<^verbatim>\<open>logs\<close> under
  the working directory, created when \<^verbatim>\<open>os.path.exists\<close> denies it; any exception of
  \<^verbatim>\<open>os.makedirs\<close> is re-raised as \<^verbatim>\<open>RuntimeError\<close>.
\<close>

definition make_log_dir :: "world \<Rightarrow> (error + string) \<times> world" where
  "make_log_dir w =
     (let log_dir = cwd w @ ''/logs'' in
      if \<not> (log_dir \<in> paths w) then
        (if log_dir \<in> mkdir_denied w then (Inl RuntimeError, w)
         else (Inr log_dir, w\<lparr>paths := insert log_dir (paths w)\<rparr>))
      else (Inr log_dir, w))"

definition derive_log_path :: "string option \<Rightarrow> world \<Rightarrow> (error + string) \<times> world" where
  "derive_log_path log_path_arg w =
     (case log_path_arg of
        None \<Rightarrow> make_log_dir w
      | Some p \<Rightarrow>
          (if \<not> check_path (cwd w @ ''/'' @ p) w then make_log_dir w
           else (Inr (cwd w @ ''/'' @ p), w)))"

subsection \<open>The class \<^verbatim>\<open>Logger\<close>\<close>

text \<open>
  The attributes of the class. The two registries are Python dictionaries, kept
  as association lists in insertion order; \<open>AList.update\<close> overwrites the value of a
  key that is present and appends a new key at the end, as assignment to a
  dictionary item does. \<open>logger\<close> is the key of the live logger, or \<open>None\<close>.
\<close>

record logger_cfg =
  "module_name" :: string
  log_path :: string
  log_level :: string
  log_level_int :: int
  logger :: "string option"
  formatters :: "(string \<times> formatter) list"
  handlers :: "(string \<times> nat) list"

definition DEFAULT_FORMATTER :: formatter where
  "DEFAULT_FORMATTER =
     Formatter ''{name}_{asctime} LEVEL: {levelname} - {pathname} + MESSAGE: {message}'' ''{''"

text \<open>\<^verbatim>\<open>d[k]\<close>, raising \<^verbatim>\<open>KeyError\<close> on a missing key.\<close>

definition getitem :: "('k \<times> 'v) list \<Rightarrow> 'k \<Rightarrow> error + 'v" where
  "getitem d k = (case map_of d k of None \<Rightarrow> Inl KeyError | Some v \<Rightarrow> Inr v)"

text \<open>
  \<^verbatim>\<open>reset_handlers_logger\<close>: the loop removes every handler of a copy of the list
  from the live logger.
\<close>

definition reset_handlers_logger :: "world \<Rightarrow> logger_cfg \<Rightarrow> bool \<times> world" where
  "reset_handlers_logger w c =
     (case logger c of
        None \<Rightarrow> (False, w)
      | Some n \<Rightarrow>
          (if lg_handlers (loggers w n) = [] then (True, w)
           else (True, upd_logger n (\<lambda>l. fold removeHandler (lg_handlers l) l) w)))"

definition remove_handler_logger ::
    "string \<Rightarrow> world \<Rightarrow> logger_cfg \<Rightarrow> (error + bool) \<times> world" where
  "remove_handler_logger handler_key w c =
     (case map_of (handlers c) handler_key of
        Some h \<Rightarrow>
          (case logger c of
             None \<Rightarrow> (Inl AttributeError, w)
           | Some n \<Rightarrow> (Inr True, upd_logger n (removeHandler h) w))
      | None \<Rightarrow> (Inr False, w))"

definition add_handler_logger ::
    "string \<Rightarrow> world \<Rightarrow> logger_cfg \<Rightarrow> (error + bool) \<times> world" where
  "add_handler_logger handler_key w c =
     (case map_of (handlers c) handler_key of
        Some h \<Rightarrow>
          (case logger c of
             None \<Rightarrow> (Inl AttributeError, w)
           | Some n \<Rightarrow> (Inr True, upd_logger n (addHandler h) w))
      | None \<Rightarrow> (Inr False, w))"

definition get_all_handlers :: "logger_cfg \<Rightarrow> (string \<times> nat) list" where
  "get_all_handlers c = handlers c"

text \<open>
  \<^verbatim>\<open>get_handler\<close>: on \<^verbatim>\<open>KeyError\<close> the three \<^verbatim>\<open>if\<close> statements run one after the
  other, each overwriting \<^verbatim>\<open>h\<close>; \<^verbatim>\<open>return h\<close> with \<^verbatim>\<open>h\<close> never assigned raises
  \<^verbatim>\<open>UnboundLocalError\<close>. The warning it prints is not modelled.
\<close>

definition get_handler :: "string \<Rightarrow> logger_cfg \<Rightarrow> error + nat" where
  "get_handler handler_key c =
     (case map_of (handlers c) handler_key of
        Some h \<Rightarrow> Inr h
      | None \<Rightarrow>
          (let h1 = (case map_of (handlers c) ''console_handler'' of
                       Some x \<Rightarrow> Some x | None \<Rightarrow> None);
               h2 = (case map_of (handlers c) ''file_handler'' of
                       Some x \<Rightarrow> Some x | None \<Rightarrow> h1);
               h3 = (case map_of (handlers c) ''rich_console_handler'' of
                       Some x \<Rightarrow> Some x | None \<Rightarrow> h2)
           in case h3 of None \<Rightarrow> Inl UnboundLocalError | Some h \<Rightarrow> Inr h))"

definition update_handlers_list :: "string \<Rightarrow> nat \<Rightarrow> logger_cfg \<Rightarrow> logger_cfg" where
  "update_handlers_list handler_key handler c =
     c\<lparr>handlers := AList.update handler_key handler (handlers c)\<rparr>"

definition reset_handlers_list ::
    "world \<Rightarrow> logger_cfg \<Rightarrow> (error + unit) \<times> world \<times> logger_cfg" where
  "reset_handlers_list w c =
     (let c1 = c\<lparr>handlers := []\<rparr> in
      case getitem (formatters c1) ''default_formatter'' of
        Inl e \<Rightarrow> (Inl e, w, c1)
      | Inr f1 \<Rightarrow>
          (let (h1, w1) = create_console_handler (log_level_int c1) f1 w;
               c2 = c1\<lparr>handlers := AList.update ''console_handler'' h1 (handlers c1)\<rparr>
           in case getitem (formatters c2) ''default_formatter'' of
                Inl e \<Rightarrow> (Inl e, w1, c2)
              | Inr f2 \<Rightarrow>
                  (case create_file_handler (log_level_int c2) f2
                          (log_path c2 @ ''/'' @ module_name c2) w1 of
                     (Inl e, w2) \<Rightarrow> (Inl e, w2, c2)
                   | (Inr h2, w2) \<Rightarrow>
                       (Inr (), w2,
                        c2\<lparr>handlers := AList.update ''file_handler'' h2 (handlers c2)\<rparr>))))"

definition get_all_formatters :: "logger_cfg \<Rightarrow> (string \<times> formatter) list" where
  "get_all_formatters c = formatters c"


definition update_formatters_list :: "string \<Rightarrow> formatter \<Rightarrow> logger_cfg \<Rightarrow> logger_cfg" where
  "update_formatters_list formatter_key fmt c =
     c\<lparr>formatters := AList.update formatter_key fmt (formatters c)\<rparr>"

definition reset_formatters_list :: "logger_cfg \<Rightarrow> logger_cfg" where
  "reset_formatters_list c =
     (let c1 = c\<lparr>formatters := []\<rparr>
      in c1\<lparr>formatters := AList.update ''default_formatter'' DEFAULT_FORMATTER (formatters c1)\<rparr>)"

definition get_current_logger :: "logger_cfg \<Rightarrow> string option" where
  "get_current_logger c = logger c"

text \<open>
  The loop of \<^verbatim>\<open>setup_logger\<close>: \<^verbatim>\<open>for key in self.handlers:
  logger.addHandler(self.handlers[key])\<close>.
\<close>

definition add_all_handlers :: "(string \<times> nat) list \<Rightarrow> pylogger \<Rightarrow> pylogger" where
  "add_all_handlers d l =
     fold (\<lambda>key l'. case map_of d key of None \<Rightarrow> l' | Some h \<Rightarrow> addHandler h l') (map fst d) l"

text \<open>
  \<^verbatim>\<open>setup_logger\<close>. The logger that is configured is the one of the name given (or
  of the stored name); \<^verbatim>\<open>self.reset_handlers_logger()\<close> clears the logger that
  \<^verbatim>\<open>self.logger\<close> refers to at that moment, which is the previous live logger.
\<close>

definition setup_logger ::
    "string option \<Rightarrow> string option \<Rightarrow> world \<Rightarrow> logger_cfg \<Rightarrow> (error + unit) \<times> world \<times> logger_cfg" where
  "setup_logger module_name_arg log_level_arg w c =
     (let lg = getLogger (str_or module_name_arg (module_name c)) in
      case checkLevel (level_or (std_log_level log_level_arg) (log_level c)) of
        Inl e \<Rightarrow> (Inl e, w, c)
      | Inr n \<Rightarrow>
          (let w1 = upd_logger lg (\<lambda>l. l\<lparr>lg_level := n\<rparr>) w;
               (_, w2) = reset_handlers_logger w1 c;
               w3 = upd_logger lg (\<lambda>l. l\<lparr>lg_propagate := False\<rparr>) w2;
               w4 = upd_logger lg (add_all_handlers (handlers c)) w3
           in (Inr (), w4, c\<lparr>logger := Some lg\<rparr>)))"

text \<open>
  \<^verbatim>\<open>Logger.__init__\<close>. The defaults of its parameters are \<^verbatim>\<open>"default_logger"\<close>,
  \<^verbatim>\<open>None\<close> and \<^verbatim>\<open>"DEBUG"\<close>. An exception leaves no object behind, only the changed
  process state.
\<close>

definition init ::
    "string \<Rightarrow> string option \<Rightarrow> string option \<Rightarrow> world \<Rightarrow> (error + logger_cfg) \<times> world" where
  "init module_name_arg log_path_arg log_level_arg w =
     (case derive_log_path log_path_arg w of
        (Inl e, w1) \<Rightarrow> (Inl e, w1)
      | (Inr lp, w1) \<Rightarrow>
          (let c = \<lparr>module_name = module_name_arg, log_path = lp,
                    log_level = upper (py_str log_level_arg),
                    log_level_int = std_log_level log_level_arg, logger = None,
                    formatters = [(''default_formatter'', DEFAULT_FORMATTER)], handlers = []\<rparr>
           in case getitem (formatters c) ''default_formatter'' of
                Inl e \<Rightarrow> (Inl e, w1)
              | Inr f1 \<Rightarrow>
                  (let (h1, w2) = create_rich_console_handler (log_level_int c) f1 w1;
                       c1 = c\<lparr>handlers := AList.update ''rich_console_handler'' h1 (handlers c)\<rparr>
                   in case getitem (formatters c1) ''default_formatter'' of
                        Inl e \<Rightarrow> (Inl e, w2)
                      | Inr f2 \<Rightarrow>
                          (case create_file_handler (log_level_int c1) f2
                                  (log_path c1 @ ''/'' @ module_name c1 @ ''.log'') w2 of
                             (Inl e, w3) \<Rightarrow> (Inl e, w3)
                           | (Inr h2, w3) \<Rightarrow>
                               (let c2 = c1\<lparr>handlers :=
                                            AList.update ''file_handler'' h2 (handlers c1)\<rparr>
                                in case setup_logger (Some (module_name c2)) (Some (log_level c2)) w3 c2 of
                                     (Inl e, w4, c3) \<Rightarrow> (Inl e, w4)
                                   | (Inr u, w4, c3) \<Rightarrow> (Inr c3, w4))))))"

subsection \<open>Sequences of method calls\<close>

text \<open>
  The public methods of a \<^verbatim>\<open>Logger\<close> object as operations on the process state and
  the object. A method that raises leaves the state as it was at the raise; the
  caller may go on using the object.
\<close>

datatype op =
    ResetHandlersLogger
  | RemoveHandlerLogger string
  | AddHandlerLogger string
  | GetAllHandlers
  | GetHandler string
  | UpdateHandlersList string nat
  | ResetHandlersList
  | GetAllFormatters
  | GetFormatter "string option"
  | UpdateFormattersList string formatter
  | ResetFormattersList
  | GetCurrentLogger
  | SetupLogger "string option" "string option"

fun step :: "op \<Rightarrow> world \<times> logger_cfg \<Rightarrow> world \<times> logger_cfg" where
  "step ResetHandlersLogger (w, c) = (snd (reset_handlers_logger w c), c)"
| "step (RemoveHandlerLogger k) (w, c) = (snd (remove_handler_logger k w c), c)"
| "step (AddHandlerLogger k) (w, c) = (snd (add_handler_logger k w c), c)"
| "step GetAllHandlers (w, c) = (w, c)"
| "step (GetHandler k) (w, c) = (w, c)"
| "step (UpdateHandlersList k h) (w, c) = (w, update_handlers_list k h c)"
| "step ResetHandlersList (w, c) = snd (reset_handlers_list w c)"
| "step GetAllFormatters (w, c) = (w, c)"
| "step (GetFormatter k) (w, c) = (w, c)"
| "step (UpdateFormattersList k f) (w, c) = (w, update_formatters_list k f c)"
| "step ResetFormattersList (w, c) = (w, reset_formatters_list c)"
| "step GetCurrentLogger (w, c) = (w, c)"
| "step (SetupLogger mn lvl) (w, c) = snd (setup_logger mn lvl w c)"

fun run :: "op list \<Rightarrow> world \<times> logger_cfg \<Rightarrow> world \<times> logger_cfg" where
  "run [] s = s"
| "run (x # xs) s = run xs (step x s)"



section \<open>Derived notions used in the statements\<close>

text \<open>
  The string with every dotless small i (U+0131, the bytes \<open>0xC4 0xB1\<close>) replaced by
  the ASCII letter \<open>i\<close>.
\<close>

fun dotless_to_i :: "string \<Rightarrow> string" where
  "dotless_to_i (a # b # r) =
     (if a = CHR 0xC4 \<and> b = CHR 0xB1 then CHR ''i'' # dotless_to_i r
      else a # dotless_to_i (b # r))"
| "dotless_to_i r = r"

text \<open>
  Strings of ASCII capitals without \<open>S\<close> and without \<open>FF\<close>, \<open>FI\<close>, \<open>FL\<close>: the five
  severity names are of this kind.
\<close>

fun plain_upper :: "string \<Rightarrow> bool" where
  "plain_upper [] = True"
| "plain_upper (k # t) =
     (65 \<le> (of_char k :: nat) \<and> (of_char k :: nat) \<le> 90 \<and> k \<noteq> CHR ''S'' \<and>
      take 2 (k # t) \<noteq> ''FF'' \<and> take 2 (k # t) \<noteq> ''FI'' \<and> take 2 (k # t) \<noteq> ''FL'' \<and>
      plain_upper t)"

text \<open>
  Upper-case mappings that cannot be part of such a string: they hold a byte from
  128 on, or start with \<open>S\<close>, \<open>FF\<close>, \<open>FI\<close> or \<open>FL\<close>.
\<close>

definition bad_target :: "string \<Rightarrow> bool" where
  "bad_target tgt =
     (list_ex (\<lambda>b. 128 \<le> (of_char b :: nat)) tgt \<or> take 1 tgt = ''S'' \<or>
      take 2 tgt = ''FF'' \<or> take 2 tgt = ''FI'' \<or> take 2 tgt = ''FL'')"

text \<open>The kind of the handler object of an identity, when the heap holds one.\<close>

definition kind_of :: "world \<Rightarrow> nat \<Rightarrow> handler_kind option" where
  "kind_of w i = (if i < length (heap w) then Some (h_kind (heap w ! i)) else None)"

text \<open>The kinds of the handlers attached to the logger of a name, in list order.\<close>

definition attached_kinds :: "world \<Rightarrow> string \<Rightarrow> handler_kind option list" where
  "attached_kinds w n = map (kind_of w) (lg_handlers (loggers w n))"

text \<open>
  The path of the file handler registered under \<^verbatim>\<open>file_handler\<close>, when the entry
  is a file handler.
\<close>

definition registered_file_path :: "world \<Rightarrow> logger_cfg \<Rightarrow> string option" where
  "registered_file_path w c =
     (case map_of (handlers c) ''file_handler'' of
        None \<Rightarrow> None
      | Some h \<Rightarrow>
          (case kind_of w h of
             Some (FileHandler p m e d r) \<Rightarrow> Some p
           | Some (StreamHandler s) \<Rightarrow> None
           | Some (RichHandler a b) \<Rightarrow> None
           | None \<Rightarrow> None))"

text \<open>\<^verbatim>\<open>key in d\<close> for a dictionary.\<close>

definition has_key :: "('k \<times> 'v) list \<Rightarrow> 'k \<Rightarrow> bool" where
  "has_key d k = (k \<in> fst ` set d)"

text \<open>The values of a dictionary, as a set.\<close>

definition dict_values :: "('k \<times> 'v) list \<Rightarrow> 'v set" where
  "dict_values d = ran (map_of d)"

text \<open>
  What every \<^verbatim>\<open>Logger\<close> object satisfies between two method calls: the default
  formatter is registered, one of the console handlers is registered, and a live
  logger is bound.
\<close>

definition cfg_ok :: "logger_cfg \<Rightarrow> bool" where
  "cfg_ok c =
     (has_key (formatters c) ''default_formatter'' \<and>
      (has_key (handlers c) ''console_handler'' \<or> has_key (handlers c) ''rich_console_handler'') \<and>
      (\<exists>n. logger c = Some n))"

text \<open>
  A concrete run: in a fresh process, \<^verbatim>\<open>Logger("A")\<close> and then \<^verbatim>\<open>Logger("B")\<close> are
  constructed with the default arguments.
\<close>

definition world_A :: world where
  "world_A = snd (init ''A'' None (Some ''DEBUG'') world0)"

definition cfg_A :: logger_cfg where
  "cfg_A = \<lparr>module_name = ''A'', log_path = ''/app/logs'', log_level = ''DEBUG'',
     log_level_int = 10, logger = Some ''A'',
     formatters = [(''default_formatter'', DEFAULT_FORMATTER)],
     handlers = [(''rich_console_handler'', 0), (''file_handler'', 1)]\<rparr>"

definition world_AB :: world where
  "world_AB = snd (init ''B'' None (Some ''DEBUG'') world_A)"

definition cfg_B :: logger_cfg where
  "cfg_B = \<lparr>module_name = ''B'', log_path = ''/app/logs'', log_level = ''DEBUG'',
     log_level_int = 10, logger = Some ''B'',
     formatters = [(''default_formatter'', DEFAULT_FORMATTER)],
     handlers = [(''rich_console_handler'', 2), (''file_handler'', 3)]\<rparr>"

section \<open>Properties of the level mapper\<close>

lemmas logging_levels =
  logging_NOTSET_def logging_DEBUG_def logging_INFO_def logging_WARNING_def
  logging_ERROR_def logging_CRITICAL_def

lemma char_of_nat_eq:
  "(char_of (n::nat) = c) = (n mod 256 = of_char c)"
  "(c = char_of (n::nat)) = (n mod 256 = of_char c)"
  using char_of_eq_iff [of n c] by (auto simp: take_bit_eq_mod)

lemma of_char_upper_ascii:
  "(of_char (upper_ascii c) :: nat) =
     (if 97 \<le> (of_char c :: nat) \<and> (of_char c :: nat) \<le> 122 then of_char c - 32 else of_char c)"
proof -
  have "(of_char c :: nat) - 32 < 256"
    using nat_of_char_less_256 [of c] by arith
  then show ?thesis
    by (simp add: upper_ascii_def)
qed

lemma of_char_lower_char:
  "(of_char (lower_char c) :: nat) =
     (if 65 \<le> (of_char c :: nat) \<and> (of_char c :: nat) \<le> 90 then of_char c + 32 else of_char c)"
  by (simp add: lower_char_def)

text \<open>
  On a code point below 128 and an ASCII capital, upper-casing to the capital and
  agreeing after lower-casing are the same.
\<close>

lemma upper_ascii_eq_iff:
  assumes "(of_char c :: nat) < 128" and "65 \<le> (of_char k :: nat)" and "(of_char k :: nat) \<le> 90"
  shows "upper_ascii c = k \<longleftrightarrow> lower_char c = lower_char k"
proof -
  define m n :: nat where "m = of_char c" and "n = of_char k"
  have mn: "m < 128" "65 \<le> n" "n \<le> 90"
    using assms by (simp_all add: m_def n_def)
  have "upper_ascii c = k \<longleftrightarrow> (of_char (upper_ascii c) :: nat) = of_char k"
    by simp
  also have "\<dots> \<longleftrightarrow> (if 97 \<le> m \<and> m \<le> 122 then m - 32 else m) = n"
    by (simp only: of_char_upper_ascii m_def n_def)
  also have "\<dots> \<longleftrightarrow>
      (if 65 \<le> m \<and> m \<le> 90 then m + 32 else m) = (if 65 \<le> n \<and> n \<le> 90 then n + 32 else n)"
    using mn by (simp split: if_splits) arith
  also have "\<dots> \<longleftrightarrow> (of_char (lower_char c) :: nat) = of_char (lower_char k)"
    by (simp only: of_char_lower_char m_def n_def)
  also have "\<dots> \<longleftrightarrow> lower_char c = lower_char k"
    by simp
  finally show ?thesis .
qed

lemma lower_char_high:
  assumes "128 \<le> (of_char c :: nat)" and "(of_char k :: nat) \<le> 90"
  shows "lower_char c \<noteq> lower_char k"
proof
  define m n :: nat where "m = of_char c" and "n = of_char k"
  assume "lower_char c = lower_char k"
  then have "(of_char (lower_char c) :: nat) = of_char (lower_char k)"
    by simp
  then have "(if 65 \<le> m \<and> m \<le> 90 then m + 32 else m) = (if 65 \<le> n \<and> n \<le> 90 then n + 32 else n)"
    by (simp only: of_char_lower_char m_def n_def)
  moreover have "128 \<le> m" "n \<le> 90"
    using assms by (simp_all add: m_def n_def)
  ultimately show False
    by (simp split: if_splits)
qed

lemma upper_names:
  "upper ''DEBUG'' = ''DEBUG''" "upper ''INFO'' = ''INFO''" "upper ''WARNING'' = ''WARNING''"
  "upper ''ERROR'' = ''ERROR''" "upper ''CRITICAL'' = ''CRITICAL''"
  by (simp_all add: upper.simps upper_ascii_def char_of_nat_eq)

subsection \<open>The table beyond ASCII\<close>

text \<open>
  Apart from the dotless i, no entry of the table has an upper case that could be
  part of a severity name. Each part of the table is checked by evaluation.
\<close>

lemma upper_table_parts_bad:
  "list_all (\<lambda>e. bad_target (snd e)) upper_table_01"
  "list_all (\<lambda>e. bad_target (snd e)) upper_table_02"
  "list_all (\<lambda>e. bad_target (snd e)) upper_table_03"
  "list_all (\<lambda>e. bad_target (snd e)) upper_table_04"
  "list_all (\<lambda>e. bad_target (snd e)) upper_table_05"
  "list_all (\<lambda>e. bad_target (snd e)) upper_table_06"
  "list_all (\<lambda>e. bad_target (snd e)) upper_table_07"
  "list_all (\<lambda>e. bad_target (snd e)) upper_table_08"
  "list_all (\<lambda>e. bad_target (snd e)) upper_table_09"
  "list_all (\<lambda>e. bad_target (snd e)) upper_table_10"
  "list_all (\<lambda>e. bad_target (snd e)) upper_table_11"
  "list_all (\<lambda>e. bad_target (snd e)) upper_table_12"
  "list_all (\<lambda>e. bad_target (snd e)) upper_table_13"
  "list_all (\<lambda>e. bad_target (snd e)) upper_table_14"
  "list_all (\<lambda>e. bad_target (snd e)) upper_table_15"
  by (simp_all add: bad_target_def upper_table_01_def upper_table_02_def upper_table_03_def
      upper_table_04_def upper_table_05_def upper_table_06_def upper_table_07_def
      upper_table_08_def upper_table_09_def upper_table_10_def upper_table_11_def
      upper_table_12_def upper_table_13_def upper_table_14_def upper_table_15_def)

lemma upper_table_rest_bad: "list_all (\<lambda>e. bad_target (snd e)) upper_table_rest"
  by (simp add: upper_table_rest_def upper_table_parts_bad)

lemma upper_multi_mem:
  "upper_multi tbl s = Some (tgt, n) \<Longrightarrow> \<exists>src. (src, tgt) \<in> set tbl"
  by (induction tbl s rule: upper_multi.induct) (auto split: if_splits)

lemma upper_multi_rest_bad:
  assumes "upper_multi upper_table_rest s = Some (tgt, n)"
  shows "bad_target tgt"
proof -
  from upper_multi_mem [OF assms] obtain src where "(src, tgt) \<in> set upper_table_rest"
    by blast
  with upper_table_rest_bad show ?thesis
    by (auto simp: list_all_iff)
qed

lemma plain_upper_bytes:
  "plain_upper t \<Longrightarrow> b \<in> set t \<Longrightarrow> (of_char b :: nat) \<le> 90 \<and> 65 \<le> (of_char b :: nat)"
  by (induction t) auto

lemma bad_target_not_plain:
  assumes "bad_target tgt"
  shows "\<not> plain_upper (tgt @ u)"
proof
  assume p: "plain_upper (tgt @ u)"
  from assms consider
      (high) b where "b \<in> set tgt" "128 \<le> (of_char b :: nat)"
    | (s) "take 1 tgt = ''S''"
    | (f) "take 2 tgt = ''FF'' \<or> take 2 tgt = ''FI'' \<or> take 2 tgt = ''FL''"
    by (auto simp: bad_target_def list_ex_iff)
  then show False
  proof cases
    case high
    then show ?thesis
      using plain_upper_bytes [OF p, of b] by simp
  next
    case s
    then obtain r where "tgt = CHR ''S'' # r"
      by (cases tgt) auto
    with p show ?thesis by simp
  next
    case f
    then obtain a b r where t: "tgt = a # b # r"
      by (cases tgt; cases "tl tgt") auto
    with f have "take 2 (tgt @ u) = take 2 tgt"
      by simp
    with p f t show ?thesis by auto
  qed
qed

lemma dotless_to_i_other:
  assumes "\<not> (c = CHR 0xC4 \<and> (\<exists>r. cs = CHR 0xB1 # r))"
  shows "dotless_to_i (c # cs) = c # dotless_to_i cs"
  using assms by (cases cs) auto

lemma dotless_to_i_ascii:
  "\<forall>c \<in> set s. (of_char c :: nat) < 128 \<Longrightarrow> dotless_to_i s = s"
  by (induction s rule: dotless_to_i.induct) auto

subsection \<open>Which strings upper-case to a severity name\<close>

lemma upper_plain_iff:
  "plain_upper t \<Longrightarrow> upper s = t \<longleftrightarrow> ci_equal (dotless_to_i s) t"
proof (induction s arbitrary: t rule: length_induct)
  case (1 s)
  note IH = "1.IH" and plain = "1.prems"
  show ?case
  proof (cases s)
    case Nil
    then show ?thesis
      by (auto simp: upper.simps ci_equal_def)
  next
    case (Cons c cs)
    consider (ascii) "(of_char c :: nat) < 128"
      | (dotless) r where "c = CHR 0xC4" "cs = CHR 0xB1 # r"
      | (other) "128 \<le> (of_char c :: nat)" "\<not> (c = CHR 0xC4 \<and> (\<exists>r. cs = CHR 0xB1 # r))"
      by (cases "(of_char c :: nat) < 128") auto
    then show ?thesis
    proof cases
      case ascii
      then have nd: "\<not> (c = CHR 0xC4 \<and> (\<exists>r. cs = CHR 0xB1 # r))"
        by auto
      have up: "upper s = upper_ascii c # upper cs"
        using ascii by (simp add: Cons upper.simps)
      have dl: "dotless_to_i s = c # dotless_to_i cs"
        unfolding Cons by (rule dotless_to_i_other [OF nd])
      show ?thesis
      proof (cases t)
        case Nil
        then show ?thesis by (simp add: up dl ci_equal_def)
      next
        case (Cons k t')
        have k: "65 \<le> (of_char k :: nat)" "(of_char k :: nat) \<le> 90" and t': "plain_upper t'"
          using plain Cons by simp_all
        have "upper cs = t' \<longleftrightarrow> ci_equal (dotless_to_i cs) t'"
          using IH t' \<open>s = c # cs\<close> by simp
        then show ?thesis
          using upper_ascii_eq_iff [OF ascii k] by (simp add: up dl Cons ci_equal_def)
      qed
    next
      case dotless
      have up: "upper s = CHR ''I'' # upper r"
        by (simp add: Cons dotless upper.simps upper_table_def)
      have dl: "dotless_to_i s = CHR ''i'' # dotless_to_i r"
        by (simp add: Cons dotless)
      show ?thesis
      proof (cases t)
        case Nil
        then show ?thesis by (simp add: up dl ci_equal_def)
      next
        case (Cons k t')
        have k: "65 \<le> (of_char k :: nat)" "(of_char k :: nat) \<le> 90" and t': "plain_upper t'"
          using plain Cons by simp_all
        have i: "(of_char CHR ''i'' :: nat) < 128"
          by simp
        have "upper_ascii CHR ''i'' = CHR ''I''"
          by (simp add: upper_ascii_def char_of_nat_eq)
        with upper_ascii_eq_iff [OF i k]
        have ki: "CHR ''I'' = k \<longleftrightarrow> lower_char CHR ''i'' = lower_char k"
          by simp
        have "upper r = t' \<longleftrightarrow> ci_equal (dotless_to_i r) t'"
          using IH t' \<open>s = c # cs\<close> dotless by simp
        then show ?thesis
          using ki by (simp add: up dl Cons ci_equal_def)
      qed
    next
      case other
      have dl: "dotless_to_i s = c # dotless_to_i cs"
        unfolding Cons by (rule dotless_to_i_other [OF other(2)])
      have right: "\<not> ci_equal (dotless_to_i s) t"
      proof (cases t)
        case Nil
        then show ?thesis by (simp add: dl ci_equal_def)
      next
        case (Cons k t')
        have "(of_char k :: nat) \<le> 90"
          using plain Cons by simp
        from lower_char_high [OF other(1) this] show ?thesis
          by (simp add: dl Cons ci_equal_def)
      qed
      have first: "take (length [CHR 0xC4, CHR 0xB1]) (c # cs) \<noteq> [CHR 0xC4, CHR 0xB1]"
        using other(2) by (cases cs) auto
      have look: "upper_multi upper_table (c # cs) = upper_multi upper_table_rest (c # cs)"
        by (simp only: upper_table_def upper_multi.simps first if_False)
      have left: "upper s \<noteq> t"
      proof (cases "upper_multi upper_table_rest (c # cs)")
        case None
        then have "upper s = c # upper cs"
          using other(1) by (simp add: Cons upper.simps look)
        moreover have "c \<notin> set t"
          using plain_upper_bytes [OF plain, of c] other(1) by auto
        ultimately show ?thesis by auto
      next
        case (Some p)
        obtain tgt n where p: "p = (tgt, n)"
          by (cases p)
        have "upper s = tgt @ upper (drop (n - 1) cs)"
          using other(1) Some p by (simp add: Cons upper.simps look)
        moreover have "\<not> plain_upper (tgt @ upper (drop (n - 1) cs))"
          using Some p by (intro bad_target_not_plain upper_multi_rest_bad) simp
        ultimately show ?thesis
          using plain by auto
      qed
      from left right show ?thesis by simp
    qed
  qed
qed

lemma plain_names:
  "plain_upper ''DEBUG''" "plain_upper ''INFO''" "plain_upper ''WARNING''"
  "plain_upper ''ERROR''" "plain_upper ''CRITICAL''"
  by simp_all

lemma upper_is_name:
  "upper s = ''DEBUG'' \<longleftrightarrow> ci_equal (dotless_to_i s) ''DEBUG''"
  "upper s = ''INFO'' \<longleftrightarrow> ci_equal (dotless_to_i s) ''INFO''"
  "upper s = ''WARNING'' \<longleftrightarrow> ci_equal (dotless_to_i s) ''WARNING''"
  "upper s = ''ERROR'' \<longleftrightarrow> ci_equal (dotless_to_i s) ''ERROR''"
  "upper s = ''CRITICAL'' \<longleftrightarrow> ci_equal (dotless_to_i s) ''CRITICAL''"
  by (rule upper_plain_iff, rule plain_names)+

text \<open>A case-insensitive match of such a string has no byte from 128 on.\<close>

lemma ci_equal_plain_ascii:
  assumes "plain_upper t" and "ci_equal s t"
  shows "dotless_to_i s = s"
proof (rule dotless_to_i_ascii, rule ballI)
  fix c assume c: "c \<in> set s"
  have "lower_char c \<in> set (map lower_char t)"
    using assms(2) c unfolding ci_equal_def by (metis image_eqI set_map)
  then obtain k where k: "k \<in> set t" "lower_char c = lower_char k"
    by auto
  show "(of_char c :: nat) < 128"
  proof (rule ccontr)
    assume "\<not> (of_char c :: nat) < 128"
    then have "128 \<le> (of_char c :: nat)" by simp
    from lower_char_high [OF this, of k] have "lower_char c \<noteq> lower_char k"
      using plain_upper_bytes [OF assms(1) k(1)] by blast
    with k(2) show False by blast
  qed
qed

lemma ci_equal_plain_upper:
  assumes "plain_upper t" and "ci_equal s t"
  shows "upper s = t"
proof -
  have "dotless_to_i s = s"
    by (rule ci_equal_plain_ascii [OF assms])
  then show ?thesis
    using upper_plain_iff [OF assms(1), of s] assms(2) by simp
qed

lemma ci_equal_name_upper:
  "ci_equal s ''DEBUG'' \<Longrightarrow> upper s = ''DEBUG''"
  "ci_equal s ''INFO'' \<Longrightarrow> upper s = ''INFO''"
  "ci_equal s ''WARNING'' \<Longrightarrow> upper s = ''WARNING''"
  "ci_equal s ''ERROR'' \<Longrightarrow> upper s = ''ERROR''"
  "ci_equal s ''CRITICAL'' \<Longrightarrow> upper s = ''CRITICAL''"
  by (erule ci_equal_plain_upper [rotated], rule plain_names)+

subsection \<open>The claim about the level mapper\<close>

text \<open>
  Claim C3 as stated fails on its last part. The string \<^verbatim>\<open>warn\<close>, U+0131, \<^verbatim>\<open>ng\<close> is not
  empty and matches none of the five names case-insensitively, since the dotless
  i is not the letter i in either case; \<^verbatim>\<open>str.upper()\<close> turns it into \<^verbatim>\<open>WARNING\<close>
  all the same, and the mapper returns \<^verbatim>\<open>logging.WARNING\<close>, not \<^verbatim>\<open>logging.INFO\<close>.
\<close>

theorem std_log_level_dotless_counterexample:
  "std_log_level (Some (''warn'' @ [CHR 0xC4, CHR 0xB1] @ ''ng'')) = logging_WARNING \<and>
   logging_WARNING \<noteq> logging_INFO \<and>
   ''warn'' @ [CHR 0xC4, CHR 0xB1] @ ''ng'' \<noteq> [] \<and>
   \<not> ci_equal (''warn'' @ [CHR 0xC4, CHR 0xB1] @ ''ng'') ''DEBUG'' \<and>
   \<not> ci_equal (''warn'' @ [CHR 0xC4, CHR 0xB1] @ ''ng'') ''INFO'' \<and>
   \<not> ci_equal (''warn'' @ [CHR 0xC4, CHR 0xB1] @ ''ng'') ''WARNING'' \<and>
   \<not> ci_equal (''warn'' @ [CHR 0xC4, CHR 0xB1] @ ''ng'') ''ERROR'' \<and>
   \<not> ci_equal (''warn'' @ [CHR 0xC4, CHR 0xB1] @ ''ng'') ''CRITICAL''"
proof -
  have "upper (''warn'' @ [CHR 0xC4, CHR 0xB1] @ ''ng'') = ''WARNING''"
    by (simp add: upper.simps upper_ascii_def char_of_nat_eq upper_table_def)
  then have "std_log_level (Some (''warn'' @ [CHR 0xC4, CHR 0xB1] @ ''ng'')) = logging_WARNING"
    by (simp add: std_log_level_def)
  then show ?thesis
    by (simp add: ci_equal_def lower_char_def char_of_nat_eq logging_levels)
qed

text \<open>
  Claim C3, amended. The level mapper returns \<^verbatim>\<open>logging.DEBUG\<close> for an absent
  argument. For a string that matches one of the five severity names without
  regard to case it returns that name's constant (10, 20, 30, 40, 50), and so it
  does for a string that matches the name once every dotless i (U+0131) in it is
  read as the letter i. For every other string, the empty one included, it
  returns \<^verbatim>\<open>logging.INFO\<close>.
\<close>

theorem std_log_level_cases:
  "std_log_level None = logging_DEBUG \<and>
   (ci_equal s ''DEBUG'' \<longrightarrow> std_log_level (Some s) = logging_DEBUG) \<and>
   (ci_equal s ''INFO'' \<longrightarrow> std_log_level (Some s) = logging_INFO) \<and>
   (ci_equal s ''WARNING'' \<longrightarrow> std_log_level (Some s) = logging_WARNING) \<and>
   (ci_equal s ''ERROR'' \<longrightarrow> std_log_level (Some s) = logging_ERROR) \<and>
   (ci_equal s ''CRITICAL'' \<longrightarrow> std_log_level (Some s) = logging_CRITICAL) \<and>
   (ci_equal (dotless_to_i s) ''DEBUG'' \<longrightarrow> std_log_level (Some s) = logging_DEBUG) \<and>
   (ci_equal (dotless_to_i s) ''INFO'' \<longrightarrow> std_log_level (Some s) = logging_INFO) \<and>
   (ci_equal (dotless_to_i s) ''WARNING'' \<longrightarrow> std_log_level (Some s) = logging_WARNING) \<and>
   (ci_equal (dotless_to_i s) ''ERROR'' \<longrightarrow> std_log_level (Some s) = logging_ERROR) \<and>
   (ci_equal (dotless_to_i s) ''CRITICAL'' \<longrightarrow> std_log_level (Some s) = logging_CRITICAL) \<and>
   (\<not> ci_equal (dotless_to_i s) ''DEBUG'' \<and> \<not> ci_equal (dotless_to_i s) ''INFO'' \<and>
    \<not> ci_equal (dotless_to_i s) ''WARNING'' \<and> \<not> ci_equal (dotless_to_i s) ''ERROR'' \<and>
    \<not> ci_equal (dotless_to_i s) ''CRITICAL'' \<longrightarrow>
      std_log_level (Some s) = logging_INFO) \<and>
   [logging_DEBUG, logging_INFO, logging_WARNING, logging_ERROR, logging_CRITICAL]
     = [10, 20, 30, 40, 50]"
proof -
  have none: "std_log_level None = logging_DEBUG"
    by (simp add: std_log_level_def upper_names)
  have up: "std_log_level (Some s) =
     (if upper s = ''DEBUG'' then logging_DEBUG
      else if upper s = ''INFO'' then logging_INFO
      else if upper s = ''WARNING'' then logging_WARNING
      else if upper s = ''ERROR'' then logging_ERROR
      else if upper s = ''CRITICAL'' then logging_CRITICAL
      else logging_INFO)"
    by (simp add: std_log_level_def Let_def)
  have plain: "ci_equal s ''DEBUG'' \<longrightarrow> std_log_level (Some s) = logging_DEBUG"
    "ci_equal s ''INFO'' \<longrightarrow> std_log_level (Some s) = logging_INFO"
    "ci_equal s ''WARNING'' \<longrightarrow> std_log_level (Some s) = logging_WARNING"
    "ci_equal s ''ERROR'' \<longrightarrow> std_log_level (Some s) = logging_ERROR"
    "ci_equal s ''CRITICAL'' \<longrightarrow> std_log_level (Some s) = logging_CRITICAL"
    by (auto simp: up dest!: ci_equal_name_upper)
  have dotless: "(ci_equal (dotless_to_i s) ''DEBUG'' \<longrightarrow> std_log_level (Some s) = logging_DEBUG) \<and>
   (ci_equal (dotless_to_i s) ''INFO'' \<longrightarrow> std_log_level (Some s) = logging_INFO) \<and>
   (ci_equal (dotless_to_i s) ''WARNING'' \<longrightarrow> std_log_level (Some s) = logging_WARNING) \<and>
   (ci_equal (dotless_to_i s) ''ERROR'' \<longrightarrow> std_log_level (Some s) = logging_ERROR) \<and>
   (ci_equal (dotless_to_i s) ''CRITICAL'' \<longrightarrow> std_log_level (Some s) = logging_CRITICAL) \<and>
   (\<not> ci_equal (dotless_to_i s) ''DEBUG'' \<and> \<not> ci_equal (dotless_to_i s) ''INFO'' \<and>
    \<not> ci_equal (dotless_to_i s) ''WARNING'' \<and> \<not> ci_equal (dotless_to_i s) ''ERROR'' \<and>
    \<not> ci_equal (dotless_to_i s) ''CRITICAL'' \<longrightarrow>
      std_log_level (Some s) = logging_INFO)"
    unfolding upper_is_name [symmetric] by (simp add: up)
  show ?thesis
    using none plain dotless by (simp add: logging_levels)
qed

theorem std_log_level_cases_witness:
  "std_log_level None = 10 \<and>
   ci_equal ''debug'' ''DEBUG'' \<and> std_log_level (Some ''debug'') = 10 \<and>
   ci_equal ''Info'' ''INFO'' \<and> std_log_level (Some ''Info'') = 20 \<and>
   ci_equal ''wArNiNg'' ''WARNING'' \<and> std_log_level (Some ''wArNiNg'') = 30 \<and>
   ci_equal ''ERROR'' ''ERROR'' \<and> std_log_level (Some ''ERROR'') = 40 \<and>
   ci_equal ''critical'' ''CRITICAL'' \<and> std_log_level (Some ''critical'') = 50 \<and>
   ci_equal (dotless_to_i (''cr'' @ [CHR 0xC4, CHR 0xB1] @ ''tical'')) ''CRITICAL'' \<and>
   std_log_level (Some (''cr'' @ [CHR 0xC4, CHR 0xB1] @ ''tical'')) = 50 \<and>
   \<not> ci_equal (dotless_to_i ''verbose'') ''DEBUG'' \<and>
   \<not> ci_equal (dotless_to_i ''verbose'') ''INFO'' \<and>
   \<not> ci_equal (dotless_to_i ''verbose'') ''WARNING'' \<and>
   \<not> ci_equal (dotless_to_i ''verbose'') ''ERROR'' \<and>
   \<not> ci_equal (dotless_to_i ''verbose'') ''CRITICAL'' \<and>
   std_log_level (Some ''verbose'') = 20 \<and>
   std_log_level (Some []) = 20"
proof -
  have ci: "ci_equal ''debug'' ''DEBUG''" "ci_equal ''Info'' ''INFO''"
    "ci_equal ''wArNiNg'' ''WARNING''" "ci_equal ''ERROR'' ''ERROR''"
    "ci_equal ''critical'' ''CRITICAL''"
    "ci_equal (dotless_to_i (''cr'' @ [CHR 0xC4, CHR 0xB1] @ ''tical'')) ''CRITICAL''"
    "\<not> ci_equal (dotless_to_i ''verbose'') ''DEBUG''"
    "\<not> ci_equal (dotless_to_i ''verbose'') ''INFO''"
    "\<not> ci_equal (dotless_to_i ''verbose'') ''WARNING''"
    "\<not> ci_equal (dotless_to_i ''verbose'') ''ERROR''"
    "\<not> ci_equal (dotless_to_i ''verbose'') ''CRITICAL''"
    "\<not> ci_equal (dotless_to_i []) ''DEBUG''" "\<not> ci_equal (dotless_to_i []) ''INFO''"
    "\<not> ci_equal (dotless_to_i []) ''WARNING''" "\<not> ci_equal (dotless_to_i []) ''ERROR''"
    "\<not> ci_equal (dotless_to_i []) ''CRITICAL''"
    by (simp_all add: ci_equal_def lower_char_def char_of_nat_eq)
  show ?thesis
    using std_log_level_cases [of "''debug''"] std_log_level_cases [of "''Info''"]
      std_log_level_cases [of "''wArNiNg''"] std_log_level_cases [of "''ERROR''"]
      std_log_level_cases [of "''critical''"]
      std_log_level_cases [of "''cr'' @ [CHR 0xC4, CHR 0xB1] @ ''tical''"]
      std_log_level_cases [of "''verbose''"]
      std_log_level_cases [of "[]"] ci
    by (simp add: logging_levels)
qed

section \<open>Basic facts about the runtime model\<close>

lemma create_console_handler_eq:
  "create_console_handler lvl f w =
     (length (heap w),
      w\<lparr>heap := heap w @ [\<lparr>h_kind = StreamHandler Stdout, h_level = lvl, h_formatter = Some f\<rparr>]\<rparr>)"
  by (simp add: create_console_handler_def alloc_def setFormatter_def setLevel_handler_def)

lemma create_rich_console_handler_eq:
  "create_rich_console_handler lvl f w =
     (length (heap w),
      w\<lparr>heap := heap w @ [\<lparr>h_kind = RichHandler True True, h_level = lvl, h_formatter = Some f\<rparr>]\<rparr>)"
  by (simp add: create_rich_console_handler_def alloc_def setFormatter_def setLevel_handler_def)

lemma create_file_handler_eq:
  "create_file_handler lvl f p w =
     (if p \<in> open_denied w then (Inl OSError, w)
      else (Inr (length (heap w)),
            w\<lparr>paths := insert p (paths w),
              heap := heap w @ [\<lparr>h_kind = FileHandler p ''a'' None False None, h_level = lvl,
                                 h_formatter = Some f\<rparr>]\<rparr>))"
  by (simp add: create_file_handler_def alloc_def setFormatter_def setLevel_handler_def)

lemma upd_logger_simps:
  "loggers (upd_logger n f w) m = (if m = n then f (loggers w n) else loggers w m)"
  "heap (upd_logger n f w) = heap w"
  "cwd (upd_logger n f w) = cwd w"
  "paths (upd_logger n f w) = paths w"
  "mkdir_denied (upd_logger n f w) = mkdir_denied w"
  "open_denied (upd_logger n f w) = open_denied w"
  by (simp_all add: upd_logger_def)

text \<open>The removal loop over a copy of the handler list empties the list.\<close>

lemma fold_removeHandler_all:
  "lg_handlers l = xs \<Longrightarrow> fold removeHandler xs l = l\<lparr>lg_handlers := []\<rparr>"
proof (induction xs arbitrary: l)
  case Nil
  then show ?case by simp
next
  case (Cons x xs)
  have "lg_handlers (removeHandler x l) = xs"
    using Cons.prems by (simp add: removeHandler_def)
  from Cons.IH [OF this] show ?case
    using Cons.prems by (simp add: removeHandler_def)
qed

lemma reset_handlers_logger_eq:
  "reset_handlers_logger w c =
     (case logger c of
        None \<Rightarrow> (False, w)
      | Some n \<Rightarrow> (True, upd_logger n (\<lambda>l. l\<lparr>lg_handlers := []\<rparr>) w))"
proof (cases "logger c")
  case None
  then show ?thesis by (simp add: reset_handlers_logger_def)
next
  case (Some n)
  have "fold removeHandler (lg_handlers l) l = l\<lparr>lg_handlers := []\<rparr>" for l
    by (rule fold_removeHandler_all) simp
  moreover have "upd_logger n (\<lambda>l. l\<lparr>lg_handlers := []\<rparr>) w = w"
    if "lg_handlers (loggers w n) = []"
  proof -
    have "(loggers w n)\<lparr>lg_handlers := []\<rparr> = loggers w n"
      by (rule pylogger.equality) (simp_all add: that)
    then show ?thesis
      by (simp add: upd_logger_def)
  qed
  ultimately show ?thesis
    using Some by (simp add: reset_handlers_logger_def)
qed

lemma std_log_level_nonzero: "std_log_level lvl \<noteq> 0"
  by (simp add: std_log_level_def Let_def logging_levels)

lemma std_log_level_DEBUG: "std_log_level (Some ''DEBUG'') = 10"
  by (simp add: std_log_level_def upper_names logging_levels)

lemma checkLevel_std: "checkLevel (level_or (std_log_level lvl) s) = Inr (std_log_level lvl)"
  by (simp add: level_or_def checkLevel_def std_log_level_nonzero)

text \<open>\<^verbatim>\<open>setup_logger\<close> never raises; its effect in closed form.\<close>

lemma setup_logger_eq:
  "setup_logger mn lvl w c =
     (Inr (),
      upd_logger (getLogger (str_or mn (module_name c))) (add_all_handlers (handlers c))
        (upd_logger (getLogger (str_or mn (module_name c))) (\<lambda>l. l\<lparr>lg_propagate := False\<rparr>)
          (snd (reset_handlers_logger
             (upd_logger (getLogger (str_or mn (module_name c)))
                (\<lambda>l. l\<lparr>lg_level := std_log_level lvl\<rparr>) w) c))),
      c\<lparr>logger := Some (getLogger (str_or mn (module_name c)))\<rparr>)"
  by (simp add: setup_logger_def checkLevel_std Let_def split: prod.splits)

lemmas eval_simps = init_def derive_log_path_def make_log_dir_def create_rich_console_handler_eq
  create_file_handler_eq create_console_handler_eq setup_logger_eq reset_handlers_logger_eq
  upd_logger_simps add_all_handlers_def addHandler_def getitem_def py_str_def upper_names
  std_log_level_DEBUG getLogger_def str_or_def check_path_def fresh_logger_def root_logger_def
  Let_def

text \<open>The attach loop keeps level and flag, and adds exactly the registry's values.\<close>

lemma addHandler_fields:
  "lg_level (addHandler h l) = lg_level l" "lg_propagate (addHandler h l) = lg_propagate l"
  "set (lg_handlers (addHandler h l)) = insert h (set (lg_handlers l))"
  by (auto simp: addHandler_def)

lemma add_loop_fields:
  "lg_level (fold (\<lambda>key l'. case map_of d key of None \<Rightarrow> l' | Some h \<Rightarrow> addHandler h l') ks l)
     = lg_level l"
  "lg_propagate (fold (\<lambda>key l'. case map_of d key of None \<Rightarrow> l' | Some h \<Rightarrow> addHandler h l') ks l)
     = lg_propagate l"
  by (induction ks arbitrary: l) (simp_all add: addHandler_fields split: option.splits)

lemma add_loop_set:
  "set (lg_handlers
     (fold (\<lambda>key l'. case map_of d key of None \<Rightarrow> l' | Some h \<Rightarrow> addHandler h l') ks l))
   = set (lg_handlers l) \<union> {h. \<exists>k \<in> set ks. map_of d k = Some h}"
  by (induction ks arbitrary: l) (auto simp: addHandler_fields split: option.splits)

lemma add_all_handlers_fields:
  "lg_level (add_all_handlers d l) = lg_level l"
  "lg_propagate (add_all_handlers d l) = lg_propagate l"
  by (simp_all add: add_all_handlers_def add_loop_fields)

lemma add_all_handlers_set:
  "set (lg_handlers (add_all_handlers d l)) = set (lg_handlers l) \<union> dict_values d"
proof -
  have "{h. \<exists>k \<in> set (map fst d). map_of d k = Some h} = ran (map_of d)" (is "?L = ?R")
  proof (intro set_eqI iffI)
    fix h assume "h \<in> ?L"
    then show "h \<in> ?R" by (auto simp: ran_def)
  next
    fix h assume "h \<in> ?R"
    then obtain a where a: "map_of d a = Some h" by (auto simp: ran_def)
    then have "(a, h) \<in> set d" by (rule map_of_SomeD)
    then have "a \<in> set (map fst d)" by force
    with a show "h \<in> ?L" by blast
  qed
  then show ?thesis
    by (simp add: add_all_handlers_def add_loop_set dict_values_def)
qed

text \<open>The two constructions of the concrete run.\<close>

lemma init_A: "init ''A'' None (Some ''DEBUG'') world0 = (Inr cfg_A, world_A)"
  by (simp add: world_A_def cfg_A_def prod_eq_iff) (simp add: eval_simps world0_def)

lemma init_B: "init ''B'' None (Some ''DEBUG'') world_A = (Inr cfg_B, world_AB)"
  by (simp add: world_AB_def cfg_B_def prod_eq_iff) (simp add: eval_simps world0_def world_A_def)

lemma world_AB_loggers:
  "lg_handlers (loggers world_AB ''A'') = [0, 1]" "lg_handlers (loggers world_AB ''B'') = [2, 3]"
  by (simp_all add: eval_simps world0_def world_A_def world_AB_def)

section \<open>\<^verbatim>\<open>setup_logger\<close>: threshold and attached handlers\<close>

text \<open>
  Claim C8. \<^verbatim>\<open>setup_logger\<close> always sets the threshold of the logger it configures to
  the mapping of its severity argument: the mapper never returns zero, so
  \<^verbatim>\<open>_std_log_level(log_level) or self.log_level\<close> is always its left operand and
  the stored severity is never used. With an absent argument the threshold is
  \<^verbatim>\<open>logging.DEBUG\<close>, also when the stored severity is \<^verbatim>\<open>"ERROR"\<close>.
\<close>

theorem setup_logger_level:
  "std_log_level lvl \<noteq> 0 \<and>
   level_or (std_log_level lvl) (log_level c) = LevelInt (std_log_level lvl) \<and>
   fst (setup_logger mn lvl w c) = Inr () \<and>
   lg_level (loggers (fst (snd (setup_logger mn lvl w c))) (getLogger (str_or mn (module_name c))))
     = std_log_level lvl \<and>
   lg_level (loggers (fst (snd (setup_logger mn None w (c\<lparr>log_level := ''ERROR''\<rparr>))))
       (getLogger (str_or mn (module_name c))))
     = logging_DEBUG"
proof -
  have none: "std_log_level None = logging_DEBUG"
    by (simp add: std_log_level_def upper_names)
  have lvl: "lg_level (loggers (fst (snd (setup_logger mn l w c'))) (getLogger (str_or mn (module_name c'))))
      = std_log_level l" for l c'
    by (simp add: setup_logger_eq reset_handlers_logger_eq upd_logger_simps add_all_handlers_fields
        split: option.splits)
  show ?thesis
    using lvl [of lvl c] lvl [of None "c\<lparr>log_level := ''ERROR''\<rparr>"]
    by (simp add: std_log_level_nonzero level_or_def setup_logger_eq none)
qed

text \<open>
  Claim C1, evaluated on the concrete run. After \<^verbatim>\<open>Logger("A")\<close> and \<^verbatim>\<open>Logger("B")\<close>, the
  first object calls \<^verbatim>\<open>setup_logger("B")\<close>. The call clears the logger \<^verbatim>\<open>A\<close>, which the
  object was bound to, and not the logger \<^verbatim>\<open>B\<close> it configures: afterwards the live
  logger carries the two handlers of the other object besides the two of the
  registry.
\<close>

theorem setup_logger_leaves_foreign_handlers:
  "init ''A'' None (Some ''DEBUG'') world0 = (Inr cfg_A, world_A) \<and>
   init ''B'' None (Some ''DEBUG'') world_A = (Inr cfg_B, world_AB) \<and>
   fst (setup_logger (Some ''B'') None world_AB cfg_A) = Inr () \<and>
   logger (snd (snd (setup_logger (Some ''B'') None world_AB cfg_A))) = Some ''B'' \<and>
   handlers (snd (snd (setup_logger (Some ''B'') None world_AB cfg_A)))
     = [(''rich_console_handler'', 0), (''file_handler'', 1)] \<and>
   lg_handlers (loggers (fst (snd (setup_logger (Some ''B'') None world_AB cfg_A))) ''B'')
     = [2, 3, 0, 1] \<and>
   set (lg_handlers (loggers (fst (snd (setup_logger (Some ''B'') None world_AB cfg_A))) ''B''))
     \<noteq> dict_values (handlers (snd (snd (setup_logger (Some ''B'') None world_AB cfg_A))))"
proof -
  let ?r = "setup_logger (Some ''B'') None world_AB cfg_A"
  have h: "lg_handlers (loggers (fst (snd ?r)) ''B'') = [2, 3, 0, 1]"
    by (simp add: setup_logger_eq reset_handlers_logger_eq upd_logger_simps world_AB_loggers
        cfg_A_def add_all_handlers_def addHandler_def getLogger_def str_or_def)
  have c: "snd (snd ?r) = cfg_A\<lparr>logger := Some ''B''\<rparr>"
    by (simp add: setup_logger_eq getLogger_def str_or_def)
  have v: "dict_values [(''rich_console_handler'', 0), (''file_handler'', 1)] = {0, 1::nat}"
    by (simp add: dict_values_def ran_distinct)
  have "(2::nat) \<in> set [2, 3, 0, 1]" and "(2::nat) \<notin> {0, 1}"
    by simp_all
  then have ne: "set [2, 3, 0, 1] \<noteq> {0, 1::nat}"
    by metis
  have r: "fst ?r = Inr ()"
    by (simp add: setup_logger_eq)
  have l: "logger (cfg_A\<lparr>logger := Some ''B''\<rparr>) = Some ''B''"
    "handlers (cfg_A\<lparr>logger := Some ''B''\<rparr>) = [(''rich_console_handler'', 0), (''file_handler'', 1)]"
    by (simp_all add: cfg_A_def)
  show ?thesis
    unfolding h c l v using ne r init_A init_B by simp
qed

text \<open>
  Claim C6, evaluated on the same run. The object calls \<^verbatim>\<open>setup_logger("B")\<close> a second
  time with the same arguments and the registry untouched. The second call finds
  the object bound to \<^verbatim>\<open>B\<close>, clears it and attaches the registry: the attached set
  shrinks from four handlers to two.
\<close>

theorem setup_logger_twice_differs:
  "lg_handlers (loggers (fst (snd (setup_logger (Some ''B'') None world_AB cfg_A))) ''B'')
     = [2, 3, 0, 1] \<and>
   handlers (snd (snd (setup_logger (Some ''B'') None world_AB cfg_A))) = handlers cfg_A \<and>
   lg_handlers (loggers (fst (snd
       (setup_logger (Some ''B'') None
          (fst (snd (setup_logger (Some ''B'') None world_AB cfg_A)))
          (snd (snd (setup_logger (Some ''B'') None world_AB cfg_A)))))) ''B'')
     = [0, 1] \<and>
   set (lg_handlers (loggers (fst (snd
       (setup_logger (Some ''B'') None
          (fst (snd (setup_logger (Some ''B'') None world_AB cfg_A)))
          (snd (snd (setup_logger (Some ''B'') None world_AB cfg_A)))))) ''B''))
     \<noteq> set (lg_handlers (loggers (fst (snd (setup_logger (Some ''B'') None world_AB cfg_A))) ''B''))"
proof -
  let ?r = "setup_logger (Some ''B'') None world_AB cfg_A"
  have first: "lg_handlers (loggers (fst (snd ?r)) ''B'') = [2, 3, 0, 1]"
    by (simp add: setup_logger_eq reset_handlers_logger_eq upd_logger_simps world_AB_loggers
        cfg_A_def add_all_handlers_def addHandler_def getLogger_def str_or_def)
  have reg: "handlers (snd (snd ?r)) = handlers cfg_A"
    by (simp add: setup_logger_eq)
  have second: "lg_handlers (loggers (fst (snd
       (setup_logger (Some ''B'') None (fst (snd ?r)) (snd (snd ?r))))) ''B'') = [0, 1]"
    by (simp add: setup_logger_eq reset_handlers_logger_eq upd_logger_simps world_AB_loggers
        cfg_A_def add_all_handlers_def addHandler_def getLogger_def str_or_def)
  have "(2::nat) \<in> set [2, 3, 0, 1]" and "(2::nat) \<notin> set [0, 1]"
    by simp_all
  then have ne: "set [0, 1] \<noteq> set [2, 3, 0, 1::nat]"
    by metis
  show ?thesis
    unfolding second first reg using ne by simp
qed

section \<open>Construction\<close>

text \<open>
  Claim C4 as stated fails on the path of the file handler. In a fresh process
  \<^verbatim>\<open>Logger("T")\<close> resolves the directory \<^verbatim>\<open>/app/logs\<close> and attaches a file handler on
  \<^verbatim>\<open>/app/logs/T.log\<close>: the path is neither the resolved directory followed by the
  name nor the two joined by a slash.
\<close>

theorem construct_T_file_path_counterexample:
  "fst (init ''T'' None (Some ''DEBUG'') world0)
     = Inr \<lparr>module_name = ''T'', log_path = ''/app/logs'', log_level = ''DEBUG'',
            log_level_int = 10, logger = Some ''T'',
            formatters = [(''default_formatter'', DEFAULT_FORMATTER)],
            handlers = [(''rich_console_handler'', 0), (''file_handler'', 1)]\<rparr> \<and>
   attached_kinds (snd (init ''T'' None (Some ''DEBUG'') world0)) ''T''
     = [Some (RichHandler True True),
        Some (FileHandler ''/app/logs/T.log'' ''a'' None False None)] \<and>
   ''/app/logs/T.log'' \<noteq> ''/app/logs'' @ ''T'' \<and>
   ''/app/logs/T.log'' \<noteq> ''/app/logs'' @ ''/'' @ ''T''"
  by (simp add: eval_simps world0_def attached_kinds_def kind_of_def)

text \<open>
  Claim C4, amended. Let the logger of the name carry no handler yet, and let the
  directory and the log file be creatable. Then construction with the default
  directory and severity succeeds, binds the logger of that name, and leaves it
  with exactly two handlers, a rich console handler and a file handler on
  resolved directory + \<^verbatim>\<open>"/"\<close> + name + \<^verbatim>\<open>".log"\<close>, and with threshold
  \<^verbatim>\<open>logging.DEBUG\<close>.
\<close>

theorem construct_default_attached:
  assumes "lg_handlers (loggers w (getLogger name)) = []"
    and "cwd w @ ''/logs'' \<in> paths w \<or> cwd w @ ''/logs'' \<notin> mkdir_denied w"
    and "cwd w @ ''/logs'' @ ''/'' @ name @ ''.log'' \<notin> open_denied w"
  shows "\<exists>c w'. init name None (Some ''DEBUG'') w = (Inr c, w') \<and>
      logger c = Some (getLogger name) \<and>
      log_path c = cwd w @ ''/logs'' \<and>
      length (lg_handlers (loggers w' (getLogger name))) = 2 \<and>
      attached_kinds w' (getLogger name)
        = [Some (RichHandler True True),
           Some (FileHandler (log_path c @ ''/'' @ name @ ''.log'') ''a'' None False None)] \<and>
      lg_level (loggers w' (getLogger name)) = logging_DEBUG"
proof -
  have key: "getLogger (str_or (Some name) name) = getLogger name"
    by (simp add: str_or_def)
  show ?thesis
    using assms
    by (auto simp: init_def derive_log_path_def make_log_dir_def create_rich_console_handler_eq
        create_file_handler_eq setup_logger_eq reset_handlers_logger_eq upd_logger_simps
        add_all_handlers_def addHandler_def getitem_def py_str_def upper_names
        std_log_level_DEBUG key Let_def attached_kinds_def kind_of_def nth_append logging_levels)
qed

theorem construct_default_attached_witness:
  "\<exists>c w'. init ''T'' None (Some ''DEBUG'') world0 = (Inr c, w') \<and>
      logger c = Some ''T'' \<and> log_path c = ''/app/logs'' \<and>
      length (lg_handlers (loggers w' ''T'')) = 2 \<and>
      attached_kinds w' ''T''
        = [Some (RichHandler True True),
           Some (FileHandler ''/app/logs/T.log'' ''a'' None False None)] \<and>
      lg_level (loggers w' ''T'') = 10"
proof -
  have 1: "lg_handlers (loggers world0 (getLogger ''T'')) = []"
    by (simp add: world0_def getLogger_def fresh_logger_def)
  have 2: "cwd world0 @ ''/logs'' \<in> paths world0 \<or> cwd world0 @ ''/logs'' \<notin> mkdir_denied world0"
    by (simp add: world0_def)
  have 3: "cwd world0 @ ''/logs'' @ ''/'' @ ''T'' @ ''.log'' \<notin> open_denied world0"
    by (simp add: world0_def)
  have g: "getLogger ''T'' = ''T''" "cwd world0 = ''/app''"
    by (simp_all add: getLogger_def world0_def)
  show ?thesis
    using construct_default_attached [OF 1 2 3] unfolding g
    by (auto simp: logging_levels)
qed

section \<open>The path resolver\<close>

text \<open>
  Claim C5. When the candidate is absent, or the working directory joined with the
  candidate does not exist, \<^verbatim>\<open>_derive_log_path\<close> returns working directory +
  \<^verbatim>\<open>"/logs"\<close>: unchanged state when that directory exists, the directory created
  when it is missing and can be created, and \<^verbatim>\<open>RuntimeError\<close> with nothing returned
  when its creation fails. Otherwise it returns working directory + \<^verbatim>\<open>"/"\<close> +
  candidate and leaves the state as it is: nothing is created or tested beyond
  the existence test that selected the branch.
\<close>

theorem derive_log_path_cases:
  "(cand = None \<or> (\<exists>p. cand = Some p \<and> cwd w @ ''/'' @ p \<notin> paths w) \<longrightarrow>
      (cwd w @ ''/logs'' \<in> paths w \<longrightarrow>
         derive_log_path cand w = (Inr (cwd w @ ''/logs''), w)) \<and>
      (cwd w @ ''/logs'' \<notin> paths w \<and> cwd w @ ''/logs'' \<notin> mkdir_denied w \<longrightarrow>
         derive_log_path cand w
           = (Inr (cwd w @ ''/logs''), w\<lparr>paths := insert (cwd w @ ''/logs'') (paths w)\<rparr>)) \<and>
      (cwd w @ ''/logs'' \<notin> paths w \<and> cwd w @ ''/logs'' \<in> mkdir_denied w \<longrightarrow>
         derive_log_path cand w = (Inl RuntimeError, w))) \<and>
   (cand = Some q \<and> cwd w @ ''/'' @ q \<in> paths w \<longrightarrow>
      derive_log_path cand w = (Inr (cwd w @ ''/'' @ q), w))"
  by (auto simp: derive_log_path_def make_log_dir_def check_path_def Let_def)

theorem derive_log_path_cases_witness:
  "derive_log_path None world0
     = (Inr ''/app/logs'', world0\<lparr>paths := {''/app/logs'', ''/app''}\<rparr>) \<and>
   derive_log_path (Some ''out'') world0
     = (Inr ''/app/logs'', world0\<lparr>paths := {''/app/logs'', ''/app''}\<rparr>) \<and>
   derive_log_path (Some ''out'') (world0\<lparr>paths := {''/app/logs'', ''/app''}\<rparr>)
     = (Inr ''/app/logs'', world0\<lparr>paths := {''/app/logs'', ''/app''}\<rparr>) \<and>
   derive_log_path None (world0\<lparr>mkdir_denied := {''/app/logs''}\<rparr>)
     = (Inl RuntimeError, world0\<lparr>mkdir_denied := {''/app/logs''}\<rparr>) \<and>
   derive_log_path (Some ''out'') (world0\<lparr>paths := {''/app/out'', ''/app''}\<rparr>)
     = (Inr ''/app/out'', world0\<lparr>paths := {''/app/out'', ''/app''}\<rparr>)"
  using derive_log_path_cases [of None world0 "''out''"]
    derive_log_path_cases [of "Some ''out''" world0 "''out''"]
    derive_log_path_cases [of "Some ''out''" "world0\<lparr>paths := {''/app/logs'', ''/app''}\<rparr>" "''out''"]
    derive_log_path_cases [of None "world0\<lparr>mkdir_denied := {''/app/logs''}\<rparr>" "''out''"]
    derive_log_path_cases [of "Some ''out''" "world0\<lparr>paths := {''/app/out'', ''/app''}\<rparr>" "''out''"]
  by (simp add: world0_def)

section \<open>Lookups with a fallback\<close>

lemma has_key_map_of: "has_key d k \<longleftrightarrow> (\<exists>v. map_of d k = Some v)"
  by (metis has_key_def map_of_eq_None_iff not_None_eq)

lemma has_key_update: "has_key (AList.update k v d) k' \<longleftrightarrow> k' = k \<or> has_key d k'"
  by (auto simp: has_key_def dom_update)

lemma has_key_simps:
  "has_key [] k = False" "has_key ((a, b) # d) k = (k = a \<or> has_key d k)"
  by (auto simp: has_key_def)




section \<open>What the public methods preserve\<close>

lemma reset_handlers_list_cfg:
  assumes "has_key (formatters c) ''default_formatter''"
  shows "has_key (handlers (snd (snd (reset_handlers_list w c)))) ''console_handler'' \<and>
         formatters (snd (snd (reset_handlers_list w c))) = formatters c \<and>
         logger (snd (snd (reset_handlers_list w c))) = logger c \<and>
         module_name (snd (snd (reset_handlers_list w c))) = module_name c \<and>
         log_path (snd (snd (reset_handlers_list w c))) = log_path c"
proof -
  obtain f where f: "map_of (formatters c) ''default_formatter'' = Some f"
    using assms by (auto simp: has_key_map_of)
  show ?thesis
    by (simp add: reset_handlers_list_def getitem_def f create_console_handler_eq
        create_file_handler_eq has_key_update has_key_simps Let_def)
qed

lemma step_cfg_ok:
  assumes "cfg_ok (snd s)"
  shows "cfg_ok (snd (step x s))"
proof -
  obtain w c where s: "s = (w, c)"
    by (cases s)
  have ok: "cfg_ok c"
    using assms s by simp
  then have fmt: "has_key (formatters c) ''default_formatter''"
    by (simp add: cfg_ok_def)
  show ?thesis
  proof (cases x)
    case ResetHandlersList
    then show ?thesis
      using ok reset_handlers_list_cfg [OF fmt, of w] by (simp add: s cfg_ok_def)
  next
    case (SetupLogger mn lvl)
    then show ?thesis
      using ok by (simp add: s cfg_ok_def setup_logger_eq)
  qed (use ok in \<open>auto simp: s cfg_ok_def update_handlers_list_def update_formatters_list_def
        reset_formatters_list_def has_key_update has_key_simps\<close>)
qed

lemma run_cfg_ok: "cfg_ok (snd s) \<Longrightarrow> cfg_ok (snd (run xs s))"
  by (induction xs arbitrary: s) (simp_all add: step_cfg_ok)

lemma init_cfg_ok:
  assumes "init name lp lvl w = (Inr c, w')"
  shows "cfg_ok c"
  using assms
  by (auto simp: init_def getitem_def create_rich_console_handler_eq create_file_handler_eq
      setup_logger_eq Let_def cfg_ok_def has_key_def split: prod.splits sum.splits if_splits)




text \<open>
  The same states always hold one of the console handlers and a live logger, so
  on them \<^verbatim>\<open>get_handler\<close> does not raise for any key.
\<close>

theorem get_handler_never_raises_after_init:
  assumes "init name lp lvl w0 = (Inr c0, w1)"
    and "run ops (w1, c0) = (w, c)"
  shows "(\<exists>h. get_handler k c = Inr h) \<and> (\<exists>n. logger c = Some n)"
proof -
  have "cfg_ok (snd (run ops (w1, c0)))"
    by (rule run_cfg_ok) (simp add: init_cfg_ok [OF assms(1)])
  then have ok: "cfg_ok c"
    by (simp add: assms(2))
  show ?thesis
  proof (cases "has_key (handlers c) k")
    case True
    then show ?thesis
      using ok by (auto simp: has_key_map_of get_handler_def cfg_ok_def)
  next
    case False
    have "has_key (handlers c) ''console_handler'' \<or> has_key (handlers c) ''file_handler'' \<or>
         has_key (handlers c) ''rich_console_handler''"
      using ok by (auto simp: cfg_ok_def)
    then have "\<exists>h. get_handler k c = Inr h"
      using False unfolding has_key_map_of get_handler_def
      by (auto simp: Let_def split: option.splits)
    then show ?thesis
      using ok by (simp add: cfg_ok_def)
  qed
qed

theorem get_handler_never_raises_after_init_witness:
  "(\<exists>h. get_handler ''missing'' (snd (run [ResetHandlersList] (world_A, cfg_A))) = Inr h) \<and>
   (\<exists>n. logger (snd (run [ResetHandlersList] (world_A, cfg_A))) = Some n)"
  using get_handler_never_raises_after_init [OF init_A, of "[ResetHandlersList]"
      "fst (run [ResetHandlersList] (world_A, cfg_A))"
      "snd (run [ResetHandlersList] (world_A, cfg_A))" "''missing''"]
  by simp

section \<open>Attaching one registered handler\<close>

text \<open>
  Claim C7. For a key that is not in the registry \<^verbatim>\<open>add_handler_logger\<close> returns
  \<^verbatim>\<open>False\<close> and changes nothing: no logger gains or loses a handler and the object,
  its registry included, stays as it is. For a key that is in the registry, with a
  live logger bound, it returns \<^verbatim>\<open>True\<close>, the entry is attached to the live logger
  afterwards (appended when it was not attached before), and the object is again
  unchanged.
\<close>

theorem add_handler_logger_cases:
  "(\<not> has_key (handlers c) k \<longrightarrow>
      add_handler_logger k w c = (Inr False, w) \<and>
      length (lg_handlers (loggers (snd (add_handler_logger k w c)) n))
        = length (lg_handlers (loggers w n)) \<and>
      step (AddHandlerLogger k) (w, c) = (w, c)) \<and>
   (map_of (handlers c) k = Some h \<and> logger c = Some n \<longrightarrow>
      fst (add_handler_logger k w c) = Inr True \<and>
      h \<in> set (lg_handlers (loggers (snd (add_handler_logger k w c)) n)) \<and>
      lg_handlers (loggers (snd (add_handler_logger k w c)) n)
        = (if h \<in> set (lg_handlers (loggers w n)) then lg_handlers (loggers w n)
           else lg_handlers (loggers w n) @ [h]) \<and>
      snd (step (AddHandlerLogger k) (w, c)) = c)"
proof -
  have miss: "map_of (handlers c) k = None" if "\<not> has_key (handlers c) k"
    using that by (simp add: has_key_def map_of_eq_None_iff)
  show ?thesis
    by (auto simp: add_handler_logger_def miss upd_logger_simps addHandler_def)
qed

theorem add_handler_logger_cases_witness:
  "\<not> has_key (handlers cfg_A) ''nonexistent'' \<and>
   add_handler_logger ''nonexistent'' world_AB cfg_A = (Inr False, world_AB) \<and>
   step (AddHandlerLogger ''nonexistent'') (world_AB, cfg_A) = (world_AB, cfg_A) \<and>
   map_of (handlers cfg_B) ''file_handler'' = Some 3 \<and> logger cfg_B = Some ''B'' \<and>
   fst (add_handler_logger ''file_handler'' world_AB cfg_B) = Inr True \<and>
   lg_handlers (loggers (snd (add_handler_logger ''file_handler'' world_AB cfg_B)) ''B'') = [2, 3] \<and>
   map_of (handlers cfg_A) ''file_handler'' = Some 1 \<and>
   lg_handlers (loggers (snd (add_handler_logger ''file_handler'' world_AB (cfg_A\<lparr>logger := Some ''B''\<rparr>))) ''B'')
     = [2, 3, 1]"
proof -
  have 1: "\<not> has_key (handlers cfg_A) ''nonexistent''"
    by (simp add: cfg_A_def has_key_simps)
  have 2: "map_of (handlers cfg_B) ''file_handler'' = Some 3 \<and> logger cfg_B = Some ''B''"
    by (simp add: cfg_B_def)
  have 3: "map_of (handlers (cfg_A\<lparr>logger := Some ''B''\<rparr>)) ''file_handler'' = Some 1 \<and>
      logger (cfg_A\<lparr>logger := Some ''B''\<rparr>) = Some ''B''"
    by (simp add: cfg_A_def)
  show ?thesis
    using add_handler_logger_cases [of cfg_A "''nonexistent''" world_AB "''A''" 0]
      add_handler_logger_cases [of cfg_B "''file_handler''" world_AB "''B''" 3]
      add_handler_logger_cases [of "cfg_A\<lparr>logger := Some ''B''\<rparr>" "''file_handler''" world_AB "''B''" 1]
      1 2 3
    by (simp add: world_AB_loggers)
qed

section \<open>The two file handlers\<close>

lemma init_registry:
  assumes "init name lp lvl w = (Inr c, w')"
  shows "module_name c = name \<and>
         (\<exists>h. map_of (handlers c) ''file_handler'' = Some h \<and>
              kind_of w' h
                = Some (FileHandler (log_path c @ ''/'' @ module_name c @ ''.log'') ''a'' None False None))"
proof -
  have "module_name c = name \<and>
         (\<exists>h. map_of (handlers c) ''file_handler'' = Some h \<and> h < length (heap w') \<and>
              h_kind (heap w' ! h)
                = FileHandler (log_path c @ ''/'' @ module_name c @ ''.log'') ''a'' None False None)"
    using assms
    by (auto simp: init_def getitem_def create_rich_console_handler_eq create_file_handler_eq
        setup_logger_eq reset_handlers_logger_eq upd_logger_simps Let_def nth_append
        split: prod.splits sum.splits if_splits)
  then show ?thesis
    by (auto simp: kind_of_def)
qed

lemma reset_handlers_list_registry:
  assumes "reset_handlers_list w c = (Inr (), w', c')"
  shows "module_name c' = module_name c \<and> log_path c' = log_path c \<and>
         (\<exists>h. map_of (handlers c') ''file_handler'' = Some h \<and>
              kind_of w' h
                = Some (FileHandler (log_path c @ ''/'' @ module_name c) ''a'' None False None))"
proof -
  have "module_name c' = module_name c \<and> log_path c' = log_path c \<and>
         (\<exists>h. map_of (handlers c') ''file_handler'' = Some h \<and> h < length (heap w') \<and>
              h_kind (heap w' ! h)
                = FileHandler (log_path c @ ''/'' @ module_name c) ''a'' None False None)"
    using assms
    by (auto simp: reset_handlers_list_def getitem_def create_console_handler_eq
        create_file_handler_eq Let_def nth_append
        split: prod.splits sum.splits if_splits option.splits)
  then show ?thesis
    by (auto simp: kind_of_def)
qed

text \<open>No method assigns to \<^verbatim>\<open>module_name\<close> or \<^verbatim>\<open>log_path\<close>.\<close>

lemma reset_handlers_list_names:
  "module_name (snd (snd (reset_handlers_list w c))) = module_name c \<and>
   log_path (snd (snd (reset_handlers_list w c))) = log_path c"
  by (simp add: reset_handlers_list_def create_console_handler_eq create_file_handler_eq Let_def
      split: sum.splits prod.splits)

lemma step_names:
  "module_name (snd (step x s)) = module_name (snd s) \<and>
   log_path (snd (step x s)) = log_path (snd s)"
proof -
  obtain w c where s: "s = (w, c)"
    by (cases s)
  show ?thesis
    by (cases x)
      (simp_all add: s reset_handlers_list_names setup_logger_eq update_handlers_list_def
        update_formatters_list_def reset_formatters_list_def)
qed

lemma run_names:
  "module_name (snd (run xs s)) = module_name (snd s) \<and>
   log_path (snd (run xs s)) = log_path (snd s)"
  by (induction xs arbitrary: s) (simp_all add: step_names)

text \<open>
  Claim C10. The file handler that construction registers is opened on resolved
  directory + \<^verbatim>\<open>"/"\<close> + name + \<^verbatim>\<open>".log"\<close>. Whatever public methods are called in
  between, the one that a later \<^verbatim>\<open>reset_handlers_list\<close> registers is opened on
  resolved directory + \<^verbatim>\<open>"/"\<close> + name, without the suffix: the two file handlers
  write to different paths.
\<close>

theorem file_handler_paths_differ:
  assumes "init name lp lvl w0 = (Inr c, w1)"
    and "run ops (w1, c) = (w2, c2)"
    and "reset_handlers_list w2 c2 = (Inr (), w3, c3)"
  shows "registered_file_path w1 c = Some (log_path c @ ''/'' @ name @ ''.log'') \<and>
         registered_file_path w3 c3 = Some (log_path c @ ''/'' @ name) \<and>
         log_path c3 = log_path c \<and> module_name c3 = name \<and>
         registered_file_path w3 c3 \<noteq> registered_file_path w1 c"
proof -
  from init_registry [OF assms(1)] obtain h where
    n: "module_name c = name" and
    h: "map_of (handlers c) ''file_handler'' = Some h"
       "kind_of w1 h = Some (FileHandler (log_path c @ ''/'' @ name @ ''.log'') ''a'' None False None)"
    by auto
  have c2: "module_name c2 = name" "log_path c2 = log_path c"
    using run_names [of ops "(w1, c)"] n by (simp_all add: assms(2))
  from reset_handlers_list_registry [OF assms(3)] obtain h' where
    c3: "module_name c3 = name" "log_path c3 = log_path c" and
    h': "map_of (handlers c3) ''file_handler'' = Some h'"
       "kind_of w3 h' = Some (FileHandler (log_path c @ ''/'' @ name) ''a'' None False None)"
    using c2 by auto
  show ?thesis
    by (simp add: registered_file_path_def h h' c3)
qed

theorem file_handler_paths_differ_witness:
  "registered_file_path world_A cfg_A = Some ''/app/logs/A.log'' \<and>
   registered_file_path
     (fst (snd (reset_handlers_list world_A (update_handlers_list ''extra'' 0 cfg_A))))
     (snd (snd (reset_handlers_list world_A (update_handlers_list ''extra'' 0 cfg_A))))
     = Some ''/app/logs/A''"
proof -
  let ?c = "update_handlers_list ''extra'' 0 cfg_A"
  have run: "run [UpdateHandlersList ''extra'' 0] (world_A, cfg_A) = (world_A, ?c)"
    by simp
  have r: "fst (reset_handlers_list world_A ?c) = Inr ()"
    by (simp add: reset_handlers_list_def getitem_def create_console_handler_eq
        create_file_handler_eq Let_def cfg_A_def update_handlers_list_def)
       (simp add: world_A_def eval_simps world0_def)
  have "reset_handlers_list world_A ?c
      = (Inr (), fst (snd (reset_handlers_list world_A ?c)),
         snd (snd (reset_handlers_list world_A ?c)))"
    using r by (simp add: prod_eq_iff)
  from file_handler_paths_differ [OF init_A run this] show ?thesis
    by (simp add: cfg_A_def)
qed

section \<open>Further properties of the registry and the live logger\<close>

lemma add_loop_handlers_cong:
  "lg_handlers l = lg_handlers l' \<Longrightarrow>
   lg_handlers (fold (\<lambda>key l'. case map_of d key of None \<Rightarrow> l' | Some h \<Rightarrow> addHandler h l') ks l)
   = lg_handlers (fold (\<lambda>key l'. case map_of d key of None \<Rightarrow> l' | Some h \<Rightarrow> addHandler h l') ks l')"
proof (induction ks arbitrary: l l')
  case Nil
  then show ?case by simp
next
  case (Cons k ks)
  show ?case
  proof (cases "map_of d k")
    case None
    then show ?thesis
      using Cons.IH [OF Cons.prems] by simp
  next
    case (Some h)
    have "lg_handlers (addHandler h l) = lg_handlers (addHandler h l')"
      unfolding addHandler_def using Cons.prems by simp
    from Cons.IH [OF this] show ?thesis
      using Some by simp
  qed
qed

lemma add_all_handlers_cong:
  "lg_handlers l = lg_handlers l' \<Longrightarrow>
   lg_handlers (add_all_handlers d l) = lg_handlers (add_all_handlers d l')"
  unfolding add_all_handlers_def by (rule add_loop_handlers_cong)

text \<open>
  When the object is already bound to the logger that \<^verbatim>\<open>setup_logger\<close> configures, or
  that logger carries no handler, the handlers attached afterwards are exactly the
  values of the registry.
\<close>

theorem setup_logger_attached_exact:
  assumes "logger c = Some (getLogger (str_or mn (module_name c))) \<or>
           lg_handlers (loggers w (getLogger (str_or mn (module_name c)))) = []"
  shows "set (lg_handlers (loggers (fst (snd (setup_logger mn lvl w c)))
                 (getLogger (str_or mn (module_name c)))))
         = dict_values (handlers (snd (snd (setup_logger mn lvl w c))))"
  using assms
  by (auto simp: setup_logger_eq reset_handlers_logger_eq upd_logger_simps add_all_handlers_set
      split: option.splits)

theorem setup_logger_attached_exact_witness:
  "set (lg_handlers (loggers (fst (snd (setup_logger None (Some ''INFO'') world_AB cfg_A))) ''A''))
     = dict_values (handlers cfg_A)"
proof -
  have g: "getLogger (str_or None (module_name cfg_A)) = ''A''"
    by (simp add: getLogger_def str_or_def cfg_A_def)
  have b: "logger cfg_A = Some (getLogger (str_or None (module_name cfg_A))) \<or>
           lg_handlers (loggers world_AB (getLogger (str_or None (module_name cfg_A)))) = []"
    unfolding g by (simp add: cfg_A_def)
  have c: "snd (snd (setup_logger None (Some ''INFO'') world_AB cfg_A)) = cfg_A\<lparr>logger := Some ''A''\<rparr>"
    by (simp add: setup_logger_eq g)
  show ?thesis
    using setup_logger_attached_exact [OF b, of "Some ''INFO''"] unfolding g c by simp
qed

text \<open>
  Under the same condition a second call with the same arguments leaves the same
  list of attached handlers as the first.
\<close>

theorem setup_logger_idempotent_when_bound:
  assumes "logger c = Some (getLogger (str_or mn (module_name c))) \<or>
           lg_handlers (loggers w (getLogger (str_or mn (module_name c)))) = []"
  shows "lg_handlers (loggers (fst (snd
            (setup_logger mn lvl (fst (snd (setup_logger mn lvl w c)))
               (snd (snd (setup_logger mn lvl w c))))))
            (getLogger (str_or mn (module_name c))))
         = lg_handlers (loggers (fst (snd (setup_logger mn lvl w c)))
            (getLogger (str_or mn (module_name c))))"
  using assms
  by (auto simp: setup_logger_eq reset_handlers_logger_eq upd_logger_simps
      intro!: add_all_handlers_cong split: option.splits)

theorem setup_logger_idempotent_when_bound_witness:
  "lg_handlers (loggers (fst (snd
      (setup_logger None None (fst (snd (setup_logger None None world_AB cfg_A)))
         (snd (snd (setup_logger None None world_AB cfg_A)))))) ''A'')
   = lg_handlers (loggers (fst (snd (setup_logger None None world_AB cfg_A))) ''A'')"
proof -
  have g: "getLogger (str_or None (module_name cfg_A)) = ''A''"
    by (simp add: getLogger_def str_or_def cfg_A_def)
  have b: "logger cfg_A = Some (getLogger (str_or None (module_name cfg_A))) \<or>
           lg_handlers (loggers world_AB (getLogger (str_or None (module_name cfg_A)))) = []"
    unfolding g by (simp add: cfg_A_def)
  show ?thesis
    using setup_logger_idempotent_when_bound [OF b, of None] unfolding g by simp
qed

text \<open>
  \<^verbatim>\<open>reset_handlers_logger\<close> returns \<^verbatim>\<open>False\<close> and does nothing without a live logger;
  with one it returns \<^verbatim>\<open>True\<close>, the live logger has no handler afterwards and every
  other logger is as before.
\<close>

theorem reset_handlers_logger_cases:
  "(logger c = None \<longrightarrow> reset_handlers_logger w c = (False, w)) \<and>
   (logger c = Some n \<longrightarrow>
      fst (reset_handlers_logger w c) = True \<and>
      lg_handlers (loggers (snd (reset_handlers_logger w c)) n) = [] \<and>
      (m \<noteq> n \<longrightarrow> loggers (snd (reset_handlers_logger w c)) m = loggers w m))"
  by (simp add: reset_handlers_logger_eq upd_logger_simps)

theorem reset_handlers_logger_cases_witness:
  "reset_handlers_logger world_AB (cfg_A\<lparr>logger := None\<rparr>) = (False, world_AB) \<and>
   fst (reset_handlers_logger world_AB cfg_A) = True \<and>
   lg_handlers (loggers (snd (reset_handlers_logger world_AB cfg_A)) ''A'') = [] \<and>
   lg_handlers (loggers (snd (reset_handlers_logger world_AB cfg_A)) ''B'') = [2, 3]"
  using reset_handlers_logger_cases [of "cfg_A\<lparr>logger := None\<rparr>" world_AB "''A''" "''B''"]
    reset_handlers_logger_cases [of cfg_A world_AB "''A''" "''B''"]
  by (simp add: cfg_A_def world_AB_loggers)

text \<open>
  A handler stored with \<^verbatim>\<open>update_handlers_list\<close> is what \<^verbatim>\<open>get_handler\<close> returns for
  its key, and the live logger is not touched.
\<close>

theorem update_then_get_handler:
  "get_handler k (update_handlers_list k h c) = Inr h \<and>
   fst (step (UpdateHandlersList k h) (w, c)) = w"
  by (simp add: get_handler_def update_handlers_list_def update_conv)

text \<open>
  After a \<^verbatim>\<open>reset_handlers_list\<close> that returns, the registry has exactly the keys
  \<^verbatim>\<open>console_handler\<close> and \<^verbatim>\<open>file_handler\<close>, both lookups succeed, and no logger has
  changed.
\<close>

theorem reset_handlers_list_keys:
  assumes "reset_handlers_list w c = (Inr (), w', c')"
  shows "map fst (handlers c') = [''console_handler'', ''file_handler''] \<and>
         get_handler ''console_handler'' c' = Inr (length (heap w)) \<and>
         get_handler ''file_handler'' c' = Inr (Suc (length (heap w))) \<and>
         loggers w' = loggers w"
  using assms
  by (auto simp: reset_handlers_list_def getitem_def create_console_handler_eq
      create_file_handler_eq Let_def get_handler_def
      split: prod.splits sum.splits if_splits option.splits)

theorem reset_handlers_list_keys_witness:
  "map fst (handlers (snd (snd (reset_handlers_list world_A cfg_A))))
     = [''console_handler'', ''file_handler''] \<and>
   get_handler ''console_handler'' (snd (snd (reset_handlers_list world_A cfg_A))) = Inr 2 \<and>
   get_handler ''file_handler'' (snd (snd (reset_handlers_list world_A cfg_A))) = Inr 3"
proof -
  have r: "fst (reset_handlers_list world_A cfg_A) = Inr ()"
    by (simp add: reset_handlers_list_def getitem_def create_console_handler_eq
        create_file_handler_eq Let_def cfg_A_def)
       (simp add: world_A_def eval_simps world0_def)
  have e: "reset_handlers_list world_A cfg_A
      = (Inr (), fst (snd (reset_handlers_list world_A cfg_A)),
         snd (snd (reset_handlers_list world_A cfg_A)))"
    using r by (simp add: prod_eq_iff)
  have l: "length (heap world_A) = 2"
    by (simp add: world_A_def eval_simps world0_def)
  show ?thesis
    using reset_handlers_list_keys [OF e] unfolding l by simp
qed

end
